theory Spec2Isabelle
  imports Main "HOL-Library.Word"
begin

unbundle bit_operations_syntax

section \<open>The DPSW command codec of the dpaa2 Ethernet switch driver\<close>

text \<open>
  This theory embeds \<^verbatim>\<open>dpsw.c\<close> (with the declarations of \<^verbatim>\<open>dpsw.h\<close>): the
  marshalling layer that turns every Data Path Switch operation into a command buffer
  for the Management Complex and decodes the firmware's answer.

  The fixed-width C integers are words; the C type \<^verbatim>\<open>int\<close> (status codes, enum values,
  object ids) is a 32-bit word in two's complement. Arrays are lists, and every indexed
  read or write of a caller-supplied array checks its bounds: where the C code would
  touch memory outside the array the model returns \<open>None\<close>.
\<close>

type_synonym u8 = "8 word"
type_synonym u16 = "16 word"
type_synonym u32 = "32 word"
type_synonym u64 = "64 word"
type_synonym c_int = "32 word"

definition array_get :: "'a list \<Rightarrow> nat \<Rightarrow> 'a option" where
  "array_get xs i = (if i < length xs then Some (xs ! i) else None)"

definition array_set :: "'a list \<Rightarrow> nat \<Rightarrow> 'a \<Rightarrow> 'a list option" where
  "array_set xs i v = (if i < length xs then Some (xs[i := v]) else None)"

subsection \<open>Byte order\<close>

text \<open>
  Modelled from the spec: the kernel's byte-order helpers \<^verbatim>\<open>cpu_to_le16/32/64\<close> and
  \<^verbatim>\<open>le16/32/64_to_cpu\<close> are not part of the sources at hand. The spec fixes them: every
  multi-byte scalar field is little-endian on the wire. A value of type \<^verbatim>\<open>__le16\<close>,
  \<^verbatim>\<open>__le32\<close> or \<^verbatim>\<open>__le64\<close> is the list of its bytes in memory order, least
  significant byte first. Decoding a list shorter than the width reads the missing bytes
  as zero.
\<close>

definition cpu_to_le16 :: "u16 \<Rightarrow> u8 list" where
  "cpu_to_le16 x = [ucast x, ucast (drop_bit 8 x)]"

definition cpu_to_le32 :: "u32 \<Rightarrow> u8 list" where
  "cpu_to_le32 x = [ucast x, ucast (drop_bit 8 x), ucast (drop_bit 16 x), ucast (drop_bit 24 x)]"

definition cpu_to_le64 :: "u64 \<Rightarrow> u8 list" where
  "cpu_to_le64 x = [ucast x, ucast (drop_bit 8 x), ucast (drop_bit 16 x), ucast (drop_bit 24 x),
     ucast (drop_bit 32 x), ucast (drop_bit 40 x), ucast (drop_bit 48 x), ucast (drop_bit 56 x)]"

primrec le_to_cpu :: "u8 list \<Rightarrow> 'a::len word" where
  "le_to_cpu [] = 0"
| "le_to_cpu (b # bs) = ucast b OR push_bit 8 (le_to_cpu bs)"

definition u8_member :: "u8 list \<Rightarrow> u8" where
  "u8_member bs = le_to_cpu (take 1 bs)"

definition le16_to_cpu :: "u8 list \<Rightarrow> u16" where
  "le16_to_cpu bs = le_to_cpu (take 2 bs)"

definition le32_to_cpu :: "u8 list \<Rightarrow> u32" where
  "le32_to_cpu bs = le_to_cpu (take 4 bs)"

definition le64_to_cpu :: "u8 list \<Rightarrow> u64" where
  "le64_to_cpu bs = le_to_cpu (take 8 bs)"

text \<open>
  \<^verbatim>\<open>a |= b\<close> on two \<^verbatim>\<open>__le64\<close> values works on their memory images, byte by byte.
\<close>

definition le64_or :: "u8 list \<Rightarrow> u8 list \<Rightarrow> u8 list" where
  "le64_or a b = map2 (OR) a b"

subsection \<open>Packed bit-fields\<close>

text \<open>
  The bit-fields that \<^verbatim>\<open>dpsw.c\<close> names. Their positions, the macros
  \<^verbatim>\<open>DPSW_<field>_SHIFT\<close> and \<^verbatim>\<open>DPSW_<field>_SIZE\<close> of \<^verbatim>\<open>dpsw-cmd.h\<close>, are not part of
  the sources at hand, so every operation that packs a field takes the table of
  positions as its first argument.
\<close>

datatype dpsw_field =
    ENABLE | COMPONENT_TYPE | ACCEPT_ALL_VLAN | ADMIT_UNTAGGED | UP
  | VLAN_ID | DEI | PCP | STATE | COUNTER_TYPE | ENTRY_TYPE | LEARNING_MODE | RESULT_ACTION

record dpsw_field_layout =
  SHIFT :: "dpsw_field \<Rightarrow> nat"
  SIZE :: "dpsw_field \<Rightarrow> nat"

text \<open>
  Modelled from the spec: the macros \<^verbatim>\<open>DPSW_MASK\<close>, \<^verbatim>\<open>dpsw_set_field\<close> and
  \<^verbatim>\<open>dpsw_get_field\<close> of \<^verbatim>\<open>dpsw-cmd.h\<close> are missing. The spec describes them as a
  bit-field codec that writes or reads an N-bit unsigned value at a given bit offset of
  an integer slot, leaves the other bits of the slot untouched on a write, masks exactly
  the declared width on a read, and silently truncates a value wider than the field. The
  value is merged into the slot by OR, the way \<^verbatim>\<open>dpsw.c\<close> builds every slot from zero.
\<close>

definition DPSW_MASK :: "dpsw_field_layout \<Rightarrow> dpsw_field \<Rightarrow> 'a::len word" where
  "DPSW_MASK L field = push_bit (SHIFT L field) (mask (SIZE L field))"

definition dpsw_set_field ::
  "dpsw_field_layout \<Rightarrow> 'a::len word \<Rightarrow> dpsw_field \<Rightarrow> 'b::len word \<Rightarrow> 'a word" where
  "dpsw_set_field L var field val =
     var OR (push_bit (SHIFT L field) (ucast val) AND DPSW_MASK L field)"

definition dpsw_get_field :: "dpsw_field_layout \<Rightarrow> 'a::len word \<Rightarrow> dpsw_field \<Rightarrow> 'a word" where
  "dpsw_get_field L var field = drop_bit (SHIFT L field) (var AND DPSW_MASK L field)"

subsection \<open>The interface-set bitmap\<close>

definition DPSW_MAX_IF :: nat where
  "DPSW_MAX_IF = 64"

text \<open>
  Modelled from the spec: \<^verbatim>\<open>BIT_MASK\<close> of the kernel's bit helpers is missing; for a bit
  number \<open>nr\<close> it is the 64-bit word with only bit \<open>nr mod 64\<close> set.
\<close>

definition BIT_MASK :: "nat \<Rightarrow> u64" where
  "BIT_MASK nr = push_bit (nr mod 64) 1"

text \<open>
  \<^verbatim>\<open>build_if_id_bitmap\<close>: the loop \<^verbatim>\<open>for (i = 0; (i < num_ifs) && (i < DPSW_MAX_IF); i++)\<close>,
  started at \<open>i\<close>. The bitmap is an array of \<^verbatim>\<open>__le64\<close> words, each one a list of bytes.
\<close>

function build_if_id_bitmap_from ::
  "nat \<Rightarrow> u8 list list \<Rightarrow> u16 list \<Rightarrow> u16 \<Rightarrow> u8 list list option" where
  "build_if_id_bitmap_from i bmap ids num_ifs =
     (if i < unat num_ifs \<and> i < DPSW_MAX_IF then
        (if length ids \<le> i then None
         else if unat (ids ! i) < DPSW_MAX_IF then
           (if length bmap \<le> unat (ids ! i) div 64 then None
            else build_if_id_bitmap_from (Suc i)
                   (bmap[unat (ids ! i) div 64 :=
                      le64_or (bmap ! (unat (ids ! i) div 64))
                              (cpu_to_le64 (BIT_MASK (unat (ids ! i) mod 64)))])
                   ids num_ifs)
         else build_if_id_bitmap_from (Suc i) bmap ids num_ifs)
      else Some bmap)"
  by pat_completeness auto
termination
  by (relation "measure (\<lambda>(i, bmap, ids, num_ifs). DPSW_MAX_IF - i)") auto

declare build_if_id_bitmap_from.simps [simp del]

definition build_if_id_bitmap :: "u8 list list \<Rightarrow> u16 list \<Rightarrow> u16 \<Rightarrow> u8 list list option" where
  "build_if_id_bitmap bmap ids num_ifs = build_if_id_bitmap_from 0 bmap ids num_ifs"

text \<open>
  One pass of the loop body, on a bitmap that may already have failed. The loop is a fold
  of this step over the entries it visits (\<open>build_if_id_bitmap_fold\<close> below).
\<close>

definition bitmap_step :: "u16 \<Rightarrow> u8 list list option \<Rightarrow> u8 list list option" where
  "bitmap_step x ob =
     (case ob of None \<Rightarrow> None
      | Some bmap \<Rightarrow>
          if unat x < DPSW_MAX_IF then
            (if length bmap \<le> unat x div 64 then None
             else Some (bmap[unat x div 64 :=
                    le64_or (bmap ! (unat x div 64)) (cpu_to_le64 (BIT_MASK (unat x mod 64)))]))
          else Some bmap)"

subsection \<open>Hardware addresses\<close>

text \<open>
  The two copy loops over a 6-byte address. Towards the wire the code runs
  \<^verbatim>\<open>for (i = 0; i < 6; i++) dst[i] = src[5 - i];\<close> and from the wire
  \<^verbatim>\<open>for (i = 0; i < 6; i++) dst[5 - i] = src[i];\<close>. Both are given from index \<open>i\<close> on.
\<close>

function mac_to_wire_from :: "nat \<Rightarrow> u8 list \<Rightarrow> u8 list \<Rightarrow> u8 list option" where
  "mac_to_wire_from i dst src =
     (if i < 6 then
        (case array_get src (5 - i) of
           None \<Rightarrow> None
         | Some v \<Rightarrow>
             (case array_set dst i v of
                None \<Rightarrow> None
              | Some dst' \<Rightarrow> mac_to_wire_from (Suc i) dst' src))
      else Some dst)"
  by pat_completeness auto
termination
  by (relation "measure (\<lambda>(i, dst, src). 6 - i)") auto

declare mac_to_wire_from.simps [simp del]

function mac_from_wire_from :: "nat \<Rightarrow> u8 list \<Rightarrow> u8 list \<Rightarrow> u8 list option" where
  "mac_from_wire_from i dst src =
     (if i < 6 then
        (case array_get src i of
           None \<Rightarrow> None
         | Some v \<Rightarrow>
             (case array_set dst (5 - i) v of
                None \<Rightarrow> None
              | Some dst' \<Rightarrow> mac_from_wire_from (Suc i) dst' src))
      else Some dst)"
  by pat_completeness auto
termination
  by (relation "measure (\<lambda>(i, dst, src). 6 - i)") auto

declare mac_from_wire_from.simps [simp del]

definition mac_to_wire :: "u8 list \<Rightarrow> u8 list \<Rightarrow> u8 list option" where
  "mac_to_wire dst src = mac_to_wire_from 0 dst src"

definition mac_from_wire :: "u8 list \<Rightarrow> u8 list \<Rightarrow> u8 list option" where
  "mac_from_wire dst src = mac_from_wire_from 0 dst src"

subsection \<open>Command buffers and the transport\<close>

text \<open>
  The command identifiers that \<^verbatim>\<open>dpsw.c\<close> passes to the header encoder. Their numeric
  values are macros of \<^verbatim>\<open>dpsw-cmd.h\<close>, which is not part of the sources at hand; an
  identifier is therefore kept by its macro name.
\<close>

datatype dpsw_cmdid =
    DPSW_CMDID_OPEN | DPSW_CMDID_CLOSE | DPSW_CMDID_ENABLE | DPSW_CMDID_DISABLE
  | DPSW_CMDID_RESET | DPSW_CMDID_SET_IRQ_ENABLE | DPSW_CMDID_SET_IRQ_MASK
  | DPSW_CMDID_GET_IRQ_STATUS | DPSW_CMDID_CLEAR_IRQ_STATUS | DPSW_CMDID_GET_ATTR
  | DPSW_CMDID_IF_GET_ATTR | DPSW_CMDID_IF_SET_LINK_CFG | DPSW_CMDID_IF_GET_LINK_STATE
  | DPSW_CMDID_IF_SET_FLOODING | DPSW_CMDID_IF_SET_BROADCAST | DPSW_CMDID_IF_SET_TCI
  | DPSW_CMDID_IF_GET_TCI | DPSW_CMDID_IF_SET_STP | DPSW_CMDID_IF_GET_COUNTER
  | DPSW_CMDID_IF_ENABLE | DPSW_CMDID_IF_DISABLE | DPSW_CMDID_IF_SET_MAX_FRAME_LENGTH
  | DPSW_CMDID_VLAN_ADD | DPSW_CMDID_VLAN_ADD_IF | DPSW_CMDID_VLAN_ADD_IF_UNTAGGED
  | DPSW_CMDID_VLAN_REMOVE_IF | DPSW_CMDID_VLAN_REMOVE_IF_UNTAGGED | DPSW_CMDID_VLAN_REMOVE
  | DPSW_CMDID_FDB_ADD_UNICAST | DPSW_CMDID_FDB_DUMP | DPSW_CMDID_FDB_REMOVE_UNICAST
  | DPSW_CMDID_FDB_ADD_MULTICAST | DPSW_CMDID_FDB_REMOVE_MULTICAST
  | DPSW_CMDID_FDB_SET_LEARNING_MODE | DPSW_CMDID_GET_API_VERSION
  | DPSW_CMDID_IF_GET_PORT_MAC_ADDR | DPSW_CMDID_IF_SET_PRIMARY_MAC_ADDR
  | DPSW_CMDID_ACL_ADD | DPSW_CMDID_ACL_REMOVE | DPSW_CMDID_ACL_ADD_IF
  | DPSW_CMDID_ACL_REMOVE_IF | DPSW_CMDID_ACL_ADD_ENTRY

text \<open>
  Modelled from the spec: \<^verbatim>\<open>struct fsl_mc_command\<close>, \<^verbatim>\<open>mc_encode_cmd_header\<close>,
  \<^verbatim>\<open>mc_cmd_hdr_read_token\<close> and \<^verbatim>\<open>mc_send_command\<close> belong to the bus driver and are
  missing. By the spec the header codec produces the header fields of a command buffer
  from a command identifier, a flag set and a session token, and extracts the token from
  a buffer after a round trip; the transport is one synchronous call that takes the
  buffer, may rewrite it with the response and returns a status.

  The payload structs \<^verbatim>\<open>dpsw_cmd_*\<close> and \<^verbatim>\<open>dpsw_rsp_*\<close> are declared in
  \<^verbatim>\<open>dpsw-cmd.h\<close> as well. A payload is kept member by member: \<open>params\<close> maps the name of
  a struct member to the bytes stored in it, in memory order. A member that was never
  written maps to the empty list and stands for the zeros of \<^verbatim>\<open>cmd = { 0 }\<close>. The
  bit-field slots inside a payload are single bytes.
\<close>

record mc_cmd_header =
  hdr_cmd_id :: dpsw_cmdid
  hdr_flags :: u32
  hdr_token :: u16

record fsl_mc_command =
  header :: mc_cmd_header
  params :: "string \<Rightarrow> u8 list"

definition zero_params :: "string \<Rightarrow> u8 list" where
  "zero_params = (\<lambda>_. [])"

definition mc_encode_cmd_header :: "dpsw_cmdid \<Rightarrow> u32 \<Rightarrow> u16 \<Rightarrow> mc_cmd_header" where
  "mc_encode_cmd_header cmd_id cmd_flags token =
     \<lparr>hdr_cmd_id = cmd_id, hdr_flags = cmd_flags, hdr_token = token\<rparr>"

definition mc_cmd_hdr_read_token :: "fsl_mc_command \<Rightarrow> u16" where
  "mc_cmd_hdr_read_token cmd = hdr_token (header cmd)"

type_synonym fsl_mc_io = "fsl_mc_command \<Rightarrow> c_int \<times> fsl_mc_command"

definition mc_send_command :: "fsl_mc_io \<Rightarrow> fsl_mc_command \<Rightarrow> c_int \<times> fsl_mc_command" where
  "mc_send_command mc_io cmd = mc_io cmd"

text \<open>
  A transport to observe what an operation submits: it leaves the buffer as it is and
  answers with a status computed from the session token of the header it receives.
\<close>

definition token_probe :: "(u16 \<Rightarrow> c_int) \<Rightarrow> fsl_mc_io" where
  "token_probe g = (\<lambda>cmd. (g (hdr_token (header cmd)), cmd))"

text \<open>
  The bytes of a fixed-size array member of a payload struct: \<open>n\<close> bytes, the missing ones
  zero.
\<close>

definition array_member :: "nat \<Rightarrow> u8 list \<Rightarrow> u8 list" where
  "array_member n bs = take n (bs @ replicate n 0)"

text \<open>
  Modelled from the spec: the interface bitmap member \<^verbatim>\<open>if_id\<close> of a payload covers
  the maximum interface count with 64-bit words (64 interfaces, one word). In a fresh
  command it is zero, as is the 6-byte member \<^verbatim>\<open>mac_addr\<close>.
\<close>

definition zero_if_id_bitmap :: "u8 list list" where
  "zero_if_id_bitmap = replicate ((DPSW_MAX_IF + 63) div 64) (replicate 8 0)"

definition zero_mac_addr :: "u8 list" where
  "zero_mac_addr = replicate 6 0"

subsection \<open>The structures of \<^verbatim>\<open>dpsw.h\<close>\<close>

record dpsw_attr =
  id_attr :: c_int
  options :: u64
  max_vlans :: u16
  max_meters_per_if :: u8
  max_fdbs :: u8
  max_fdb_entries :: u16
  fdb_aging_time :: u16
  max_fdb_mc_groups :: u16
  num_ifs :: u16
  mem_size :: u16
  num_vlans :: u16
  num_fdbs :: u8
  component_type :: c_int

record dpsw_link_cfg =
  rate :: u32
  options :: u64

record dpsw_link_state =
  rate :: u32
  options :: u64
  up :: u8

record dpsw_tci_cfg =
  pcp :: u8
  dei :: u8
  vlan_id :: u16

record dpsw_stp_cfg =
  vlan_id :: u16
  state :: c_int

record dpsw_if_attr =
  num_tcs :: u8
  rate :: u32
  options :: u32
  enabled :: c_int
  accept_all_vlan :: c_int
  admit_untagged :: c_int
  qdid :: u16

record dpsw_vlan_cfg =
  fdb_id :: u16

record dpsw_vlan_if_cfg =
  num_ifs :: u16
  if_id :: "u16 list"

record dpsw_fdb_unicast_cfg =
  type :: c_int
  mac_addr :: "u8 list"
  if_egress :: u16

record dpsw_fdb_multicast_cfg =
  type :: c_int
  mac_addr :: "u8 list"
  num_ifs :: u16
  if_id :: "u16 list"

record dpsw_acl_cfg =
  max_entries :: u16

record dpsw_acl_if_cfg =
  num_ifs :: u16
  if_id :: "u16 list"

record dpsw_acl_fields =
  l2_dest_mac :: "u8 list"
  l2_source_mac :: "u8 list"
  l2_tpid :: u16
  l2_pcp_dei :: u8
  l2_vlan_id :: u16
  l2_ether_type :: u16
  l3_dscp :: u8
  l3_protocol :: u8
  l3_source_ip :: u32
  l3_dest_ip :: u32
  l4_source_port :: u16
  l4_dest_port :: u16
  frame_flags :: u8

record dpsw_acl_key =
  match :: dpsw_acl_fields
  mask_key :: dpsw_acl_fields

record dpsw_acl_result =
  action :: c_int
  if_id :: u16
  lookup_table :: c_int

record dpsw_acl_entry_cfg =
  key_iova :: u64
  result :: dpsw_acl_result
  precedence :: c_int

subsection \<open>The operations\<close>

text \<open>
  Every operation comes in two parts. \<open>dpsw_X_cmd\<close> is the code under
  \<^verbatim>\<open>/* prepare command */\<close>: it yields the buffer handed to the transport. \<open>dpsw_X\<close> is
  the whole function: it sends that buffer and, where the function has output
  parameters, returns them next to the status. An output parameter is passed in with the
  value it holds before the call.
\<close>

definition dpsw_open_cmd :: "u32 \<Rightarrow> c_int \<Rightarrow> fsl_mc_command" where
  "dpsw_open_cmd cmd_flags dpsw_id =
     \<lparr>header = mc_encode_cmd_header DPSW_CMDID_OPEN cmd_flags 0,
      params = zero_params(''dpsw_id'' := cpu_to_le32 dpsw_id)\<rparr>"

definition dpsw_open :: "fsl_mc_io \<Rightarrow> u32 \<Rightarrow> c_int \<Rightarrow> u16 \<Rightarrow> c_int \<times> u16" where
  "dpsw_open mc_io cmd_flags dpsw_id token =
     (case mc_send_command mc_io (dpsw_open_cmd cmd_flags dpsw_id) of
        (err, cmd) \<Rightarrow> if err \<noteq> 0 then (err, token) else (0, mc_cmd_hdr_read_token cmd))"

definition dpsw_close_cmd :: "u32 \<Rightarrow> u16 \<Rightarrow> fsl_mc_command" where
  "dpsw_close_cmd cmd_flags token =
     \<lparr>header = mc_encode_cmd_header DPSW_CMDID_CLOSE cmd_flags token, params = zero_params\<rparr>"

definition dpsw_close :: "fsl_mc_io \<Rightarrow> u32 \<Rightarrow> u16 \<Rightarrow> c_int" where
  "dpsw_close mc_io cmd_flags token = fst (mc_send_command mc_io (dpsw_close_cmd cmd_flags token))"

definition dpsw_enable_cmd :: "u32 \<Rightarrow> u16 \<Rightarrow> fsl_mc_command" where
  "dpsw_enable_cmd cmd_flags token =
     \<lparr>header = mc_encode_cmd_header DPSW_CMDID_ENABLE cmd_flags token, params = zero_params\<rparr>"

definition dpsw_enable :: "fsl_mc_io \<Rightarrow> u32 \<Rightarrow> u16 \<Rightarrow> c_int" where
  "dpsw_enable mc_io cmd_flags token = fst (mc_send_command mc_io (dpsw_enable_cmd cmd_flags token))"

definition dpsw_disable_cmd :: "u32 \<Rightarrow> u16 \<Rightarrow> fsl_mc_command" where
  "dpsw_disable_cmd cmd_flags token =
     \<lparr>header = mc_encode_cmd_header DPSW_CMDID_DISABLE cmd_flags token, params = zero_params\<rparr>"

definition dpsw_disable :: "fsl_mc_io \<Rightarrow> u32 \<Rightarrow> u16 \<Rightarrow> c_int" where
  "dpsw_disable mc_io cmd_flags token =
     fst (mc_send_command mc_io (dpsw_disable_cmd cmd_flags token))"

definition dpsw_reset_cmd :: "u32 \<Rightarrow> u16 \<Rightarrow> fsl_mc_command" where
  "dpsw_reset_cmd cmd_flags token =
     \<lparr>header = mc_encode_cmd_header DPSW_CMDID_RESET cmd_flags token, params = zero_params\<rparr>"

definition dpsw_reset :: "fsl_mc_io \<Rightarrow> u32 \<Rightarrow> u16 \<Rightarrow> c_int" where
  "dpsw_reset mc_io cmd_flags token = fst (mc_send_command mc_io (dpsw_reset_cmd cmd_flags token))"

definition dpsw_set_irq_enable_cmd ::
  "dpsw_field_layout \<Rightarrow> u32 \<Rightarrow> u16 \<Rightarrow> u8 \<Rightarrow> u8 \<Rightarrow> fsl_mc_command" where
  "dpsw_set_irq_enable_cmd L cmd_flags token irq_index en =
     \<lparr>header = mc_encode_cmd_header DPSW_CMDID_SET_IRQ_ENABLE cmd_flags token,
      params = zero_params
        (''enable_state'' := [dpsw_set_field L (0 :: u8) ENABLE en],
         ''irq_index'' := [irq_index])\<rparr>"

definition dpsw_set_irq_enable ::
  "fsl_mc_io \<Rightarrow> dpsw_field_layout \<Rightarrow> u32 \<Rightarrow> u16 \<Rightarrow> u8 \<Rightarrow> u8 \<Rightarrow> c_int" where
  "dpsw_set_irq_enable mc_io L cmd_flags token irq_index en =
     fst (mc_send_command mc_io (dpsw_set_irq_enable_cmd L cmd_flags token irq_index en))"

definition dpsw_set_irq_mask_cmd :: "u32 \<Rightarrow> u16 \<Rightarrow> u8 \<Rightarrow> u32 \<Rightarrow> fsl_mc_command" where
  "dpsw_set_irq_mask_cmd cmd_flags token irq_index mask_arg =
     \<lparr>header = mc_encode_cmd_header DPSW_CMDID_SET_IRQ_MASK cmd_flags token,
      params = zero_params
        (''mask'' := cpu_to_le32 mask_arg,
         ''irq_index'' := [irq_index])\<rparr>"

definition dpsw_set_irq_mask :: "fsl_mc_io \<Rightarrow> u32 \<Rightarrow> u16 \<Rightarrow> u8 \<Rightarrow> u32 \<Rightarrow> c_int" where
  "dpsw_set_irq_mask mc_io cmd_flags token irq_index mask_arg =
     fst (mc_send_command mc_io (dpsw_set_irq_mask_cmd cmd_flags token irq_index mask_arg))"

definition dpsw_get_irq_status_cmd :: "u32 \<Rightarrow> u16 \<Rightarrow> u8 \<Rightarrow> u32 \<Rightarrow> fsl_mc_command" where
  "dpsw_get_irq_status_cmd cmd_flags token irq_index status =
     \<lparr>header = mc_encode_cmd_header DPSW_CMDID_GET_IRQ_STATUS cmd_flags token,
      params = zero_params
        (''status'' := cpu_to_le32 status,
         ''irq_index'' := [irq_index])\<rparr>"

definition dpsw_get_irq_status ::
  "fsl_mc_io \<Rightarrow> u32 \<Rightarrow> u16 \<Rightarrow> u8 \<Rightarrow> u32 \<Rightarrow> c_int \<times> u32" where
  "dpsw_get_irq_status mc_io cmd_flags token irq_index status =
     (case mc_send_command mc_io (dpsw_get_irq_status_cmd cmd_flags token irq_index status) of
        (err, cmd) \<Rightarrow>
          if err \<noteq> 0 then (err, status)
          else (0, le32_to_cpu (params cmd ''status'')))"

definition dpsw_clear_irq_status_cmd :: "u32 \<Rightarrow> u16 \<Rightarrow> u8 \<Rightarrow> u32 \<Rightarrow> fsl_mc_command" where
  "dpsw_clear_irq_status_cmd cmd_flags token irq_index status =
     \<lparr>header = mc_encode_cmd_header DPSW_CMDID_CLEAR_IRQ_STATUS cmd_flags token,
      params = zero_params
        (''status'' := cpu_to_le32 status,
         ''irq_index'' := [irq_index])\<rparr>"

definition dpsw_clear_irq_status :: "fsl_mc_io \<Rightarrow> u32 \<Rightarrow> u16 \<Rightarrow> u8 \<Rightarrow> u32 \<Rightarrow> c_int" where
  "dpsw_clear_irq_status mc_io cmd_flags token irq_index status =
     fst (mc_send_command mc_io (dpsw_clear_irq_status_cmd cmd_flags token irq_index status))"

definition dpsw_get_attributes_cmd :: "u32 \<Rightarrow> u16 \<Rightarrow> fsl_mc_command" where
  "dpsw_get_attributes_cmd cmd_flags token =
     \<lparr>header = mc_encode_cmd_header DPSW_CMDID_GET_ATTR cmd_flags token, params = zero_params\<rparr>"

definition dpsw_get_attributes ::
  "fsl_mc_io \<Rightarrow> dpsw_field_layout \<Rightarrow> u32 \<Rightarrow> u16 \<Rightarrow> dpsw_attr \<Rightarrow> c_int \<times> dpsw_attr" where
  "dpsw_get_attributes mc_io L cmd_flags token attr =
     (case mc_send_command mc_io (dpsw_get_attributes_cmd cmd_flags token) of
        (err, cmd) \<Rightarrow>
          if err \<noteq> 0 then (err, attr)
          else (0, attr
            \<lparr>dpsw_attr.num_ifs := le16_to_cpu (params cmd ''num_ifs''),
             max_fdbs := u8_member (params cmd ''max_fdbs''),
             num_fdbs := u8_member (params cmd ''num_fdbs''),
             max_vlans := le16_to_cpu (params cmd ''max_vlans''),
             num_vlans := le16_to_cpu (params cmd ''num_vlans''),
             max_fdb_entries := le16_to_cpu (params cmd ''max_fdb_entries''),
             fdb_aging_time := le16_to_cpu (params cmd ''fdb_aging_time''),
             id_attr := le32_to_cpu (params cmd ''dpsw_id''),
             mem_size := le16_to_cpu (params cmd ''mem_size''),
             max_fdb_mc_groups := le16_to_cpu (params cmd ''max_fdb_mc_groups''),
             max_meters_per_if := u8_member (params cmd ''max_meters_per_if''),
             dpsw_attr.options := le64_to_cpu (params cmd ''options''),
             component_type :=
               ucast (dpsw_get_field L (u8_member (params cmd ''component_type'')) COMPONENT_TYPE)\<rparr>))"

definition dpsw_if_get_attributes_cmd :: "u32 \<Rightarrow> u16 \<Rightarrow> u16 \<Rightarrow> fsl_mc_command" where
  "dpsw_if_get_attributes_cmd cmd_flags token if_id_arg =
     \<lparr>header = mc_encode_cmd_header DPSW_CMDID_IF_GET_ATTR cmd_flags token,
      params = zero_params(''if_id'' := cpu_to_le16 if_id_arg)\<rparr>"

definition dpsw_if_get_attributes ::
  "fsl_mc_io \<Rightarrow> dpsw_field_layout \<Rightarrow> u32 \<Rightarrow> u16 \<Rightarrow> u16 \<Rightarrow> dpsw_if_attr \<Rightarrow> c_int \<times> dpsw_if_attr" where
  "dpsw_if_get_attributes mc_io L cmd_flags token if_id_arg attr =
     (case mc_send_command mc_io (dpsw_if_get_attributes_cmd cmd_flags token if_id_arg) of
        (err, cmd) \<Rightarrow>
          if err \<noteq> 0 then (err, attr)
          else (0, attr
            \<lparr>num_tcs := u8_member (params cmd ''num_tcs''),
             dpsw_if_attr.rate := le32_to_cpu (params cmd ''rate''),
             dpsw_if_attr.options := le32_to_cpu (params cmd ''options''),
             qdid := le16_to_cpu (params cmd ''qdid''),
             enabled := ucast (dpsw_get_field L (u8_member (params cmd ''conf'')) ENABLE),
             accept_all_vlan :=
               ucast (dpsw_get_field L (u8_member (params cmd ''conf'')) ACCEPT_ALL_VLAN),
             admit_untagged :=
               ucast (dpsw_get_field L (u8_member (params cmd ''conf'')) ADMIT_UNTAGGED)\<rparr>))"

definition dpsw_if_set_link_cfg_cmd ::
  "u32 \<Rightarrow> u16 \<Rightarrow> u16 \<Rightarrow> dpsw_link_cfg \<Rightarrow> fsl_mc_command" where
  "dpsw_if_set_link_cfg_cmd cmd_flags token if_id_arg cfg =
     \<lparr>header = mc_encode_cmd_header DPSW_CMDID_IF_SET_LINK_CFG cmd_flags token,
      params = zero_params
        (''if_id'' := cpu_to_le16 if_id_arg,
         ''rate'' := cpu_to_le32 (dpsw_link_cfg.rate cfg),
         ''options'' := cpu_to_le64 (dpsw_link_cfg.options cfg))\<rparr>"

definition dpsw_if_set_link_cfg ::
  "fsl_mc_io \<Rightarrow> u32 \<Rightarrow> u16 \<Rightarrow> u16 \<Rightarrow> dpsw_link_cfg \<Rightarrow> c_int" where
  "dpsw_if_set_link_cfg mc_io cmd_flags token if_id_arg cfg =
     fst (mc_send_command mc_io (dpsw_if_set_link_cfg_cmd cmd_flags token if_id_arg cfg))"

definition dpsw_if_get_link_state_cmd :: "u32 \<Rightarrow> u16 \<Rightarrow> u16 \<Rightarrow> fsl_mc_command" where
  "dpsw_if_get_link_state_cmd cmd_flags token if_id_arg =
     \<lparr>header = mc_encode_cmd_header DPSW_CMDID_IF_GET_LINK_STATE cmd_flags token,
      params = zero_params(''if_id'' := cpu_to_le16 if_id_arg)\<rparr>"

definition dpsw_if_get_link_state ::
  "fsl_mc_io \<Rightarrow> dpsw_field_layout \<Rightarrow> u32 \<Rightarrow> u16 \<Rightarrow> u16 \<Rightarrow> dpsw_link_state
     \<Rightarrow> c_int \<times> dpsw_link_state" where
  "dpsw_if_get_link_state mc_io L cmd_flags token if_id_arg state_arg =
     (case mc_send_command mc_io (dpsw_if_get_link_state_cmd cmd_flags token if_id_arg) of
        (err, cmd) \<Rightarrow>
          if err \<noteq> 0 then (err, state_arg)
          else (0, state_arg
            \<lparr>dpsw_link_state.rate := le32_to_cpu (params cmd ''rate''),
             dpsw_link_state.options := le64_to_cpu (params cmd ''options''),
             up := dpsw_get_field L (u8_member (params cmd ''up'')) UP\<rparr>))"

definition dpsw_if_set_flooding_cmd ::
  "dpsw_field_layout \<Rightarrow> u32 \<Rightarrow> u16 \<Rightarrow> u16 \<Rightarrow> u8 \<Rightarrow> fsl_mc_command" where
  "dpsw_if_set_flooding_cmd L cmd_flags token if_id_arg en =
     \<lparr>header = mc_encode_cmd_header DPSW_CMDID_IF_SET_FLOODING cmd_flags token,
      params = zero_params
        (''if_id'' := cpu_to_le16 if_id_arg,
         ''enable'' := [dpsw_set_field L (0 :: u8) ENABLE en])\<rparr>"

definition dpsw_if_set_flooding ::
  "fsl_mc_io \<Rightarrow> dpsw_field_layout \<Rightarrow> u32 \<Rightarrow> u16 \<Rightarrow> u16 \<Rightarrow> u8 \<Rightarrow> c_int" where
  "dpsw_if_set_flooding mc_io L cmd_flags token if_id_arg en =
     fst (mc_send_command mc_io (dpsw_if_set_flooding_cmd L cmd_flags token if_id_arg en))"

definition dpsw_if_set_broadcast_cmd ::
  "dpsw_field_layout \<Rightarrow> u32 \<Rightarrow> u16 \<Rightarrow> u16 \<Rightarrow> u8 \<Rightarrow> fsl_mc_command" where
  "dpsw_if_set_broadcast_cmd L cmd_flags token if_id_arg en =
     \<lparr>header = mc_encode_cmd_header DPSW_CMDID_IF_SET_BROADCAST cmd_flags token,
      params = zero_params
        (''if_id'' := cpu_to_le16 if_id_arg,
         ''enable'' := [dpsw_set_field L (0 :: u8) ENABLE en])\<rparr>"

definition dpsw_if_set_broadcast ::
  "fsl_mc_io \<Rightarrow> dpsw_field_layout \<Rightarrow> u32 \<Rightarrow> u16 \<Rightarrow> u16 \<Rightarrow> u8 \<Rightarrow> c_int" where
  "dpsw_if_set_broadcast mc_io L cmd_flags token if_id_arg en =
     fst (mc_send_command mc_io (dpsw_if_set_broadcast_cmd L cmd_flags token if_id_arg en))"

text \<open>
  \<^verbatim>\<open>dpsw_if_set_tci\<close> packs the three fields into the local \<^verbatim>\<open>u16 tmp_conf = 0\<close>, in the
  order VLAN_ID, DEI, PCP, and stores the slot little-endian.
\<close>

definition dpsw_if_set_tci_conf :: "dpsw_field_layout \<Rightarrow> dpsw_tci_cfg \<Rightarrow> u16" where
  "dpsw_if_set_tci_conf L cfg =
     dpsw_set_field L
       (dpsw_set_field L
          (dpsw_set_field L (0 :: u16) VLAN_ID (dpsw_tci_cfg.vlan_id cfg))
          DEI (dei cfg))
       PCP (pcp cfg)"

definition dpsw_if_set_tci_cmd ::
  "dpsw_field_layout \<Rightarrow> u32 \<Rightarrow> u16 \<Rightarrow> u16 \<Rightarrow> dpsw_tci_cfg \<Rightarrow> fsl_mc_command" where
  "dpsw_if_set_tci_cmd L cmd_flags token if_id_arg cfg =
     \<lparr>header = mc_encode_cmd_header DPSW_CMDID_IF_SET_TCI cmd_flags token,
      params = zero_params
        (''if_id'' := cpu_to_le16 if_id_arg,
         ''conf'' := cpu_to_le16 (dpsw_if_set_tci_conf L cfg))\<rparr>"

definition dpsw_if_set_tci ::
  "fsl_mc_io \<Rightarrow> dpsw_field_layout \<Rightarrow> u32 \<Rightarrow> u16 \<Rightarrow> u16 \<Rightarrow> dpsw_tci_cfg \<Rightarrow> c_int" where
  "dpsw_if_set_tci mc_io L cmd_flags token if_id_arg cfg =
     fst (mc_send_command mc_io (dpsw_if_set_tci_cmd L cmd_flags token if_id_arg cfg))"

definition dpsw_if_get_tci_cmd :: "u32 \<Rightarrow> u16 \<Rightarrow> u16 \<Rightarrow> fsl_mc_command" where
  "dpsw_if_get_tci_cmd cmd_flags token if_id_arg =
     \<lparr>header = mc_encode_cmd_header DPSW_CMDID_IF_GET_TCI cmd_flags token,
      params = zero_params(''if_id'' := cpu_to_le16 if_id_arg)\<rparr>"

definition dpsw_if_get_tci ::
  "fsl_mc_io \<Rightarrow> u32 \<Rightarrow> u16 \<Rightarrow> u16 \<Rightarrow> dpsw_tci_cfg \<Rightarrow> c_int \<times> dpsw_tci_cfg" where
  "dpsw_if_get_tci mc_io cmd_flags token if_id_arg cfg =
     (case mc_send_command mc_io (dpsw_if_get_tci_cmd cmd_flags token if_id_arg) of
        (err, cmd) \<Rightarrow>
          if err \<noteq> 0 then (err, cfg)
          else (0, cfg
            \<lparr>pcp := u8_member (params cmd ''pcp''),
             dei := u8_member (params cmd ''dei''),
             dpsw_tci_cfg.vlan_id := le16_to_cpu (params cmd ''vlan_id'')\<rparr>))"

definition dpsw_if_set_stp_cmd ::
  "dpsw_field_layout \<Rightarrow> u32 \<Rightarrow> u16 \<Rightarrow> u16 \<Rightarrow> dpsw_stp_cfg \<Rightarrow> fsl_mc_command" where
  "dpsw_if_set_stp_cmd L cmd_flags token if_id_arg cfg =
     \<lparr>header = mc_encode_cmd_header DPSW_CMDID_IF_SET_STP cmd_flags token,
      params = zero_params
        (''if_id'' := cpu_to_le16 if_id_arg,
         ''vlan_id'' := cpu_to_le16 (dpsw_stp_cfg.vlan_id cfg),
         ''state'' := [dpsw_set_field L (0 :: u8) STATE (state cfg)])\<rparr>"

definition dpsw_if_set_stp ::
  "fsl_mc_io \<Rightarrow> dpsw_field_layout \<Rightarrow> u32 \<Rightarrow> u16 \<Rightarrow> u16 \<Rightarrow> dpsw_stp_cfg \<Rightarrow> c_int" where
  "dpsw_if_set_stp mc_io L cmd_flags token if_id_arg cfg =
     fst (mc_send_command mc_io (dpsw_if_set_stp_cmd L cmd_flags token if_id_arg cfg))"

definition dpsw_if_get_counter_cmd ::
  "dpsw_field_layout \<Rightarrow> u32 \<Rightarrow> u16 \<Rightarrow> u16 \<Rightarrow> c_int \<Rightarrow> fsl_mc_command" where
  "dpsw_if_get_counter_cmd L cmd_flags token if_id_arg type_arg =
     \<lparr>header = mc_encode_cmd_header DPSW_CMDID_IF_GET_COUNTER cmd_flags token,
      params = zero_params
        (''if_id'' := cpu_to_le16 if_id_arg,
         ''type'' := [dpsw_set_field L (0 :: u8) COUNTER_TYPE type_arg])\<rparr>"

definition dpsw_if_get_counter ::
  "fsl_mc_io \<Rightarrow> dpsw_field_layout \<Rightarrow> u32 \<Rightarrow> u16 \<Rightarrow> u16 \<Rightarrow> c_int \<Rightarrow> u64 \<Rightarrow> c_int \<times> u64" where
  "dpsw_if_get_counter mc_io L cmd_flags token if_id_arg type_arg counter =
     (case mc_send_command mc_io (dpsw_if_get_counter_cmd L cmd_flags token if_id_arg type_arg) of
        (err, cmd) \<Rightarrow>
          if err \<noteq> 0 then (err, counter)
          else (0, le64_to_cpu (params cmd ''counter'')))"

definition dpsw_if_enable_cmd :: "u32 \<Rightarrow> u16 \<Rightarrow> u16 \<Rightarrow> fsl_mc_command" where
  "dpsw_if_enable_cmd cmd_flags token if_id_arg =
     \<lparr>header = mc_encode_cmd_header DPSW_CMDID_IF_ENABLE cmd_flags token,
      params = zero_params(''if_id'' := cpu_to_le16 if_id_arg)\<rparr>"

definition dpsw_if_enable :: "fsl_mc_io \<Rightarrow> u32 \<Rightarrow> u16 \<Rightarrow> u16 \<Rightarrow> c_int" where
  "dpsw_if_enable mc_io cmd_flags token if_id_arg =
     fst (mc_send_command mc_io (dpsw_if_enable_cmd cmd_flags token if_id_arg))"

definition dpsw_if_disable_cmd :: "u32 \<Rightarrow> u16 \<Rightarrow> u16 \<Rightarrow> fsl_mc_command" where
  "dpsw_if_disable_cmd cmd_flags token if_id_arg =
     \<lparr>header = mc_encode_cmd_header DPSW_CMDID_IF_DISABLE cmd_flags token,
      params = zero_params(''if_id'' := cpu_to_le16 if_id_arg)\<rparr>"

definition dpsw_if_disable :: "fsl_mc_io \<Rightarrow> u32 \<Rightarrow> u16 \<Rightarrow> u16 \<Rightarrow> c_int" where
  "dpsw_if_disable mc_io cmd_flags token if_id_arg =
     fst (mc_send_command mc_io (dpsw_if_disable_cmd cmd_flags token if_id_arg))"

definition dpsw_if_set_max_frame_length_cmd ::
  "u32 \<Rightarrow> u16 \<Rightarrow> u16 \<Rightarrow> u16 \<Rightarrow> fsl_mc_command" where
  "dpsw_if_set_max_frame_length_cmd cmd_flags token if_id_arg frame_length =
     \<lparr>header = mc_encode_cmd_header DPSW_CMDID_IF_SET_MAX_FRAME_LENGTH cmd_flags token,
      params = zero_params
        (''if_id'' := cpu_to_le16 if_id_arg,
         ''frame_length'' := cpu_to_le16 frame_length)\<rparr>"

definition dpsw_if_set_max_frame_length ::
  "fsl_mc_io \<Rightarrow> u32 \<Rightarrow> u16 \<Rightarrow> u16 \<Rightarrow> u16 \<Rightarrow> c_int" where
  "dpsw_if_set_max_frame_length mc_io cmd_flags token if_id_arg frame_length =
     fst (mc_send_command mc_io
            (dpsw_if_set_max_frame_length_cmd cmd_flags token if_id_arg frame_length))"

definition dpsw_vlan_add_cmd :: "u32 \<Rightarrow> u16 \<Rightarrow> u16 \<Rightarrow> dpsw_vlan_cfg \<Rightarrow> fsl_mc_command" where
  "dpsw_vlan_add_cmd cmd_flags token vlan_id_arg cfg =
     \<lparr>header = mc_encode_cmd_header DPSW_CMDID_VLAN_ADD cmd_flags token,
      params = zero_params
        (''fdb_id'' := cpu_to_le16 (fdb_id cfg),
         ''vlan_id'' := cpu_to_le16 vlan_id_arg)\<rparr>"

definition dpsw_vlan_add :: "fsl_mc_io \<Rightarrow> u32 \<Rightarrow> u16 \<Rightarrow> u16 \<Rightarrow> dpsw_vlan_cfg \<Rightarrow> c_int" where
  "dpsw_vlan_add mc_io cmd_flags token vlan_id_arg cfg =
     fst (mc_send_command mc_io (dpsw_vlan_add_cmd cmd_flags token vlan_id_arg cfg))"

text \<open>
  The four VLAN membership operations share one payload: the VLAN id and the interface
  bitmap built into the zeroed member \<^verbatim>\<open>if_id\<close>. An operation whose command cannot be
  built, because a loop would leave an array, yields \<open>None\<close>.
\<close>

definition dpsw_vlan_manage_if_cmd ::
  "dpsw_cmdid \<Rightarrow> u32 \<Rightarrow> u16 \<Rightarrow> u16 \<Rightarrow> dpsw_vlan_if_cfg \<Rightarrow> fsl_mc_command option" where
  "dpsw_vlan_manage_if_cmd cmd_id cmd_flags token vlan_id_arg cfg =
     (case build_if_id_bitmap zero_if_id_bitmap
             (dpsw_vlan_if_cfg.if_id cfg) (dpsw_vlan_if_cfg.num_ifs cfg) of
        None \<Rightarrow> None
      | Some bmap \<Rightarrow> Some
          \<lparr>header = mc_encode_cmd_header cmd_id cmd_flags token,
           params = zero_params
             (''vlan_id'' := cpu_to_le16 vlan_id_arg,
              ''if_id'' := concat bmap)\<rparr>)"

definition dpsw_vlan_add_if_cmd ::
  "u32 \<Rightarrow> u16 \<Rightarrow> u16 \<Rightarrow> dpsw_vlan_if_cfg \<Rightarrow> fsl_mc_command option" where
  "dpsw_vlan_add_if_cmd cmd_flags token vlan_id_arg cfg =
     dpsw_vlan_manage_if_cmd DPSW_CMDID_VLAN_ADD_IF cmd_flags token vlan_id_arg cfg"

definition dpsw_vlan_add_if ::
  "fsl_mc_io \<Rightarrow> u32 \<Rightarrow> u16 \<Rightarrow> u16 \<Rightarrow> dpsw_vlan_if_cfg \<Rightarrow> c_int option" where
  "dpsw_vlan_add_if mc_io cmd_flags token vlan_id_arg cfg =
     map_option (\<lambda>cmd. fst (mc_send_command mc_io cmd))
       (dpsw_vlan_add_if_cmd cmd_flags token vlan_id_arg cfg)"

definition dpsw_vlan_add_if_untagged_cmd ::
  "u32 \<Rightarrow> u16 \<Rightarrow> u16 \<Rightarrow> dpsw_vlan_if_cfg \<Rightarrow> fsl_mc_command option" where
  "dpsw_vlan_add_if_untagged_cmd cmd_flags token vlan_id_arg cfg =
     dpsw_vlan_manage_if_cmd DPSW_CMDID_VLAN_ADD_IF_UNTAGGED cmd_flags token vlan_id_arg cfg"

definition dpsw_vlan_add_if_untagged ::
  "fsl_mc_io \<Rightarrow> u32 \<Rightarrow> u16 \<Rightarrow> u16 \<Rightarrow> dpsw_vlan_if_cfg \<Rightarrow> c_int option" where
  "dpsw_vlan_add_if_untagged mc_io cmd_flags token vlan_id_arg cfg =
     map_option (\<lambda>cmd. fst (mc_send_command mc_io cmd))
       (dpsw_vlan_add_if_untagged_cmd cmd_flags token vlan_id_arg cfg)"

definition dpsw_vlan_remove_if_cmd ::
  "u32 \<Rightarrow> u16 \<Rightarrow> u16 \<Rightarrow> dpsw_vlan_if_cfg \<Rightarrow> fsl_mc_command option" where
  "dpsw_vlan_remove_if_cmd cmd_flags token vlan_id_arg cfg =
     dpsw_vlan_manage_if_cmd DPSW_CMDID_VLAN_REMOVE_IF cmd_flags token vlan_id_arg cfg"

definition dpsw_vlan_remove_if ::
  "fsl_mc_io \<Rightarrow> u32 \<Rightarrow> u16 \<Rightarrow> u16 \<Rightarrow> dpsw_vlan_if_cfg \<Rightarrow> c_int option" where
  "dpsw_vlan_remove_if mc_io cmd_flags token vlan_id_arg cfg =
     map_option (\<lambda>cmd. fst (mc_send_command mc_io cmd))
       (dpsw_vlan_remove_if_cmd cmd_flags token vlan_id_arg cfg)"

definition dpsw_vlan_remove_if_untagged_cmd ::
  "u32 \<Rightarrow> u16 \<Rightarrow> u16 \<Rightarrow> dpsw_vlan_if_cfg \<Rightarrow> fsl_mc_command option" where
  "dpsw_vlan_remove_if_untagged_cmd cmd_flags token vlan_id_arg cfg =
     dpsw_vlan_manage_if_cmd DPSW_CMDID_VLAN_REMOVE_IF_UNTAGGED cmd_flags token vlan_id_arg cfg"

definition dpsw_vlan_remove_if_untagged ::
  "fsl_mc_io \<Rightarrow> u32 \<Rightarrow> u16 \<Rightarrow> u16 \<Rightarrow> dpsw_vlan_if_cfg \<Rightarrow> c_int option" where
  "dpsw_vlan_remove_if_untagged mc_io cmd_flags token vlan_id_arg cfg =
     map_option (\<lambda>cmd. fst (mc_send_command mc_io cmd))
       (dpsw_vlan_remove_if_untagged_cmd cmd_flags token vlan_id_arg cfg)"

definition dpsw_vlan_remove_cmd :: "u32 \<Rightarrow> u16 \<Rightarrow> u16 \<Rightarrow> fsl_mc_command" where
  "dpsw_vlan_remove_cmd cmd_flags token vlan_id_arg =
     \<lparr>header = mc_encode_cmd_header DPSW_CMDID_VLAN_REMOVE cmd_flags token,
      params = zero_params(''vlan_id'' := cpu_to_le16 vlan_id_arg)\<rparr>"

definition dpsw_vlan_remove :: "fsl_mc_io \<Rightarrow> u32 \<Rightarrow> u16 \<Rightarrow> u16 \<Rightarrow> c_int" where
  "dpsw_vlan_remove mc_io cmd_flags token vlan_id_arg =
     fst (mc_send_command mc_io (dpsw_vlan_remove_cmd cmd_flags token vlan_id_arg))"

definition dpsw_fdb_add_unicast_cmd ::
  "dpsw_field_layout \<Rightarrow> u32 \<Rightarrow> u16 \<Rightarrow> u16 \<Rightarrow> dpsw_fdb_unicast_cfg \<Rightarrow> fsl_mc_command option" where
  "dpsw_fdb_add_unicast_cmd L cmd_flags token fdb_id_arg cfg =
     (case mac_to_wire zero_mac_addr (dpsw_fdb_unicast_cfg.mac_addr cfg) of
        None \<Rightarrow> None
      | Some wire_mac \<Rightarrow> Some
          \<lparr>header = mc_encode_cmd_header DPSW_CMDID_FDB_ADD_UNICAST cmd_flags token,
           params = zero_params
             (''fdb_id'' := cpu_to_le16 fdb_id_arg,
              ''if_egress'' := cpu_to_le16 (if_egress cfg),
              ''mac_addr'' := wire_mac,
              ''type'' := [dpsw_set_field L (0 :: u8) ENTRY_TYPE (dpsw_fdb_unicast_cfg.type cfg)])\<rparr>)"

definition dpsw_fdb_add_unicast ::
  "fsl_mc_io \<Rightarrow> dpsw_field_layout \<Rightarrow> u32 \<Rightarrow> u16 \<Rightarrow> u16 \<Rightarrow> dpsw_fdb_unicast_cfg \<Rightarrow> c_int option" where
  "dpsw_fdb_add_unicast mc_io L cmd_flags token fdb_id_arg cfg =
     map_option (\<lambda>cmd. fst (mc_send_command mc_io cmd))
       (dpsw_fdb_add_unicast_cmd L cmd_flags token fdb_id_arg cfg)"

definition dpsw_fdb_dump_cmd :: "u32 \<Rightarrow> u16 \<Rightarrow> u16 \<Rightarrow> u64 \<Rightarrow> u32 \<Rightarrow> fsl_mc_command" where
  "dpsw_fdb_dump_cmd cmd_flags token fdb_id_arg iova_addr iova_size =
     \<lparr>header = mc_encode_cmd_header DPSW_CMDID_FDB_DUMP cmd_flags token,
      params = zero_params
        (''fdb_id'' := cpu_to_le16 fdb_id_arg,
         ''iova_addr'' := cpu_to_le64 iova_addr,
         ''iova_size'' := cpu_to_le32 iova_size)\<rparr>"

definition dpsw_fdb_dump ::
  "fsl_mc_io \<Rightarrow> u32 \<Rightarrow> u16 \<Rightarrow> u16 \<Rightarrow> u64 \<Rightarrow> u32 \<Rightarrow> u16 \<Rightarrow> c_int \<times> u16" where
  "dpsw_fdb_dump mc_io cmd_flags token fdb_id_arg iova_addr iova_size num_entries =
     (case mc_send_command mc_io
             (dpsw_fdb_dump_cmd cmd_flags token fdb_id_arg iova_addr iova_size) of
        (err, cmd) \<Rightarrow>
          if err \<noteq> 0 then (err, num_entries)
          else (0, le16_to_cpu (params cmd ''num_entries'')))"

definition dpsw_fdb_remove_unicast_cmd ::
  "dpsw_field_layout \<Rightarrow> u32 \<Rightarrow> u16 \<Rightarrow> u16 \<Rightarrow> dpsw_fdb_unicast_cfg \<Rightarrow> fsl_mc_command option" where
  "dpsw_fdb_remove_unicast_cmd L cmd_flags token fdb_id_arg cfg =
     (case mac_to_wire zero_mac_addr (dpsw_fdb_unicast_cfg.mac_addr cfg) of
        None \<Rightarrow> None
      | Some wire_mac \<Rightarrow> Some
          \<lparr>header = mc_encode_cmd_header DPSW_CMDID_FDB_REMOVE_UNICAST cmd_flags token,
           params = zero_params
             (''fdb_id'' := cpu_to_le16 fdb_id_arg,
              ''mac_addr'' := wire_mac,
              ''if_egress'' := cpu_to_le16 (if_egress cfg),
              ''type'' := [dpsw_set_field L (0 :: u8) ENTRY_TYPE (dpsw_fdb_unicast_cfg.type cfg)])\<rparr>)"

definition dpsw_fdb_remove_unicast ::
  "fsl_mc_io \<Rightarrow> dpsw_field_layout \<Rightarrow> u32 \<Rightarrow> u16 \<Rightarrow> u16 \<Rightarrow> dpsw_fdb_unicast_cfg \<Rightarrow> c_int option" where
  "dpsw_fdb_remove_unicast mc_io L cmd_flags token fdb_id_arg cfg =
     map_option (\<lambda>cmd. fst (mc_send_command mc_io cmd))
       (dpsw_fdb_remove_unicast_cmd L cmd_flags token fdb_id_arg cfg)"

text \<open>
  The two multicast operations share one payload; the bitmap is built before the address
  is copied.
\<close>

definition dpsw_fdb_multicast_op_cmd ::
  "dpsw_cmdid \<Rightarrow> dpsw_field_layout \<Rightarrow> u32 \<Rightarrow> u16 \<Rightarrow> u16 \<Rightarrow> dpsw_fdb_multicast_cfg
     \<Rightarrow> fsl_mc_command option" where
  "dpsw_fdb_multicast_op_cmd cmd_id L cmd_flags token fdb_id_arg cfg =
     (case build_if_id_bitmap zero_if_id_bitmap
             (dpsw_fdb_multicast_cfg.if_id cfg) (dpsw_fdb_multicast_cfg.num_ifs cfg) of
        None \<Rightarrow> None
      | Some bmap \<Rightarrow>
          (case mac_to_wire zero_mac_addr (dpsw_fdb_multicast_cfg.mac_addr cfg) of
             None \<Rightarrow> None
           | Some wire_mac \<Rightarrow> Some
               \<lparr>header = mc_encode_cmd_header cmd_id cmd_flags token,
                params = zero_params
                  (''fdb_id'' := cpu_to_le16 fdb_id_arg,
                   ''num_ifs'' := cpu_to_le16 (dpsw_fdb_multicast_cfg.num_ifs cfg),
                   ''type'' :=
                     [dpsw_set_field L (0 :: u8) ENTRY_TYPE (dpsw_fdb_multicast_cfg.type cfg)],
                   ''if_id'' := concat bmap,
                   ''mac_addr'' := wire_mac)\<rparr>))"

definition dpsw_fdb_add_multicast_cmd ::
  "dpsw_field_layout \<Rightarrow> u32 \<Rightarrow> u16 \<Rightarrow> u16 \<Rightarrow> dpsw_fdb_multicast_cfg \<Rightarrow> fsl_mc_command option" where
  "dpsw_fdb_add_multicast_cmd L cmd_flags token fdb_id_arg cfg =
     dpsw_fdb_multicast_op_cmd DPSW_CMDID_FDB_ADD_MULTICAST L cmd_flags token fdb_id_arg cfg"

definition dpsw_fdb_add_multicast ::
  "fsl_mc_io \<Rightarrow> dpsw_field_layout \<Rightarrow> u32 \<Rightarrow> u16 \<Rightarrow> u16 \<Rightarrow> dpsw_fdb_multicast_cfg
     \<Rightarrow> c_int option" where
  "dpsw_fdb_add_multicast mc_io L cmd_flags token fdb_id_arg cfg =
     map_option (\<lambda>cmd. fst (mc_send_command mc_io cmd))
       (dpsw_fdb_add_multicast_cmd L cmd_flags token fdb_id_arg cfg)"

definition dpsw_fdb_remove_multicast_cmd ::
  "dpsw_field_layout \<Rightarrow> u32 \<Rightarrow> u16 \<Rightarrow> u16 \<Rightarrow> dpsw_fdb_multicast_cfg \<Rightarrow> fsl_mc_command option" where
  "dpsw_fdb_remove_multicast_cmd L cmd_flags token fdb_id_arg cfg =
     dpsw_fdb_multicast_op_cmd DPSW_CMDID_FDB_REMOVE_MULTICAST L cmd_flags token fdb_id_arg cfg"

definition dpsw_fdb_remove_multicast ::
  "fsl_mc_io \<Rightarrow> dpsw_field_layout \<Rightarrow> u32 \<Rightarrow> u16 \<Rightarrow> u16 \<Rightarrow> dpsw_fdb_multicast_cfg
     \<Rightarrow> c_int option" where
  "dpsw_fdb_remove_multicast mc_io L cmd_flags token fdb_id_arg cfg =
     map_option (\<lambda>cmd. fst (mc_send_command mc_io cmd))
       (dpsw_fdb_remove_multicast_cmd L cmd_flags token fdb_id_arg cfg)"

definition dpsw_fdb_set_learning_mode_cmd ::
  "dpsw_field_layout \<Rightarrow> u32 \<Rightarrow> u16 \<Rightarrow> u16 \<Rightarrow> c_int \<Rightarrow> fsl_mc_command" where
  "dpsw_fdb_set_learning_mode_cmd L cmd_flags token fdb_id_arg mode =
     \<lparr>header = mc_encode_cmd_header DPSW_CMDID_FDB_SET_LEARNING_MODE cmd_flags token,
      params = zero_params
        (''fdb_id'' := cpu_to_le16 fdb_id_arg,
         ''mode'' := [dpsw_set_field L (0 :: u8) LEARNING_MODE mode])\<rparr>"

definition dpsw_fdb_set_learning_mode ::
  "fsl_mc_io \<Rightarrow> dpsw_field_layout \<Rightarrow> u32 \<Rightarrow> u16 \<Rightarrow> u16 \<Rightarrow> c_int \<Rightarrow> c_int" where
  "dpsw_fdb_set_learning_mode mc_io L cmd_flags token fdb_id_arg mode =
     fst (mc_send_command mc_io (dpsw_fdb_set_learning_mode_cmd L cmd_flags token fdb_id_arg mode))"

definition dpsw_get_api_version_cmd :: "u32 \<Rightarrow> fsl_mc_command" where
  "dpsw_get_api_version_cmd cmd_flags =
     \<lparr>header = mc_encode_cmd_header DPSW_CMDID_GET_API_VERSION cmd_flags 0,
      params = zero_params\<rparr>"

definition dpsw_get_api_version ::
  "fsl_mc_io \<Rightarrow> u32 \<Rightarrow> u16 \<Rightarrow> u16 \<Rightarrow> c_int \<times> u16 \<times> u16" where
  "dpsw_get_api_version mc_io cmd_flags major_ver minor_ver =
     (case mc_send_command mc_io (dpsw_get_api_version_cmd cmd_flags) of
        (err, cmd) \<Rightarrow>
          if err \<noteq> 0 then (err, major_ver, minor_ver)
          else (0, le16_to_cpu (params cmd ''version_major''),
                   le16_to_cpu (params cmd ''version_minor'')))"

definition dpsw_if_get_port_mac_addr_cmd :: "u32 \<Rightarrow> u16 \<Rightarrow> u16 \<Rightarrow> fsl_mc_command" where
  "dpsw_if_get_port_mac_addr_cmd cmd_flags token if_id_arg =
     \<lparr>header = mc_encode_cmd_header DPSW_CMDID_IF_GET_PORT_MAC_ADDR cmd_flags token,
      params = zero_params(''if_id'' := cpu_to_le16 if_id_arg)\<rparr>"

definition dpsw_if_get_port_mac_addr ::
  "fsl_mc_io \<Rightarrow> u32 \<Rightarrow> u16 \<Rightarrow> u16 \<Rightarrow> u8 list \<Rightarrow> (c_int \<times> u8 list) option" where
  "dpsw_if_get_port_mac_addr mc_io cmd_flags token if_id_arg mac_addr_arg =
     (case mc_send_command mc_io (dpsw_if_get_port_mac_addr_cmd cmd_flags token if_id_arg) of
        (err, cmd) \<Rightarrow>
          if err \<noteq> 0 then Some (err, mac_addr_arg)
          else map_option (Pair 0)
                 (mac_from_wire mac_addr_arg (array_member 6 (params cmd ''mac_addr''))))"

definition dpsw_if_get_primary_mac_addr_cmd :: "u32 \<Rightarrow> u16 \<Rightarrow> u16 \<Rightarrow> fsl_mc_command" where
  "dpsw_if_get_primary_mac_addr_cmd cmd_flags token if_id_arg =
     \<lparr>header = mc_encode_cmd_header DPSW_CMDID_IF_SET_PRIMARY_MAC_ADDR cmd_flags token,
      params = zero_params(''if_id'' := cpu_to_le16 if_id_arg)\<rparr>"

definition dpsw_if_get_primary_mac_addr ::
  "fsl_mc_io \<Rightarrow> u32 \<Rightarrow> u16 \<Rightarrow> u16 \<Rightarrow> u8 list \<Rightarrow> (c_int \<times> u8 list) option" where
  "dpsw_if_get_primary_mac_addr mc_io cmd_flags token if_id_arg mac_addr_arg =
     (case mc_send_command mc_io (dpsw_if_get_primary_mac_addr_cmd cmd_flags token if_id_arg) of
        (err, cmd) \<Rightarrow>
          if err \<noteq> 0 then Some (err, mac_addr_arg)
          else map_option (Pair 0)
                 (mac_from_wire mac_addr_arg (array_member 6 (params cmd ''mac_addr''))))"

definition dpsw_if_set_primary_mac_addr_cmd ::
  "u32 \<Rightarrow> u16 \<Rightarrow> u16 \<Rightarrow> u8 list \<Rightarrow> fsl_mc_command option" where
  "dpsw_if_set_primary_mac_addr_cmd cmd_flags token if_id_arg mac_addr_arg =
     (case mac_to_wire zero_mac_addr mac_addr_arg of
        None \<Rightarrow> None
      | Some wire_mac \<Rightarrow> Some
          \<lparr>header = mc_encode_cmd_header DPSW_CMDID_IF_SET_PRIMARY_MAC_ADDR cmd_flags token,
           params = zero_params
             (''if_id'' := cpu_to_le16 if_id_arg,
              ''mac_addr'' := wire_mac)\<rparr>)"

definition dpsw_if_set_primary_mac_addr ::
  "fsl_mc_io \<Rightarrow> u32 \<Rightarrow> u16 \<Rightarrow> u16 \<Rightarrow> u8 list \<Rightarrow> c_int option" where
  "dpsw_if_set_primary_mac_addr mc_io cmd_flags token if_id_arg mac_addr_arg =
     map_option (\<lambda>cmd. fst (mc_send_command mc_io cmd))
       (dpsw_if_set_primary_mac_addr_cmd cmd_flags token if_id_arg mac_addr_arg)"

definition dpsw_acl_add_cmd :: "u32 \<Rightarrow> u16 \<Rightarrow> dpsw_acl_cfg \<Rightarrow> fsl_mc_command" where
  "dpsw_acl_add_cmd cmd_flags token cfg =
     \<lparr>header = mc_encode_cmd_header DPSW_CMDID_ACL_ADD cmd_flags token,
      params = zero_params(''max_entries'' := cpu_to_le16 (max_entries cfg))\<rparr>"

definition dpsw_acl_add ::
  "fsl_mc_io \<Rightarrow> u32 \<Rightarrow> u16 \<Rightarrow> u16 \<Rightarrow> dpsw_acl_cfg \<Rightarrow> c_int \<times> u16" where
  "dpsw_acl_add mc_io cmd_flags token acl_id cfg =
     (case mc_send_command mc_io (dpsw_acl_add_cmd cmd_flags token cfg) of
        (err, cmd) \<Rightarrow>
          if err \<noteq> 0 then (err, acl_id)
          else (0, le16_to_cpu (params cmd ''acl_id'')))"

definition dpsw_acl_remove_cmd :: "u32 \<Rightarrow> u16 \<Rightarrow> u16 \<Rightarrow> fsl_mc_command" where
  "dpsw_acl_remove_cmd cmd_flags token acl_id =
     \<lparr>header = mc_encode_cmd_header DPSW_CMDID_ACL_REMOVE cmd_flags token,
      params = zero_params(''acl_id'' := cpu_to_le16 acl_id)\<rparr>"

definition dpsw_acl_remove :: "fsl_mc_io \<Rightarrow> u32 \<Rightarrow> u16 \<Rightarrow> u16 \<Rightarrow> c_int" where
  "dpsw_acl_remove mc_io cmd_flags token acl_id =
     fst (mc_send_command mc_io (dpsw_acl_remove_cmd cmd_flags token acl_id))"

definition dpsw_acl_if_cmd ::
  "dpsw_cmdid \<Rightarrow> u32 \<Rightarrow> u16 \<Rightarrow> u16 \<Rightarrow> dpsw_acl_if_cfg \<Rightarrow> fsl_mc_command option" where
  "dpsw_acl_if_cmd cmd_id cmd_flags token acl_id cfg =
     (case build_if_id_bitmap zero_if_id_bitmap
             (dpsw_acl_if_cfg.if_id cfg) (dpsw_acl_if_cfg.num_ifs cfg) of
        None \<Rightarrow> None
      | Some bmap \<Rightarrow> Some
          \<lparr>header = mc_encode_cmd_header cmd_id cmd_flags token,
           params = zero_params
             (''acl_id'' := cpu_to_le16 acl_id,
              ''num_ifs'' := cpu_to_le16 (dpsw_acl_if_cfg.num_ifs cfg),
              ''if_id'' := concat bmap)\<rparr>)"

definition dpsw_acl_add_if_cmd ::
  "u32 \<Rightarrow> u16 \<Rightarrow> u16 \<Rightarrow> dpsw_acl_if_cfg \<Rightarrow> fsl_mc_command option" where
  "dpsw_acl_add_if_cmd cmd_flags token acl_id cfg =
     dpsw_acl_if_cmd DPSW_CMDID_ACL_ADD_IF cmd_flags token acl_id cfg"

definition dpsw_acl_add_if ::
  "fsl_mc_io \<Rightarrow> u32 \<Rightarrow> u16 \<Rightarrow> u16 \<Rightarrow> dpsw_acl_if_cfg \<Rightarrow> c_int option" where
  "dpsw_acl_add_if mc_io cmd_flags token acl_id cfg =
     map_option (\<lambda>cmd. fst (mc_send_command mc_io cmd))
       (dpsw_acl_add_if_cmd cmd_flags token acl_id cfg)"

definition dpsw_acl_remove_if_cmd ::
  "u32 \<Rightarrow> u16 \<Rightarrow> u16 \<Rightarrow> dpsw_acl_if_cfg \<Rightarrow> fsl_mc_command option" where
  "dpsw_acl_remove_if_cmd cmd_flags token acl_id cfg =
     dpsw_acl_if_cmd DPSW_CMDID_ACL_REMOVE_IF cmd_flags token acl_id cfg"

definition dpsw_acl_remove_if ::
  "fsl_mc_io \<Rightarrow> u32 \<Rightarrow> u16 \<Rightarrow> u16 \<Rightarrow> dpsw_acl_if_cfg \<Rightarrow> c_int option" where
  "dpsw_acl_remove_if mc_io cmd_flags token acl_id cfg =
     map_option (\<lambda>cmd. fst (mc_send_command mc_io cmd))
       (dpsw_acl_remove_if_cmd cmd_flags token acl_id cfg)"

definition dpsw_acl_add_entry_cmd ::
  "dpsw_field_layout \<Rightarrow> u32 \<Rightarrow> u16 \<Rightarrow> u16 \<Rightarrow> dpsw_acl_entry_cfg \<Rightarrow> fsl_mc_command" where
  "dpsw_acl_add_entry_cmd L cmd_flags token acl_id cfg =
     \<lparr>header = mc_encode_cmd_header DPSW_CMDID_ACL_ADD_ENTRY cmd_flags token,
      params = zero_params
        (''acl_id'' := cpu_to_le16 acl_id,
         ''result_if_id'' := cpu_to_le16 (dpsw_acl_result.if_id (result cfg)),
         ''precedence'' := cpu_to_le32 (precedence cfg),
         ''key_iova'' := cpu_to_le64 (key_iova cfg),
         ''result_action'' := [dpsw_set_field L (0 :: u8) RESULT_ACTION (action (result cfg))])\<rparr>"

definition dpsw_acl_add_entry ::
  "fsl_mc_io \<Rightarrow> dpsw_field_layout \<Rightarrow> u32 \<Rightarrow> u16 \<Rightarrow> u16 \<Rightarrow> dpsw_acl_entry_cfg \<Rightarrow> c_int" where
  "dpsw_acl_add_entry mc_io L cmd_flags token acl_id cfg =
     fst (mc_send_command mc_io (dpsw_acl_add_entry_cmd L cmd_flags token acl_id cfg))"

subsection \<open>The ACL key buffer\<close>

text \<open>
  \<^verbatim>\<open>dpsw_acl_prepare_entry_cfg\<close> overlays \<^verbatim>\<open>struct dpsw_prep_acl_entry\<close> on the caller's
  buffer. The struct is declared in \<^verbatim>\<open>dpsw-cmd.h\<close>, which is not part of the sources at
  hand; \<open>off\<close> gives the byte offset of each member. The members and their widths, as the
  code uses them: a hardware address has 6 bytes, \<^verbatim>\<open>cpu_to_le16\<close> fills 2, \<^verbatim>\<open>cpu_to_le32\<close>
  fills 4, a plain assignment of a \<^verbatim>\<open>u8\<close> fills 1.
\<close>

datatype dpsw_prep_acl_entry_member =
    match_l2_dest_mac | match_l2_source_mac | mask_l2_dest_mac
  | mask_l2_source_mac | match_l2_tpid | match_l2_vlan_id
  | match_l3_dest_ip | match_l3_source_ip | match_l4_dest_port
  | match_l4_source_port | match_l2_ether_type | match_l2_pcp_dei
  | match_l3_dscp | mask_l2_tpid | mask_l2_vlan_id
  | mask_l3_dest_ip | mask_l3_source_ip | mask_l4_dest_port
  | mask_l4_source_port | mask_l2_ether_type | mask_l2_pcp_dei
  | mask_l3_dscp | match_l3_protocol | mask_l3_protocol
  | match_frame_flags | mask_frame_flags

definition dpsw_prep_acl_entry_members :: "(dpsw_prep_acl_entry_member \<times> nat) list" where
  "dpsw_prep_acl_entry_members =
     [(match_l2_dest_mac, 6), (match_l2_source_mac, 6),
      (mask_l2_dest_mac, 6), (mask_l2_source_mac, 6),
      (match_l2_tpid, 2), (match_l2_vlan_id, 2),
      (match_l3_dest_ip, 4), (match_l3_source_ip, 4),
      (match_l4_dest_port, 2), (match_l4_source_port, 2),
      (match_l2_ether_type, 2), (match_l2_pcp_dei, 1), (match_l3_dscp, 1),
      (mask_l2_tpid, 2), (mask_l2_vlan_id, 2),
      (mask_l3_dest_ip, 4), (mask_l3_source_ip, 4),
      (mask_l4_dest_port, 2), (mask_l4_source_port, 2),
      (mask_l2_ether_type, 2), (mask_l2_pcp_dei, 1), (mask_l3_dscp, 1),
      (match_l3_protocol, 1), (mask_l3_protocol, 1),
      (match_frame_flags, 1), (mask_frame_flags, 1)]"

text \<open>
  A layout of the struct inside a buffer of \<open>n\<close> bytes: every member lies inside the
  buffer and no two members overlap.
\<close>

definition acl_layout_ok :: "(dpsw_prep_acl_entry_member \<Rightarrow> nat) \<Rightarrow> nat \<Rightarrow> bool" where
  "acl_layout_ok off n \<longleftrightarrow>
     list_all (\<lambda>(m, w). off m + w \<le> n) dpsw_prep_acl_entry_members \<and>
     list_all (\<lambda>(m, w). list_all (\<lambda>(m', w'). m = m' \<or> off m + w \<le> off m' \<or> off m' + w' \<le> off m)
                 dpsw_prep_acl_entry_members)
       dpsw_prep_acl_entry_members"

definition copy_byte :: "u8 list \<Rightarrow> nat \<Rightarrow> u8 list \<Rightarrow> nat \<Rightarrow> u8 list option" where
  "copy_byte dst di src si =
     (case array_get src si of None \<Rightarrow> None | Some v \<Rightarrow> array_set dst di v)"

definition store_bytes :: "nat \<Rightarrow> u8 list \<Rightarrow> u8 list \<Rightarrow> u8 list option" where
  "store_bytes at bs buf =
     (if at + length bs \<le> length buf
      then Some (take at buf @ bs @ drop (at + length bs) buf) else None)"

text \<open>The body of the loop over the four hardware addresses, at index \<open>i\<close>.\<close>

definition acl_mac_step ::
  "(dpsw_prep_acl_entry_member \<Rightarrow> nat) \<Rightarrow> dpsw_acl_key \<Rightarrow> nat \<Rightarrow> u8 list \<Rightarrow> u8 list option" where
  "acl_mac_step off key i buf =
     Option.bind (copy_byte buf (off match_l2_dest_mac + i) (l2_dest_mac (match key)) (5 - i))
       (\<lambda>b1.
     Option.bind (copy_byte b1 (off match_l2_source_mac + i) (l2_source_mac (match key)) (5 - i))
       (\<lambda>b2.
     Option.bind (copy_byte b2 (off mask_l2_dest_mac + i) (l2_dest_mac (mask_key key)) (5 - i))
       (\<lambda>b3.
     copy_byte b3 (off mask_l2_source_mac + i) (l2_source_mac (mask_key key)) (5 - i))))"

function acl_mac_loop ::
  "(dpsw_prep_acl_entry_member \<Rightarrow> nat) \<Rightarrow> dpsw_acl_key \<Rightarrow> nat \<Rightarrow> u8 list \<Rightarrow> u8 list option" where
  "acl_mac_loop off key i buf =
     (if i < 6 then
        (case acl_mac_step off key i buf of
           None \<Rightarrow> None
         | Some buf' \<Rightarrow> acl_mac_loop off key (Suc i) buf')
      else Some buf)"
  by pat_completeness auto
termination
  by (relation "measure (\<lambda>(off, key, i, buf). 6 - i)") auto

declare acl_mac_loop.simps [simp del]

text \<open>The scalar members, in the order of the assignments.\<close>

definition acl_scalar_stores :: "dpsw_acl_key \<Rightarrow> (dpsw_prep_acl_entry_member \<times> u8 list) list" where
  "acl_scalar_stores key =
     [(match_l2_tpid, cpu_to_le16 (l2_tpid (match key))),
      (match_l2_vlan_id, cpu_to_le16 (l2_vlan_id (match key))),
      (match_l3_dest_ip, cpu_to_le32 (l3_dest_ip (match key))),
      (match_l3_source_ip, cpu_to_le32 (l3_source_ip (match key))),
      (match_l4_dest_port, cpu_to_le16 (l4_dest_port (match key))),
      (match_l4_source_port, cpu_to_le16 (l4_source_port (match key))),
      (match_l2_ether_type, cpu_to_le16 (l2_ether_type (match key))),
      (match_l2_pcp_dei, [l2_pcp_dei (match key)]),
      (match_l3_dscp, [l3_dscp (match key)]),
      (mask_l2_tpid, cpu_to_le16 (l2_tpid (mask_key key))),
      (mask_l2_vlan_id, cpu_to_le16 (l2_vlan_id (mask_key key))),
      (mask_l3_dest_ip, cpu_to_le32 (l3_dest_ip (mask_key key))),
      (mask_l3_source_ip, cpu_to_le32 (l3_source_ip (mask_key key))),
      (mask_l4_dest_port, cpu_to_le16 (l4_dest_port (mask_key key))),
      (mask_l4_source_port, cpu_to_le16 (l4_source_port (mask_key key))),
      (mask_l2_ether_type, cpu_to_le16 (l2_ether_type (mask_key key))),
      (mask_l2_pcp_dei, [l2_pcp_dei (mask_key key)]),
      (mask_l3_dscp, [l3_dscp (mask_key key)]),
      (match_l3_protocol, [l3_protocol (match key)]),
      (mask_l3_protocol, [l3_protocol (mask_key key)]),
      (match_frame_flags, [frame_flags (match key)]),
      (mask_frame_flags, [frame_flags (mask_key key)])]"

definition store_member ::
  "(dpsw_prep_acl_entry_member \<Rightarrow> nat) \<Rightarrow> dpsw_prep_acl_entry_member \<times> u8 list \<Rightarrow> u8 list option \<Rightarrow> u8 list option" where
  "store_member off m ob = Option.bind ob (store_bytes (off (fst m)) (snd m))"

definition dpsw_acl_prepare_entry_cfg ::
  "(dpsw_prep_acl_entry_member \<Rightarrow> nat) \<Rightarrow> dpsw_acl_key \<Rightarrow> u8 list \<Rightarrow> u8 list option" where
  "dpsw_acl_prepare_entry_cfg off key entry_cfg_buf =
     fold (store_member off) (acl_scalar_stores key) (acl_mac_loop off key 0 entry_cfg_buf)"

text \<open>A set of fields that are all zero, and the key that matches a destination address only.\<close>

definition zero_acl_fields :: dpsw_acl_fields where
  "zero_acl_fields =
     \<lparr>l2_dest_mac = [0, 0, 0, 0, 0, 0], l2_source_mac = [0, 0, 0, 0, 0, 0],
      l2_tpid = 0, l2_pcp_dei = 0, l2_vlan_id = 0, l2_ether_type = 0,
      l3_dscp = 0, l3_protocol = 0, l3_source_ip = 0, l3_dest_ip = 0,
      l4_source_port = 0, l4_dest_port = 0, frame_flags = 0\<rparr>"

definition dest_mac_key :: "u8 list \<Rightarrow> u8 list \<Rightarrow> dpsw_acl_key" where
  "dest_mac_key match_mac mask_mac =
     \<lparr>match = zero_acl_fields\<lparr>l2_dest_mac := match_mac\<rparr>,
      mask_key = zero_acl_fields\<lparr>l2_dest_mac := mask_mac\<rparr>\<rparr>"

text \<open>
  The buffer that the address loop has produced after \<open>i\<close> rounds when it starts from \<open>n\<close>
  zero bytes and only the two destination addresses of the key are set: the first \<open>i\<close>
  bytes of either destination region hold the address back to front, every other byte is
  zero. \<open>oa\<close> and \<open>ob\<close> are the offsets of the match and of the mask destination address.
\<close>

definition dest_mac_image :: "nat \<Rightarrow> nat \<Rightarrow> u8 list \<Rightarrow> u8 list \<Rightarrow> nat \<Rightarrow> nat \<Rightarrow> u8 list" where
  "dest_mac_image oa ob match_mac mask_mac i n =
     map (\<lambda>j. if oa \<le> j \<and> j < oa + i then match_mac ! (5 - (j - oa))
              else if ob \<le> j \<and> j < ob + i then mask_mac ! (5 - (j - ob))
              else 0) [0..<n]"

text \<open>
  One layout of the struct, used to run the flattening on concrete keys: the match half
  from byte 0, the mask half from byte 32, the protocol and flag bytes from byte 64.
\<close>

definition example_acl_offsets :: "dpsw_prep_acl_entry_member \<Rightarrow> nat" where
  "example_acl_offsets m =
     (case m of
        match_l2_dest_mac \<Rightarrow> 0 | match_l2_tpid \<Rightarrow> 6
      | match_l2_source_mac \<Rightarrow> 8 | match_l2_vlan_id \<Rightarrow> 14
      | match_l3_dest_ip \<Rightarrow> 16 | match_l3_source_ip \<Rightarrow> 20
      | match_l4_dest_port \<Rightarrow> 24 | match_l4_source_port \<Rightarrow> 26
      | match_l2_ether_type \<Rightarrow> 28 | match_l2_pcp_dei \<Rightarrow> 30 | match_l3_dscp \<Rightarrow> 31
      | mask_l2_dest_mac \<Rightarrow> 32 | mask_l2_tpid \<Rightarrow> 38
      | mask_l2_source_mac \<Rightarrow> 40 | mask_l2_vlan_id \<Rightarrow> 46
      | mask_l3_dest_ip \<Rightarrow> 48 | mask_l3_source_ip \<Rightarrow> 52
      | mask_l4_dest_port \<Rightarrow> 56 | mask_l4_source_port \<Rightarrow> 58
      | mask_l2_ether_type \<Rightarrow> 60 | mask_l2_pcp_dei \<Rightarrow> 62 | mask_l3_dscp \<Rightarrow> 63
      | match_l3_protocol \<Rightarrow> 64 | mask_l3_protocol \<Rightarrow> 65
      | match_frame_flags \<Rightarrow> 66 | mask_frame_flags \<Rightarrow> 67)"

section \<open>Byte order and the bitmap loop\<close>

lemma le_to_cpu_or:
  "length a = length b \<Longrightarrow> (le_to_cpu (map2 (OR) a b) :: 'a::len word) = le_to_cpu a OR le_to_cpu b"
proof (induction a b rule: list_induct2)
  case Nil show ?case by simp
next
  case (Cons x xs y ys)
  then show ?case by (simp add: bit_eq_iff bit_simps) blast
qed

lemma bit_le_to_cpu:
  "bit (le_to_cpu bs :: 'a::len word) n \<longleftrightarrow>
     n < LENGTH('a) \<and> n div 8 < length bs \<and> bit (bs ! (n div 8)) (n mod 8)"
proof (induction bs arbitrary: n)
  case Nil show ?case by simp
next
  case (Cons b bs)
  show ?case
  proof (cases "n < 8")
    case True
    then show ?thesis by (simp add: bit_simps)
  next
    case False
    then have n: "n = 8 + (n - 8)" by simp
    have d: "n div 8 = Suc ((n - 8) div 8)" and m: "n mod 8 = (n - 8) mod 8"
      using False by (simp_all add: not_less le_div_geq le_mod_geq)
    have nb: "\<not> bit b n" using False bit_imp_le_length[of b n] by auto
    show ?thesis
      using False by (auto simp add: bit_simps Cons.IH d m nb)
  qed
qed

lemma upt8: "[0..<8] = [0,1,2,3,4,5,6,7::nat]" by code_simp

lemma cpu_to_le64_map: "cpu_to_le64 x = map (\<lambda>k. ucast (drop_bit (8 * k) x)) [0..<8]"
  by (simp add: cpu_to_le64_def upt8)

lemma le64_roundtrip: "le64_to_cpu (cpu_to_le64 x) = x"
proof (rule bit_word_eqI)
  fix n assume "n < LENGTH(64)"
  then have n: "n < 64" by simp
  then have d: "n div 8 < 8" by simp
  have len: "length (cpu_to_le64 x) = 8" by (simp add: cpu_to_le64_def)
  have "bit (le64_to_cpu (cpu_to_le64 x)) n \<longleftrightarrow> bit (cpu_to_le64 x ! (n div 8)) (n mod 8)"
    using n d by (simp add: le64_to_cpu_def len bit_le_to_cpu)
  also have "\<dots> \<longleftrightarrow> bit x (8 * (n div 8) + n mod 8)"
    using d by (simp add: cpu_to_le64_map bit_simps del: upt_Suc)
  finally show "bit (le64_to_cpu (cpu_to_le64 x)) n \<longleftrightarrow> bit x n" by simp
qed

lemma bitmap_step_None: "bitmap_step x None = None"
  by (simp add: bitmap_step_def)

lemma bitmap_step_Some:
  "bitmap_step x (Some bmap) =
     (if unat x < DPSW_MAX_IF then
        (if length bmap \<le> unat x div 64 then None
         else Some (bmap[unat x div 64 :=
                le64_or (bmap ! (unat x div 64)) (cpu_to_le64 (BIT_MASK (unat x mod 64)))]))
      else Some bmap)"
  by (simp add: bitmap_step_def)

lemma fold_bitmap_step_None: "fold bitmap_step xs None = None"
  by (induction xs) (simp_all add: bitmap_step_None)

lemma build_from_fold:
  "i \<le> min (unat cnt) DPSW_MAX_IF \<Longrightarrow> min (unat cnt) DPSW_MAX_IF \<le> length ids \<Longrightarrow>
   build_if_id_bitmap_from i bmap ids cnt =
     fold bitmap_step (drop i (take (min (unat cnt) DPSW_MAX_IF) ids)) (Some bmap)"
proof (induction i bmap ids cnt rule: build_if_id_bitmap_from.induct)
  case (1 i bmap ids cnt)
  let ?m = "min (unat cnt) DPSW_MAX_IF"
  show ?case
  proof (cases "i < ?m")
    case False
    with "1.prems" have "i = ?m" by (auto simp: min_def split: if_splits)
    then have "drop i (take ?m ids) = []" by auto
    moreover have "build_if_id_bitmap_from i bmap ids cnt = Some bmap"
      using False by (subst build_if_id_bitmap_from.simps) auto
    ultimately show ?thesis by simp
  next
    case True
    then have lt: "i < unat cnt \<and> i < DPSW_MAX_IF" and il: "i < length ids"
      using "1.prems" by auto
    have dr: "drop i (take ?m ids) = ids ! i # drop (Suc i) (take ?m ids)"
      using True il by (simp add: Cons_nth_drop_Suc [symmetric])
    have suc: "Suc i \<le> ?m" using True by simp
    show ?thesis
    proof (cases "unat (ids ! i) < DPSW_MAX_IF")
      case False
      have "build_if_id_bitmap_from i bmap ids cnt = build_if_id_bitmap_from (Suc i) bmap ids cnt"
        using lt il False by (subst build_if_id_bitmap_from.simps) simp
      also have "\<dots> = fold bitmap_step (drop (Suc i) (take ?m ids)) (Some bmap)"
        using "1.IH"(2) lt il False suc "1.prems"(2) by simp
      finally show ?thesis using False by (simp add: dr bitmap_step_Some)
    next
      case valid: True
      show ?thesis
      proof (cases "length bmap \<le> unat (ids ! i) div 64")
        case True
        have "build_if_id_bitmap_from i bmap ids cnt = None"
          using lt il valid True by (subst build_if_id_bitmap_from.simps) simp
        then show ?thesis using valid True
          by (simp add: dr bitmap_step_Some fold_bitmap_step_None)
      next
        case False
        let ?b = "bmap[unat (ids ! i) div 64 :=
                      le64_or (bmap ! (unat (ids ! i) div 64))
                              (cpu_to_le64 (BIT_MASK (unat (ids ! i) mod 64)))]"
        have "build_if_id_bitmap_from i bmap ids cnt = build_if_id_bitmap_from (Suc i) ?b ids cnt"
          using lt il valid False by (subst build_if_id_bitmap_from.simps) simp
        also have "\<dots> = fold bitmap_step (drop (Suc i) (take ?m ids)) (Some ?b)"
          using "1.IH"(1) lt il valid False suc "1.prems"(2) by simp
        finally show ?thesis using valid False by (simp add: dr bitmap_step_Some)
      qed
    qed
  qed
qed

lemma build_if_id_bitmap_fold:
  "min (unat cnt) DPSW_MAX_IF \<le> length ids \<Longrightarrow>
   build_if_id_bitmap bmap ids cnt =
     fold bitmap_step (take (min (unat cnt) DPSW_MAX_IF) ids) (Some bmap)"
  by (simp add: build_if_id_bitmap_def build_from_fold)

lemma bit_BIT_MASK: "bit (BIT_MASK n) j \<longleftrightarrow> j < 64 \<and> j = n mod 64"
  by (auto simp add: BIT_MASK_def bit_simps)

lemma length_cpu_to_le64: "length (cpu_to_le64 x) = 8"
  by (simp add: cpu_to_le64_def)

lemma le64_to_cpu_or:
  "length w = 8 \<Longrightarrow> le64_to_cpu (le64_or w (cpu_to_le64 m)) = le64_to_cpu w OR m"
proof -
  assume w: "length w = 8"
  have "le64_to_cpu (le64_or w (cpu_to_le64 m)) = le_to_cpu (map2 (OR) w (cpu_to_le64 m))"
    by (simp add: le64_to_cpu_def le64_or_def w length_cpu_to_le64)
  also have "\<dots> = le_to_cpu w OR le_to_cpu (cpu_to_le64 m)"
    by (rule le_to_cpu_or) (simp add: w length_cpu_to_le64)
  also have "\<dots> = le64_to_cpu w OR m"
    using le64_roundtrip [of m] by (simp add: le64_to_cpu_def w length_cpu_to_le64)
  finally show ?thesis .
qed

lemma length_le64_or: "length w = 8 \<Longrightarrow> length (le64_or w (cpu_to_le64 m)) = 8"
  by (simp add: le64_or_def length_cpu_to_le64)

lemma fold_bitmap_step_bits:
  assumes "\<forall>w\<in>set bmap. length w = 8" and "bmap \<noteq> []"
  shows "\<exists>b. fold bitmap_step xs (Some bmap) = Some b \<and> length b = length bmap \<and>
             (\<forall>w\<in>set b. length w = 8) \<and>
             (\<forall>k<length bmap. \<forall>j<64.
                bit (le64_to_cpu (b ! k)) j \<longleftrightarrow>
                  bit (le64_to_cpu (bmap ! k)) j \<or>
                  (\<exists>x\<in>set xs. unat x < DPSW_MAX_IF \<and> unat x div 64 = k \<and> unat x mod 64 = j))"
  using assms
proof (induction xs arbitrary: bmap)
  case Nil
  then show ?case by simp
next
  case (Cons x xs)
  show ?case
  proof (cases "unat x < DPSW_MAX_IF")
    case False
    then have "fold bitmap_step (x # xs) (Some bmap) = fold bitmap_step xs (Some bmap)"
      by (simp add: bitmap_step_Some)
    with Cons.IH [OF Cons.prems] False show ?thesis by auto
  next
    case True
    then have d: "unat x div 64 = 0" by (simp add: DPSW_MAX_IF_def)
    let ?w = "le64_or (bmap ! 0) (cpu_to_le64 (BIT_MASK (unat x mod 64)))"
    let ?b = "bmap[0 := ?w]"
    have l0: "length (bmap ! 0) = 8" using Cons.prems by (cases bmap) auto
    have lw: "length ?w = 8" by (rule length_le64_or [OF l0])
    have wf: "\<forall>w\<in>set ?b. length w = 8"
      using Cons.prems lw by (auto dest!: subsetD [OF set_update_subset_insert])
    have ne: "?b \<noteq> []" using Cons.prems by simp
    have st: "fold bitmap_step (x # xs) (Some bmap) = fold bitmap_step xs (Some ?b)"
      using True d Cons.prems by (simp add: bitmap_step_Some)
    from Cons.IH [OF wf ne] obtain b where
      b: "fold bitmap_step xs (Some ?b) = Some b" "length b = length ?b" "\<forall>w\<in>set b. length w = 8"
      and bits: "\<forall>k<length ?b. \<forall>j<64.
                bit (le64_to_cpu (b ! k)) j \<longleftrightarrow>
                  bit (le64_to_cpu (?b ! k)) j \<or>
                  (\<exists>y\<in>set xs. unat y < DPSW_MAX_IF \<and> unat y div 64 = k \<and> unat y mod 64 = j)"
      by blast
    have old: "bit (le64_to_cpu (?b ! k)) j \<longleftrightarrow>
                 bit (le64_to_cpu (bmap ! k)) j \<or> (k = 0 \<and> j = unat x mod 64)"
      if "k < length bmap" "j < 64" for k j
    proof (cases "k = 0")
      case True
      with that show ?thesis
        by (simp add: le64_to_cpu_or [OF l0] bit_simps bit_BIT_MASK)
    next
      case False
      with that show ?thesis by simp
    qed
    have "\<forall>k<length bmap. \<forall>j<64.
                bit (le64_to_cpu (b ! k)) j \<longleftrightarrow>
                  bit (le64_to_cpu (bmap ! k)) j \<or>
                  (\<exists>y\<in>set (x # xs). unat y < DPSW_MAX_IF \<and> unat y div 64 = k \<and> unat y mod 64 = j)"
      using bits old True d by auto
    with st b show ?thesis by simp
  qed
qed

lemma bitmap_step_invalid: "\<not> unat x < DPSW_MAX_IF \<Longrightarrow> bitmap_step x ob = ob"
  by (cases ob) (simp_all add: bitmap_step_None bitmap_step_Some)

lemma fold_bitmap_step_filter:
  "fold bitmap_step (filter (\<lambda>x. unat x < DPSW_MAX_IF) xs) ob = fold bitmap_step xs ob"
  by (induction xs arbitrary: ob) (simp_all add: bitmap_step_invalid)

lemma map2_or_swap:
  "map2 (OR) (map2 (OR) w a) b = map2 (OR) (map2 (OR) w b) (a :: u8 list)"
  by (auto simp add: list_eq_iff_nth_eq ac_simps)

lemma map2_or_idem:
  "map2 (OR) (map2 (OR) w a) a = map2 (OR) w (a :: u8 list)"
  by (auto simp add: list_eq_iff_nth_eq ac_simps)

lemma bitmap_step_commute: "bitmap_step y (bitmap_step x ob) = bitmap_step x (bitmap_step y ob)"
proof (cases ob)
  case None
  then show ?thesis by (simp add: bitmap_step_None)
next
  case (Some bmap)
  show ?thesis
  proof (cases "unat x < DPSW_MAX_IF \<and> unat y < DPSW_MAX_IF")
    case False
    then show ?thesis by (auto simp add: bitmap_step_invalid)
  next
    case True
    then have "unat x div 64 = 0" "unat y div 64 = 0" by (simp_all add: DPSW_MAX_IF_def)
    with True Some show ?thesis
      by (simp add: bitmap_step_Some bitmap_step_None le64_or_def map2_or_swap)
  qed
qed

lemma bitmap_step_idem: "bitmap_step x (bitmap_step x ob) = bitmap_step x ob"
proof (cases ob)
  case None
  then show ?thesis by (simp add: bitmap_step_None)
next
  case (Some bmap)
  show ?thesis
  proof (cases "unat x < DPSW_MAX_IF")
    case False
    then show ?thesis by (simp add: bitmap_step_invalid)
  next
    case True
    then have "unat x div 64 = 0" by (simp add: DPSW_MAX_IF_def)
    with True Some show ?thesis
      by (simp add: bitmap_step_Some bitmap_step_None le64_or_def map2_or_idem)
  qed
qed

lemma bitmap_step_idem_on: "comp_fun_idem_on UNIV bitmap_step"
  by unfold_locales (simp_all add: fun_eq_iff bitmap_step_commute bitmap_step_idem)

lemma fold_bitmap_step_set:
  "set xs = set ys \<Longrightarrow> fold bitmap_step xs ob = fold bitmap_step ys ob"
  using comp_fun_idem_on.fold_set_fold [OF bitmap_step_idem_on, of xs ob]
        comp_fun_idem_on.fold_set_fold [OF bitmap_step_idem_on, of ys ob]
  by simp

lemma unat_count: "n \<le> DPSW_MAX_IF \<Longrightarrow> unat (word_of_nat n :: u16) = n"
  by (simp add: DPSW_MAX_IF_def unat_of_nat)

lemma replicate8: "replicate 8 x = [x, x, x, x, x, x, x, x]"
  by (simp add: numeral_eq_Suc)

lemma replicate6: "replicate 6 x = [x, x, x, x, x, x]"
  by (simp add: numeral_eq_Suc)

lemma zero_if_id_bitmap_eq: "zero_if_id_bitmap = [[0, 0, 0, 0, 0, 0, 0, 0]]"
proof -
  have "(DPSW_MAX_IF + 63) div 64 = Suc 0" by (simp add: DPSW_MAX_IF_def)
  then show ?thesis by (simp add: zero_if_id_bitmap_def replicate8)
qed

lemma length_filter_take_le:
  "length (filter P (take (min a DPSW_MAX_IF) xs)) \<le> DPSW_MAX_IF"
  by (rule order_trans [OF length_filter_le]) simp

lemma fold_bitmap_step_Some:
  "bmap \<noteq> [] \<Longrightarrow> \<exists>b. fold bitmap_step xs (Some bmap) = Some b \<and> b \<noteq> []"
proof (induction xs arbitrary: bmap)
  case Nil
  then show ?case by simp
next
  case (Cons x xs)
  show ?case
  proof (cases "unat x < DPSW_MAX_IF")
    case True
    then have "unat x div 64 = 0" by (simp add: DPSW_MAX_IF_def)
    with True Cons.prems
      Cons.IH [of "bmap[0 := le64_or (bmap ! 0) (cpu_to_le64 (BIT_MASK (unat x mod 64)))]"]
    show ?thesis by (simp add: bitmap_step_Some)
  next
    case False
    with Cons show ?thesis by (simp add: bitmap_step_Some)
  qed
qed

lemma build_zero_bitmap_Some:
  "min (unat cnt) DPSW_MAX_IF \<le> length ids \<Longrightarrow>
   \<exists>b. build_if_id_bitmap zero_if_id_bitmap ids cnt = Some b"
  using fold_bitmap_step_Some [of zero_if_id_bitmap "take (min (unat cnt) DPSW_MAX_IF) ids"]
  by (auto simp add: build_if_id_bitmap_fold zero_if_id_bitmap_eq)

section \<open>The interface-set bitmap builder\<close>

text \<open>
  C2. For any sequence of interface ids and any count, as long as the sequence holds the
  entries the loop visits and the bitmap is a non-empty array of 8-byte words,
  \<^verbatim>\<open>build_if_id_bitmap\<close> returns a bitmap of the same shape and visits exactly the first
  \<open>min count 64\<close> entries: the result is the same on the sequence cut after them. Bit
  \<open>j\<close> of the little-endian word \<open>k\<close> of the result is set exactly if it was set before
  or a visited id below 64 has \<open>id div 64 = k\<close> and \<open>id mod 64 = j\<close>. So the visited
  ids below 64 are OR-ed in, no other bit is set and no bit is cleared.
\<close>

theorem build_if_id_bitmap_sets_bits:
  assumes inb: "min (unat cnt) DPSW_MAX_IF \<le> length ids"
    and ne: "bmap \<noteq> []" and wf: "\<forall>w\<in>set bmap. length w = 8"
  shows "\<exists>b. build_if_id_bitmap bmap ids cnt = Some b \<and>
           build_if_id_bitmap bmap (take (min (unat cnt) DPSW_MAX_IF) ids) cnt = Some b \<and>
           length b = length bmap \<and> (\<forall>w\<in>set b. length w = 8) \<and>
           (\<forall>k<length bmap. \<forall>j<64.
              bit (le64_to_cpu (b ! k)) j \<longleftrightarrow>
                bit (le64_to_cpu (bmap ! k)) j \<or>
                (\<exists>i<min (unat cnt) DPSW_MAX_IF.
                   unat (ids ! i) < DPSW_MAX_IF \<and> unat (ids ! i) div 64 = k \<and>
                   unat (ids ! i) mod 64 = j))"
proof -
  let ?m = "min (unat cnt) DPSW_MAX_IF"
  let ?xs = "take ?m ids"
  have len: "length ?xs = ?m" using inb by simp
  have f1: "build_if_id_bitmap bmap ids cnt = fold bitmap_step ?xs (Some bmap)"
    by (rule build_if_id_bitmap_fold [OF inb])
  have "build_if_id_bitmap bmap ?xs cnt = fold bitmap_step (take ?m ?xs) (Some bmap)"
    by (rule build_if_id_bitmap_fold) (use inb in simp)
  then have f2: "build_if_id_bitmap bmap ?xs cnt = fold bitmap_step ?xs (Some bmap)"
    by simp
  have mem: "(\<exists>x\<in>set ?xs. P x) \<longleftrightarrow> (\<exists>i<?m. P (ids ! i))" for P
  proof
    assume "\<exists>x\<in>set ?xs. P x"
    then obtain i where "i < length ?xs" "P (?xs ! i)" by (auto simp: in_set_conv_nth)
    then show "\<exists>i<?m. P (ids ! i)" using len by auto
  next
    assume "\<exists>i<?m. P (ids ! i)"
    then obtain i where i: "i < ?m" "P (ids ! i)" by blast
    then have "?xs ! i \<in> set ?xs" using len by (intro nth_mem) simp
    with i show "\<exists>x\<in>set ?xs. P x" by auto
  qed
  from fold_bitmap_step_bits [OF wf ne, of ?xs] obtain b where
    b: "fold bitmap_step ?xs (Some bmap) = Some b" "length b = length bmap"
       "\<forall>w\<in>set b. length w = 8"
    and bits: "\<forall>k<length bmap. \<forall>j<64.
                bit (le64_to_cpu (b ! k)) j \<longleftrightarrow>
                  bit (le64_to_cpu (bmap ! k)) j \<or>
                  (\<exists>x\<in>set ?xs. unat x < DPSW_MAX_IF \<and> unat x div 64 = k \<and> unat x mod 64 = j)"
    by blast
  have "\<forall>k<length bmap. \<forall>j<64.
              bit (le64_to_cpu (b ! k)) j \<longleftrightarrow>
                bit (le64_to_cpu (bmap ! k)) j \<or>
                (\<exists>i<?m. unat (ids ! i) < DPSW_MAX_IF \<and> unat (ids ! i) div 64 = k \<and>
                   unat (ids ! i) mod 64 = j)"
    using bits mem [of "\<lambda>x. unat x < DPSW_MAX_IF \<and> unat x div 64 = k \<and> unat x mod 64 = j" for k j]
    by simp
  with b f1 f2 show ?thesis by simp
qed

theorem build_if_id_bitmap_sets_bits_witness:
  "\<exists>b. build_if_id_bitmap [[0, 0, 0, 0, 0, 0, 0, 0]] [9, 64, 1, 3] 3 = Some b \<and>
       build_if_id_bitmap [[0, 0, 0, 0, 0, 0, 0, 0]] [9, 64, 1] 3 = Some b \<and>
       le64_to_cpu (b ! 0) = 0x202"
proof -
  have h1: "min (unat (3 :: u16)) DPSW_MAX_IF \<le> length [9, 64, 1, 3 :: u16]"
    by (simp add: DPSW_MAX_IF_def)
  have h2: "[[0, 0, 0, 0, 0, 0, 0, 0 :: u8]] \<noteq> []" by simp
  have h3: "\<forall>w\<in>set [[0, 0, 0, 0, 0, 0, 0, 0 :: u8]]. length w = 8" by simp
  from build_if_id_bitmap_sets_bits [OF h1 h2 h3] obtain b where
    b: "build_if_id_bitmap [[0, 0, 0, 0, 0, 0, 0, 0]] [9, 64, 1, 3] 3 = Some b"
       "build_if_id_bitmap [[0, 0, 0, 0, 0, 0, 0, 0]]
          (take (min (unat (3 :: u16)) DPSW_MAX_IF) [9, 64, 1, 3]) 3 = Some b"
    by blast
  have ev: "build_if_id_bitmap [[0, 0, 0, 0, 0, 0, 0, 0]] [9, 64, 1, 3] 3
              = Some [[2, 2, 0, 0, 0, 0, 0, 0]]"
    by (simp add: build_if_id_bitmap_def build_if_id_bitmap_from.simps DPSW_MAX_IF_def
          le64_or_def cpu_to_le64_def BIT_MASK_def)
  have "le64_to_cpu [2, 2, 0, 0, 0, 0, 0, 0] = 0x202"
    by (simp add: le64_to_cpu_def)
  with b ev show ?thesis by (auto simp add: DPSW_MAX_IF_def)
qed

text \<open>
  C5. Interface index 64 with count 1 leaves the bitmap as it was and reports nothing.
  In general, with the visited entries inside the sequence: building from the sequence
  gives the same result as building from the visited ids below 64 alone, the builder
  does not fail on a non-empty bitmap, and when every visited id is 64 or more the
  bitmap comes back unchanged.
\<close>

theorem build_if_id_bitmap_drops_out_of_range:
  "build_if_id_bitmap bmap [64] 1 = Some bmap \<and>
   (min (unat cnt) DPSW_MAX_IF \<le> length ids \<longrightarrow>
      build_if_id_bitmap bmap ids cnt =
        build_if_id_bitmap bmap
          (filter (\<lambda>x. unat x < DPSW_MAX_IF) (take (min (unat cnt) DPSW_MAX_IF) ids))
          (word_of_nat (length (filter (\<lambda>x. unat x < DPSW_MAX_IF)
                                  (take (min (unat cnt) DPSW_MAX_IF) ids)))) \<and>
      (bmap \<noteq> [] \<longrightarrow> build_if_id_bitmap bmap ids cnt \<noteq> None) \<and>
      ((\<forall>i<min (unat cnt) DPSW_MAX_IF. DPSW_MAX_IF \<le> unat (ids ! i)) \<longrightarrow>
         build_if_id_bitmap bmap ids cnt = Some bmap))"
proof (intro conjI impI)
  show "build_if_id_bitmap bmap [64] 1 = Some bmap"
    by (simp add: build_if_id_bitmap_def build_if_id_bitmap_from.simps DPSW_MAX_IF_def)
next
  let ?m = "min (unat cnt) DPSW_MAX_IF"
  let ?ys = "filter (\<lambda>x. unat x < DPSW_MAX_IF) (take ?m ids)"
  assume inb: "?m \<le> length ids"
  have f1: "build_if_id_bitmap bmap ids cnt = fold bitmap_step (take ?m ids) (Some bmap)"
    by (rule build_if_id_bitmap_fold [OF inb])
  have ul: "unat (word_of_nat (length ?ys) :: u16) = length ?ys"
    by (rule unat_count) (rule length_filter_take_le)
  have "build_if_id_bitmap bmap ?ys (word_of_nat (length ?ys)) =
          fold bitmap_step (take (min (unat (word_of_nat (length ?ys) :: u16)) DPSW_MAX_IF) ?ys)
            (Some bmap)"
    by (rule build_if_id_bitmap_fold) (simp add: ul)
  also have "\<dots> = fold bitmap_step ?ys (Some bmap)"
    by (simp only: ul min_absorb1 [OF length_filter_take_le] take_all [OF order_refl])
  also have "\<dots> = fold bitmap_step (take ?m ids) (Some bmap)"
    by (rule fold_bitmap_step_filter)
  finally show "build_if_id_bitmap bmap ids cnt =
      build_if_id_bitmap bmap ?ys (word_of_nat (length ?ys))"
    using f1 by simp
  {
    assume ne: "bmap \<noteq> []"
    from fold_bitmap_step_Some [OF ne, of "take ?m ids"] f1
    show "build_if_id_bitmap bmap ids cnt \<noteq> None" by auto
  }
  {
    assume all: "\<forall>i<?m. DPSW_MAX_IF \<le> unat (ids ! i)"
    have "?ys = []"
    proof (rule ccontr)
      assume "?ys \<noteq> []"
      then obtain x where "x \<in> set (take ?m ids)" "unat x < DPSW_MAX_IF"
        by (auto simp: filter_empty_conv)
      then obtain i where "i < length (take ?m ids)" "take ?m ids ! i = x"
        by (auto simp: in_set_conv_nth)
      with all \<open>unat x < DPSW_MAX_IF\<close> inb show False by auto
    qed
    then have "fold bitmap_step (take ?m ids) (Some bmap) = Some bmap"
      using fold_bitmap_step_filter [of "take ?m ids" "Some bmap"] by simp
    with f1 show "build_if_id_bitmap bmap ids cnt = Some bmap" by simp
  }
qed

theorem build_if_id_bitmap_drops_out_of_range_witness:
  "build_if_id_bitmap [[1, 0, 0, 0, 0, 0, 0, 0]] [64, 2, 300] 3 =
     build_if_id_bitmap [[1, 0, 0, 0, 0, 0, 0, 0]] [2] 1 \<and>
   build_if_id_bitmap [[1, 0, 0, 0, 0, 0, 0, 0]] [64, 2, 300] 3 \<noteq> None \<and>
   build_if_id_bitmap [[1, 0, 0, 0, 0, 0, 0, 0]] [64, 65535] 2 = Some [[1, 0, 0, 0, 0, 0, 0, 0]]"
proof -
  have h1: "min (unat (3 :: u16)) DPSW_MAX_IF \<le> length [64, 2, 300 :: u16]"
    by (simp add: DPSW_MAX_IF_def)
  have h2: "min (unat (2 :: u16)) DPSW_MAX_IF \<le> length [64, 65535 :: u16]"
    by (simp add: DPSW_MAX_IF_def)
  have h3: "\<forall>i<min (unat (2 :: u16)) DPSW_MAX_IF. DPSW_MAX_IF \<le> unat ([64, 65535 :: u16] ! i)"
  proof (intro allI impI)
    fix i
    assume "i < min (unat (2 :: u16)) DPSW_MAX_IF"
    then have "i = 0 \<or> i = 1" by (auto simp: DPSW_MAX_IF_def)
    then show "DPSW_MAX_IF \<le> unat ([64, 65535 :: u16] ! i)"
      by (auto simp: DPSW_MAX_IF_def)
  qed
  have h4: "[[1, 0, 0, 0, 0, 0, 0, 0 :: u8]] \<noteq> []" by simp
  have e: "filter (\<lambda>x. unat x < DPSW_MAX_IF) (take (min (unat (3 :: u16)) DPSW_MAX_IF) [64, 2, 300 :: u16])
             = [2]"
    by (simp add: DPSW_MAX_IF_def)
  note t1 = build_if_id_bitmap_drops_out_of_range [of "[[1, 0, 0, 0, 0, 0, 0, 0]]" 3 "[64, 2, 300]"]
  note t2 = build_if_id_bitmap_drops_out_of_range [of "[[1, 0, 0, 0, 0, 0, 0, 0]]" 2 "[64, 65535]"]
  from t1 h1 have
    "build_if_id_bitmap [[1, 0, 0, 0, 0, 0, 0, 0]] [64, 2, 300] 3 =
       build_if_id_bitmap [[1, 0, 0, 0, 0, 0, 0, 0]]
         (filter (\<lambda>x. unat x < DPSW_MAX_IF) (take (min (unat (3 :: u16)) DPSW_MAX_IF) [64, 2, 300]))
         (word_of_nat (length (filter (\<lambda>x. unat x < DPSW_MAX_IF)
            (take (min (unat (3 :: u16)) DPSW_MAX_IF) [64, 2, 300 :: u16]))))"
    by blast
  then have c1: "build_if_id_bitmap [[1, 0, 0, 0, 0, 0, 0, 0]] [64, 2, 300] 3 =
       build_if_id_bitmap [[1, 0, 0, 0, 0, 0, 0, 0]] [2] 1"
    unfolding e by simp
  from t1 h1 h4 have c2: "build_if_id_bitmap [[1, 0, 0, 0, 0, 0, 0, 0]] [64, 2, 300] 3 \<noteq> None"
    by blast
  from t2 h2 h3 have c3:
    "build_if_id_bitmap [[1, 0, 0, 0, 0, 0, 0, 0]] [64, 65535] 2 = Some [[1, 0, 0, 0, 0, 0, 0, 0]]"
    by blast
  from c1 c2 c3 show ?thesis by blast
qed

text \<open>
  C8. From the zeroed bitmap of a fresh command, the ids 5, 70, 5 with count 3 set bit 5
  of word 0 and nothing else, the same bitmap as the single id 5. In general two
  sequences of at most 64 ids with the same set of ids, each built with its own length
  as the count, give the same bitmap: repeating an id changes nothing.
\<close>

theorem build_if_id_bitmap_duplicates:
  "build_if_id_bitmap zero_if_id_bitmap [5, 70, 5] 3 = Some [[0x20, 0, 0, 0, 0, 0, 0, 0]] \<and>
   build_if_id_bitmap zero_if_id_bitmap [5] 1 = Some [[0x20, 0, 0, 0, 0, 0, 0, 0]] \<and>
   (length ids \<le> DPSW_MAX_IF \<longrightarrow> length ids' \<le> DPSW_MAX_IF \<longrightarrow> set ids = set ids' \<longrightarrow>
      build_if_id_bitmap bmap ids (word_of_nat (length ids)) =
      build_if_id_bitmap bmap ids' (word_of_nat (length ids')))"
proof (intro conjI impI)
  show "build_if_id_bitmap zero_if_id_bitmap [5, 70, 5] 3 = Some [[0x20, 0, 0, 0, 0, 0, 0, 0]]"
    by (simp add: zero_if_id_bitmap_eq build_if_id_bitmap_def build_if_id_bitmap_from.simps
          DPSW_MAX_IF_def le64_or_def cpu_to_le64_def BIT_MASK_def)
  show "build_if_id_bitmap zero_if_id_bitmap [5] 1 = Some [[0x20, 0, 0, 0, 0, 0, 0, 0]]"
    by (simp add: zero_if_id_bitmap_eq build_if_id_bitmap_def build_if_id_bitmap_from.simps
          DPSW_MAX_IF_def le64_or_def cpu_to_le64_def BIT_MASK_def)
next
  assume l: "length ids \<le> DPSW_MAX_IF" and l': "length ids' \<le> DPSW_MAX_IF"
    and s: "set ids = set ids'"
  have eq: "build_if_id_bitmap bmap xs (word_of_nat (length xs)) = fold bitmap_step xs (Some bmap)"
    if "length xs \<le> DPSW_MAX_IF" for xs
  proof -
    have u: "unat (word_of_nat (length xs) :: u16) = length xs"
      by (rule unat_count [OF that])
    have "build_if_id_bitmap bmap xs (word_of_nat (length xs)) =
            fold bitmap_step
              (take (min (unat (word_of_nat (length xs) :: u16)) DPSW_MAX_IF) xs) (Some bmap)"
      by (rule build_if_id_bitmap_fold) (simp add: u)
    then show ?thesis using that by (simp add: u)
  qed
  show "build_if_id_bitmap bmap ids (word_of_nat (length ids)) =
        build_if_id_bitmap bmap ids' (word_of_nat (length ids'))"
    by (simp add: eq [OF l] eq [OF l'] fold_bitmap_step_set [OF s])
qed

theorem build_if_id_bitmap_duplicates_witness:
  "build_if_id_bitmap [[0, 0, 0, 0, 0, 0, 0, 0]] [5, 7, 5] 3 =
   build_if_id_bitmap [[0, 0, 0, 0, 0, 0, 0, 0]] [7, 5] 2"
proof -
  have "length [5, 7, 5 :: u16] \<le> DPSW_MAX_IF" "length [7, 5 :: u16] \<le> DPSW_MAX_IF"
       "set [5, 7, 5 :: u16] = set [7, 5]"
    by (auto simp add: DPSW_MAX_IF_def)
  with build_if_id_bitmap_duplicates [of "[5, 7, 5]" "[7, 5]" "[[0, 0, 0, 0, 0, 0, 0, 0]]"]
  show ?thesis by simp
qed

section \<open>Hardware addresses on the wire\<close>

lemma length6:
  "length xs = 6 \<Longrightarrow> \<exists>a b c d e f. xs = [a, b, c, d, e, f]"
  by (auto simp add: numeral_eq_Suc length_Suc_conv)

lemma mac_to_wire_rev:
  assumes "length dst = 6" and "length src = 6"
  shows "mac_to_wire dst src = Some (rev src)"
proof -
  from length6 [OF assms(1)] obtain p q r s t u where d: "dst = [p, q, r, s, t, u]" by blast
  from length6 [OF assms(2)] obtain a b c d e f where s: "src = [a, b, c, d, e, f]" by blast
  show ?thesis
    by (simp add: d s mac_to_wire_def mac_to_wire_from.simps array_get_def array_set_def)
qed

lemma mac_from_wire_rev:
  assumes "length dst = 6" and "length src = 6"
  shows "mac_from_wire dst src = Some (rev src)"
proof -
  from length6 [OF assms(1)] obtain p q r s t u where d: "dst = [p, q, r, s, t, u]" by blast
  from length6 [OF assms(2)] obtain a b c d e f where s: "src = [a, b, c, d, e, f]" by blast
  show ?thesis
    by (simp add: d s mac_from_wire_def mac_from_wire_from.simps array_get_def array_set_def)
qed

lemma length_zero_mac_addr: "length zero_mac_addr = 6"
  by (simp add: zero_mac_addr_def)

lemma rev_nth6: "length x = 6 \<Longrightarrow> i < 6 \<Longrightarrow> rev x ! i = x ! (5 - i)"
  by (simp add: rev_nth)

lemma length_array_member: "length (array_member n bs) = n"
  by (simp add: array_member_def)

text \<open>
  C3. For a 6-byte address \<open>x\<close>: the copy towards the wire yields \<open>w\<close> with
  \<open>w ! i = x ! (5 - i)\<close>, the copy from the wire yields \<open>h\<close> with
  \<open>h ! (5 - i) = x ! i\<close>, and decoding the encoded address returns \<open>x\<close>. Every command
  that carries an address stores it reversed in its member \<^verbatim>\<open>mac_addr\<close> (the unicast and
  multicast FDB operations and the set-primary-address operation), and the two
  get-address operations return the reversed member of the response.
\<close>

theorem mac_addr_wire_reversal:
  assumes x: "length x = 6" and dst: "length dst = 6"
    and ifs: "min (unat cnt) DPSW_MAX_IF \<le> length ids"
  shows
   "(\<exists>w. mac_to_wire zero_mac_addr x = Some w \<and> length w = 6 \<and>
         (\<forall>i<6. w ! i = x ! (5 - i)) \<and> mac_from_wire dst w = Some x) \<and>
    (\<exists>h. mac_from_wire dst x = Some h \<and> length h = 6 \<and> (\<forall>i<6. h ! (5 - i) = x ! i)) \<and>
    map_option (\<lambda>c. params c ''mac_addr'')
      (dpsw_fdb_add_unicast_cmd L cmd_flags token fdb
         \<lparr>dpsw_fdb_unicast_cfg.type = ty, dpsw_fdb_unicast_cfg.mac_addr = x, if_egress = eg\<rparr>) = Some (rev x) \<and>
    map_option (\<lambda>c. params c ''mac_addr'')
      (dpsw_fdb_remove_unicast_cmd L cmd_flags token fdb
         \<lparr>dpsw_fdb_unicast_cfg.type = ty, dpsw_fdb_unicast_cfg.mac_addr = x, if_egress = eg\<rparr>) = Some (rev x) \<and>
    map_option (\<lambda>c. params c ''mac_addr'')
      (dpsw_fdb_add_multicast_cmd L cmd_flags token fdb
         \<lparr>dpsw_fdb_multicast_cfg.type = ty, dpsw_fdb_multicast_cfg.mac_addr = x,
           dpsw_fdb_multicast_cfg.num_ifs = cnt, dpsw_fdb_multicast_cfg.if_id = ids\<rparr>) = Some (rev x) \<and>
    map_option (\<lambda>c. params c ''mac_addr'')
      (dpsw_fdb_remove_multicast_cmd L cmd_flags token fdb
         \<lparr>dpsw_fdb_multicast_cfg.type = ty, dpsw_fdb_multicast_cfg.mac_addr = x,
           dpsw_fdb_multicast_cfg.num_ifs = cnt, dpsw_fdb_multicast_cfg.if_id = ids\<rparr>) = Some (rev x) \<and>
    map_option (\<lambda>c. params c ''mac_addr'')
      (dpsw_if_set_primary_mac_addr_cmd cmd_flags token ifid x) = Some (rev x) \<and>
    (fst (mc_send_command mc_io (dpsw_if_get_port_mac_addr_cmd cmd_flags token ifid)) = 0 \<longrightarrow>
       dpsw_if_get_port_mac_addr mc_io cmd_flags token ifid dst =
         Some (0, rev (array_member 6
           (params (snd (mc_send_command mc_io
              (dpsw_if_get_port_mac_addr_cmd cmd_flags token ifid))) ''mac_addr'')))) \<and>
    (fst (mc_send_command mc_io (dpsw_if_get_primary_mac_addr_cmd cmd_flags token ifid)) = 0 \<longrightarrow>
       dpsw_if_get_primary_mac_addr mc_io cmd_flags token ifid dst =
         Some (0, rev (array_member 6
           (params (snd (mc_send_command mc_io
              (dpsw_if_get_primary_mac_addr_cmd cmd_flags token ifid))) ''mac_addr''))))"
proof -
  note tw = mac_to_wire_rev [OF length_zero_mac_addr x]
  have lr: "length (rev x) = 6" using x by simp
  have c1: "\<exists>w. mac_to_wire zero_mac_addr x = Some w \<and> length w = 6 \<and>
         (\<forall>i<6. w ! i = x ! (5 - i)) \<and> mac_from_wire dst w = Some x"
    using tw lr mac_from_wire_rev [OF dst lr] rev_nth6 [OF x] by simp
  have c2: "\<exists>h. mac_from_wire dst x = Some h \<and> length h = 6 \<and> (\<forall>i<6. h ! (5 - i) = x ! i)"
  proof -
    have "rev x ! (5 - i) = x ! i" if "i < 6" for i
      using rev_nth6 [OF x, of "5 - i"] that by simp
    then show ?thesis using mac_from_wire_rev [OF dst x] lr by simp
  qed
  from build_zero_bitmap_Some [OF ifs] obtain b where
    b: "build_if_id_bitmap zero_if_id_bitmap ids cnt = Some b" by blast
  have c3: "map_option (\<lambda>c. params c ''mac_addr'')
      (dpsw_fdb_add_unicast_cmd L cmd_flags token fdb
         \<lparr>dpsw_fdb_unicast_cfg.type = ty, dpsw_fdb_unicast_cfg.mac_addr = x, if_egress = eg\<rparr>) = Some (rev x)"
    by (simp add: dpsw_fdb_add_unicast_cmd_def tw)
  have c4: "map_option (\<lambda>c. params c ''mac_addr'')
      (dpsw_fdb_remove_unicast_cmd L cmd_flags token fdb
         \<lparr>dpsw_fdb_unicast_cfg.type = ty, dpsw_fdb_unicast_cfg.mac_addr = x, if_egress = eg\<rparr>) = Some (rev x)"
    by (simp add: dpsw_fdb_remove_unicast_cmd_def tw)
  have c5: "map_option (\<lambda>c. params c ''mac_addr'')
      (dpsw_fdb_add_multicast_cmd L cmd_flags token fdb
         \<lparr>dpsw_fdb_multicast_cfg.type = ty, dpsw_fdb_multicast_cfg.mac_addr = x,
           dpsw_fdb_multicast_cfg.num_ifs = cnt, dpsw_fdb_multicast_cfg.if_id = ids\<rparr>) = Some (rev x)"
    by (simp add: dpsw_fdb_add_multicast_cmd_def dpsw_fdb_multicast_op_cmd_def tw b)
  have c6: "map_option (\<lambda>c. params c ''mac_addr'')
      (dpsw_fdb_remove_multicast_cmd L cmd_flags token fdb
         \<lparr>dpsw_fdb_multicast_cfg.type = ty, dpsw_fdb_multicast_cfg.mac_addr = x,
           dpsw_fdb_multicast_cfg.num_ifs = cnt, dpsw_fdb_multicast_cfg.if_id = ids\<rparr>) = Some (rev x)"
    by (simp add: dpsw_fdb_remove_multicast_cmd_def dpsw_fdb_multicast_op_cmd_def tw b)
  have c7: "map_option (\<lambda>c. params c ''mac_addr'')
      (dpsw_if_set_primary_mac_addr_cmd cmd_flags token ifid x) = Some (rev x)"
    by (simp add: dpsw_if_set_primary_mac_addr_cmd_def tw)
  have fw: "mac_from_wire dst (array_member 6 bs) = Some (rev (array_member 6 bs))" for bs
    by (rule mac_from_wire_rev [OF dst length_array_member])
  have c8: "fst (mc_send_command mc_io (dpsw_if_get_port_mac_addr_cmd cmd_flags token ifid)) = 0 \<longrightarrow>
       dpsw_if_get_port_mac_addr mc_io cmd_flags token ifid dst =
         Some (0, rev (array_member 6
           (params (snd (mc_send_command mc_io
              (dpsw_if_get_port_mac_addr_cmd cmd_flags token ifid))) ''mac_addr'')))"
    by (simp add: dpsw_if_get_port_mac_addr_def fw split: prod.split)
  have c9: "fst (mc_send_command mc_io (dpsw_if_get_primary_mac_addr_cmd cmd_flags token ifid)) = 0 \<longrightarrow>
       dpsw_if_get_primary_mac_addr mc_io cmd_flags token ifid dst =
         Some (0, rev (array_member 6
           (params (snd (mc_send_command mc_io
              (dpsw_if_get_primary_mac_addr_cmd cmd_flags token ifid))) ''mac_addr'')))"
    by (simp add: dpsw_if_get_primary_mac_addr_def fw split: prod.split)
  from c1 c2 c3 c4 c5 c6 c7 c8 c9 show ?thesis by blast
qed

theorem mac_addr_wire_reversal_witness:
  "(\<exists>w. mac_to_wire zero_mac_addr [1, 2, 3, 4, 5, 6] = Some w \<and>
        mac_from_wire [0, 0, 0, 0, 0, 0] w = Some [1, 2, 3, 4, 5, 6]) \<and>
   map_option (\<lambda>c. params c ''mac_addr'')
     (dpsw_if_set_primary_mac_addr_cmd 0 1 2 [1, 2, 3, 4, 5, 6]) = Some [6, 5, 4, 3, 2, 1] \<and>
   dpsw_if_get_port_mac_addr
     (\<lambda>c. (0, c\<lparr>params := (params c)(''mac_addr'' := [1, 2, 3, 4, 5, 6])\<rparr>)) 0 1 2
     [0, 0, 0, 0, 0, 0] = Some (0, [6, 5, 4, 3, 2, 1])"
proof -
  have h1: "length [1, 2, 3, 4, 5, 6 :: u8] = 6" by simp
  have h2: "length [0, 0, 0, 0, 0, 0 :: u8] = 6" by simp
  have h3: "min (unat (1 :: u16)) DPSW_MAX_IF \<le> length [3 :: u16]"
    by (simp add: DPSW_MAX_IF_def)
  from mac_addr_wire_reversal
         [where cmd_flags = 0 and token = 1 and ifid = 2 and fdb = 0 and ty = 0 and eg = 0
            and L = "\<lparr>SHIFT = \<lambda>_. 0, SIZE = \<lambda>_. 4\<rparr>"
            and mc_io = "\<lambda>c. (0, c\<lparr>params := (params c)(''mac_addr'' := [1, 2, 3, 4, 5, 6])\<rparr>)",
          OF h1 h2 h3]
  show ?thesis by (auto simp add: mc_send_command_def array_member_def)
qed

section \<open>Command identifiers and session tokens\<close>

lemma hdr_token_encode: "hdr_token (mc_encode_cmd_header c f t) = t"
  by (simp add: mc_encode_cmd_header_def)

lemma hdr_cmd_id_encode: "hdr_cmd_id (mc_encode_cmd_header c f t) = c"
  by (simp add: mc_encode_cmd_header_def)

lemma vlan_manage_if_token:
  "min (unat cnt) DPSW_MAX_IF \<le> length ids \<Longrightarrow>
   map_option (\<lambda>c. hdr_token (header c))
     (dpsw_vlan_manage_if_cmd cid f t v
        \<lparr>dpsw_vlan_if_cfg.num_ifs = cnt, dpsw_vlan_if_cfg.if_id = ids\<rparr>) = Some t"
  using build_zero_bitmap_Some [of cnt ids]
  by (auto simp add: dpsw_vlan_manage_if_cmd_def hdr_token_encode)

lemma acl_if_token:
  "min (unat cnt) DPSW_MAX_IF \<le> length ids \<Longrightarrow>
   map_option (\<lambda>c. hdr_token (header c))
     (dpsw_acl_if_cmd cid f t a
        \<lparr>dpsw_acl_if_cfg.num_ifs = cnt, dpsw_acl_if_cfg.if_id = ids\<rparr>) = Some t"
  using build_zero_bitmap_Some [of cnt ids]
  by (auto simp add: dpsw_acl_if_cmd_def hdr_token_encode)

lemma fdb_multicast_op_token:
  "min (unat cnt) DPSW_MAX_IF \<le> length ids \<Longrightarrow> length mac = 6 \<Longrightarrow>
   map_option (\<lambda>c. hdr_token (header c))
     (dpsw_fdb_multicast_op_cmd cid L f t fdb
        \<lparr>dpsw_fdb_multicast_cfg.type = ty, dpsw_fdb_multicast_cfg.mac_addr = mac,
         dpsw_fdb_multicast_cfg.num_ifs = cnt, dpsw_fdb_multicast_cfg.if_id = ids\<rparr>) = Some t"
  using build_zero_bitmap_Some [of cnt ids] mac_to_wire_rev [OF length_zero_mac_addr, of mac]
  by (auto simp add: dpsw_fdb_multicast_op_cmd_def hdr_token_encode)

lemma send_token_probe:
  "mc_send_command (token_probe g) cmd = (g (hdr_token (header cmd)), cmd)"
  by (simp add: mc_send_command_def token_probe_def)

lemma map_option_send_token_probe:
  "map_option (\<lambda>c. hdr_token (header c)) oc = Some t \<Longrightarrow>
   map_option (\<lambda>cmd. fst (mc_send_command (token_probe g) cmd)) oc = Some (g t)"
  by (cases oc) (auto simp add: send_token_probe)

text \<open>
  C10. Every operation is run against a transport that answers with \<open>g\<close> of the session
  token in the header it is handed, for an arbitrary \<open>g\<close>; the status the operation returns
  then shows the token it has submitted. \<^verbatim>\<open>dpsw_open\<close> and \<^verbatim>\<open>dpsw_get_api_version\<close>
  submit the token 0; each of the other 41 operations submits the token its caller
  supplies, unchanged. The operations that copy a 6-byte address or build a bitmap are
  taken on well-formed arrays.
\<close>

theorem session_token_in_header:
  assumes mac: "length mac = 6" and ifs: "min (unat cnt) DPSW_MAX_IF \<le> length ids"
  shows
   "fst (dpsw_open (token_probe g) f dpsw_id tok_out) = g 0 \<and>
    fst (dpsw_get_api_version (token_probe g) f major_ver minor_ver) = g 0 \<and>
    dpsw_close (token_probe g) f t = g t \<and>
    dpsw_enable (token_probe g) f t = g t \<and>
    dpsw_disable (token_probe g) f t = g t \<and>
    dpsw_reset (token_probe g) f t = g t \<and>
    dpsw_set_irq_enable (token_probe g) L f t irq en = g t \<and>
    dpsw_set_irq_mask (token_probe g) f t irq w32 = g t \<and>
    fst (dpsw_get_irq_status (token_probe g) f t irq w32) = g t \<and>
    dpsw_clear_irq_status (token_probe g) f t irq w32 = g t \<and>
    fst (dpsw_get_attributes (token_probe g) L f t attr) = g t \<and>
    fst (dpsw_if_get_attributes (token_probe g) L f t ifid if_attr) = g t \<and>
    dpsw_if_set_link_cfg (token_probe g) f t ifid link_cfg = g t \<and>
    fst (dpsw_if_get_link_state (token_probe g) L f t ifid link_state) = g t \<and>
    dpsw_if_set_flooding (token_probe g) L f t ifid en = g t \<and>
    dpsw_if_set_broadcast (token_probe g) L f t ifid en = g t \<and>
    dpsw_if_set_tci (token_probe g) L f t ifid tci_cfg = g t \<and>
    fst (dpsw_if_get_tci (token_probe g) f t ifid tci_out) = g t \<and>
    dpsw_if_set_stp (token_probe g) L f t ifid stp_cfg = g t \<and>
    fst (dpsw_if_get_counter (token_probe g) L f t ifid cty counter) = g t \<and>
    dpsw_if_enable (token_probe g) f t ifid = g t \<and>
    dpsw_if_disable (token_probe g) f t ifid = g t \<and>
    dpsw_if_set_max_frame_length (token_probe g) f t ifid flen = g t \<and>
    dpsw_vlan_add (token_probe g) f t vid vlan_cfg = g t \<and>
    dpsw_vlan_add_if (token_probe g) f t vid
      \<lparr>dpsw_vlan_if_cfg.num_ifs = cnt, dpsw_vlan_if_cfg.if_id = ids\<rparr> = Some (g t) \<and>
    dpsw_vlan_add_if_untagged (token_probe g) f t vid
      \<lparr>dpsw_vlan_if_cfg.num_ifs = cnt, dpsw_vlan_if_cfg.if_id = ids\<rparr> = Some (g t) \<and>
    dpsw_vlan_remove_if (token_probe g) f t vid
      \<lparr>dpsw_vlan_if_cfg.num_ifs = cnt, dpsw_vlan_if_cfg.if_id = ids\<rparr> = Some (g t) \<and>
    dpsw_vlan_remove_if_untagged (token_probe g) f t vid
      \<lparr>dpsw_vlan_if_cfg.num_ifs = cnt, dpsw_vlan_if_cfg.if_id = ids\<rparr> = Some (g t) \<and>
    dpsw_vlan_remove (token_probe g) f t vid = g t \<and>
    dpsw_fdb_add_unicast (token_probe g) L f t fdb
      \<lparr>dpsw_fdb_unicast_cfg.type = ty, dpsw_fdb_unicast_cfg.mac_addr = mac,
       if_egress = eg\<rparr> = Some (g t) \<and>
    fst (dpsw_fdb_dump (token_probe g) f t fdb iova_addr iova_size num_entries) = g t \<and>
    dpsw_fdb_remove_unicast (token_probe g) L f t fdb
      \<lparr>dpsw_fdb_unicast_cfg.type = ty, dpsw_fdb_unicast_cfg.mac_addr = mac,
       if_egress = eg\<rparr> = Some (g t) \<and>
    dpsw_fdb_add_multicast (token_probe g) L f t fdb
      \<lparr>dpsw_fdb_multicast_cfg.type = ty, dpsw_fdb_multicast_cfg.mac_addr = mac,
       dpsw_fdb_multicast_cfg.num_ifs = cnt, dpsw_fdb_multicast_cfg.if_id = ids\<rparr> = Some (g t) \<and>
    dpsw_fdb_remove_multicast (token_probe g) L f t fdb
      \<lparr>dpsw_fdb_multicast_cfg.type = ty, dpsw_fdb_multicast_cfg.mac_addr = mac,
       dpsw_fdb_multicast_cfg.num_ifs = cnt, dpsw_fdb_multicast_cfg.if_id = ids\<rparr> = Some (g t) \<and>
    dpsw_fdb_set_learning_mode (token_probe g) L f t fdb mode = g t \<and>
    map_option fst (dpsw_if_get_port_mac_addr (token_probe g) f t ifid mac) = Some (g t) \<and>
    map_option fst (dpsw_if_get_primary_mac_addr (token_probe g) f t ifid mac) = Some (g t) \<and>
    dpsw_if_set_primary_mac_addr (token_probe g) f t ifid mac = Some (g t) \<and>
    fst (dpsw_acl_add (token_probe g) f t acl_out acl_cfg) = g t \<and>
    dpsw_acl_remove (token_probe g) f t acl = g t \<and>
    dpsw_acl_add_if (token_probe g) f t acl
      \<lparr>dpsw_acl_if_cfg.num_ifs = cnt, dpsw_acl_if_cfg.if_id = ids\<rparr> = Some (g t) \<and>
    dpsw_acl_remove_if (token_probe g) f t acl
      \<lparr>dpsw_acl_if_cfg.num_ifs = cnt, dpsw_acl_if_cfg.if_id = ids\<rparr> = Some (g t) \<and>
    dpsw_acl_add_entry (token_probe g) L f t acl entry_cfg = g t"
proof -
  note tw = mac_to_wire_rev [OF length_zero_mac_addr mac]
  note cmds = hdr_token_encode
    dpsw_open_cmd_def dpsw_get_api_version_cmd_def dpsw_close_cmd_def dpsw_enable_cmd_def
    dpsw_disable_cmd_def dpsw_reset_cmd_def dpsw_set_irq_enable_cmd_def
    dpsw_set_irq_mask_cmd_def dpsw_get_irq_status_cmd_def dpsw_clear_irq_status_cmd_def
    dpsw_get_attributes_cmd_def dpsw_if_get_attributes_cmd_def dpsw_if_set_link_cfg_cmd_def
    dpsw_if_get_link_state_cmd_def dpsw_if_set_flooding_cmd_def dpsw_if_set_broadcast_cmd_def
    dpsw_if_set_tci_cmd_def dpsw_if_get_tci_cmd_def dpsw_if_set_stp_cmd_def
    dpsw_if_get_counter_cmd_def dpsw_if_enable_cmd_def dpsw_if_disable_cmd_def
    dpsw_if_set_max_frame_length_cmd_def dpsw_vlan_add_cmd_def dpsw_vlan_remove_cmd_def
    dpsw_fdb_dump_cmd_def dpsw_fdb_set_learning_mode_cmd_def
    dpsw_if_get_port_mac_addr_cmd_def dpsw_if_get_primary_mac_addr_cmd_def
    dpsw_acl_add_cmd_def dpsw_acl_remove_cmd_def dpsw_acl_add_entry_cmd_def
  have fw: "mac_from_wire mac (array_member 6 bs) = Some (rev (array_member 6 bs))" for bs
    by (rule mac_from_wire_rev [OF mac length_array_member])
  have o1: "fst (dpsw_open (token_probe g) f dpsw_id tok_out) = g 0"
    by (simp add: dpsw_open_def send_token_probe cmds)
  have o2: "fst (dpsw_get_api_version (token_probe g) f major_ver minor_ver) = g 0"
    by (simp add: dpsw_get_api_version_def send_token_probe cmds)
  have o3: "fst (dpsw_get_irq_status (token_probe g) f t irq w32) = g t"
    by (simp add: dpsw_get_irq_status_def send_token_probe cmds)
  have o4: "fst (dpsw_get_attributes (token_probe g) L f t attr) = g t"
    by (simp add: dpsw_get_attributes_def send_token_probe cmds)
  have o5: "fst (dpsw_if_get_attributes (token_probe g) L f t ifid if_attr) = g t"
    by (simp add: dpsw_if_get_attributes_def send_token_probe cmds)
  have o6: "fst (dpsw_if_get_link_state (token_probe g) L f t ifid link_state) = g t"
    by (simp add: dpsw_if_get_link_state_def send_token_probe cmds)
  have o7: "fst (dpsw_if_get_tci (token_probe g) f t ifid tci_out) = g t"
    by (simp add: dpsw_if_get_tci_def send_token_probe cmds)
  have o8: "fst (dpsw_if_get_counter (token_probe g) L f t ifid cty counter) = g t"
    by (simp add: dpsw_if_get_counter_def send_token_probe cmds)
  have o9: "fst (dpsw_fdb_dump (token_probe g) f t fdb iova_addr iova_size num_entries) = g t"
    by (simp add: dpsw_fdb_dump_def send_token_probe cmds)
  have o10: "fst (dpsw_acl_add (token_probe g) f t acl_out acl_cfg) = g t"
    by (simp add: dpsw_acl_add_def send_token_probe cmds)
  have o11: "map_option fst (dpsw_if_get_port_mac_addr (token_probe g) f t ifid mac) = Some (g t)"
    by (simp add: dpsw_if_get_port_mac_addr_def send_token_probe fw cmds)
  have o12: "map_option fst (dpsw_if_get_primary_mac_addr (token_probe g) f t ifid mac) = Some (g t)"
    by (simp add: dpsw_if_get_primary_mac_addr_def send_token_probe fw cmds)
  have p: "dpsw_close (token_probe g) f t = g t"
    "dpsw_enable (token_probe g) f t = g t"
    "dpsw_disable (token_probe g) f t = g t"
    "dpsw_reset (token_probe g) f t = g t"
    "dpsw_set_irq_enable (token_probe g) L f t irq en = g t"
    "dpsw_set_irq_mask (token_probe g) f t irq w32 = g t"
    "dpsw_clear_irq_status (token_probe g) f t irq w32 = g t"
    "dpsw_if_set_link_cfg (token_probe g) f t ifid link_cfg = g t"
    "dpsw_if_set_flooding (token_probe g) L f t ifid en = g t"
    "dpsw_if_set_broadcast (token_probe g) L f t ifid en = g t"
    "dpsw_if_set_tci (token_probe g) L f t ifid tci_cfg = g t"
    "dpsw_if_set_stp (token_probe g) L f t ifid stp_cfg = g t"
    "dpsw_if_enable (token_probe g) f t ifid = g t"
    "dpsw_if_disable (token_probe g) f t ifid = g t"
    "dpsw_if_set_max_frame_length (token_probe g) f t ifid flen = g t"
    "dpsw_vlan_add (token_probe g) f t vid vlan_cfg = g t"
    "dpsw_vlan_remove (token_probe g) f t vid = g t"
    "dpsw_fdb_set_learning_mode (token_probe g) L f t fdb mode = g t"
    "dpsw_acl_remove (token_probe g) f t acl = g t"
    "dpsw_acl_add_entry (token_probe g) L f t acl entry_cfg = g t"
    by (simp_all add: dpsw_close_def dpsw_enable_def dpsw_disable_def dpsw_reset_def
          dpsw_set_irq_enable_def dpsw_set_irq_mask_def dpsw_clear_irq_status_def
          dpsw_if_set_link_cfg_def dpsw_if_set_flooding_def dpsw_if_set_broadcast_def
          dpsw_if_set_tci_def dpsw_if_set_stp_def dpsw_if_enable_def dpsw_if_disable_def
          dpsw_if_set_max_frame_length_def dpsw_vlan_add_def dpsw_vlan_remove_def
          dpsw_fdb_set_learning_mode_def dpsw_acl_remove_def dpsw_acl_add_entry_def
          send_token_probe cmds)
  note vl = map_option_send_token_probe [OF vlan_manage_if_token [OF ifs]]
  note al = map_option_send_token_probe [OF acl_if_token [OF ifs]]
  note ml = map_option_send_token_probe [OF fdb_multicast_op_token [OF ifs mac]]
  have q: "dpsw_vlan_add_if (token_probe g) f t vid
      \<lparr>dpsw_vlan_if_cfg.num_ifs = cnt, dpsw_vlan_if_cfg.if_id = ids\<rparr> = Some (g t)"
    "dpsw_vlan_add_if_untagged (token_probe g) f t vid
      \<lparr>dpsw_vlan_if_cfg.num_ifs = cnt, dpsw_vlan_if_cfg.if_id = ids\<rparr> = Some (g t)"
    "dpsw_vlan_remove_if (token_probe g) f t vid
      \<lparr>dpsw_vlan_if_cfg.num_ifs = cnt, dpsw_vlan_if_cfg.if_id = ids\<rparr> = Some (g t)"
    "dpsw_vlan_remove_if_untagged (token_probe g) f t vid
      \<lparr>dpsw_vlan_if_cfg.num_ifs = cnt, dpsw_vlan_if_cfg.if_id = ids\<rparr> = Some (g t)"
    unfolding dpsw_vlan_add_if_def dpsw_vlan_add_if_untagged_def dpsw_vlan_remove_if_def
      dpsw_vlan_remove_if_untagged_def dpsw_vlan_add_if_cmd_def
      dpsw_vlan_add_if_untagged_cmd_def dpsw_vlan_remove_if_cmd_def
      dpsw_vlan_remove_if_untagged_cmd_def
    by (rule vl)+
  have r: "dpsw_acl_add_if (token_probe g) f t acl
      \<lparr>dpsw_acl_if_cfg.num_ifs = cnt, dpsw_acl_if_cfg.if_id = ids\<rparr> = Some (g t)"
    "dpsw_acl_remove_if (token_probe g) f t acl
      \<lparr>dpsw_acl_if_cfg.num_ifs = cnt, dpsw_acl_if_cfg.if_id = ids\<rparr> = Some (g t)"
    unfolding dpsw_acl_add_if_def dpsw_acl_remove_if_def dpsw_acl_add_if_cmd_def
      dpsw_acl_remove_if_cmd_def
    by (rule al)+
  have m: "dpsw_fdb_add_multicast (token_probe g) L f t fdb
      \<lparr>dpsw_fdb_multicast_cfg.type = ty, dpsw_fdb_multicast_cfg.mac_addr = mac,
       dpsw_fdb_multicast_cfg.num_ifs = cnt, dpsw_fdb_multicast_cfg.if_id = ids\<rparr> = Some (g t)"
    "dpsw_fdb_remove_multicast (token_probe g) L f t fdb
      \<lparr>dpsw_fdb_multicast_cfg.type = ty, dpsw_fdb_multicast_cfg.mac_addr = mac,
       dpsw_fdb_multicast_cfg.num_ifs = cnt, dpsw_fdb_multicast_cfg.if_id = ids\<rparr> = Some (g t)"
    unfolding dpsw_fdb_add_multicast_def dpsw_fdb_remove_multicast_def
      dpsw_fdb_add_multicast_cmd_def dpsw_fdb_remove_multicast_cmd_def
    by (rule ml)+
  have u: "dpsw_fdb_add_unicast (token_probe g) L f t fdb
      \<lparr>dpsw_fdb_unicast_cfg.type = ty, dpsw_fdb_unicast_cfg.mac_addr = mac,
       if_egress = eg\<rparr> = Some (g t)"
    "dpsw_fdb_remove_unicast (token_probe g) L f t fdb
      \<lparr>dpsw_fdb_unicast_cfg.type = ty, dpsw_fdb_unicast_cfg.mac_addr = mac,
       if_egress = eg\<rparr> = Some (g t)"
    "dpsw_if_set_primary_mac_addr (token_probe g) f t ifid mac = Some (g t)"
    by (simp_all add: dpsw_fdb_add_unicast_def dpsw_fdb_remove_unicast_def
          dpsw_if_set_primary_mac_addr_def dpsw_fdb_add_unicast_cmd_def
          dpsw_fdb_remove_unicast_cmd_def dpsw_if_set_primary_mac_addr_cmd_def tw
          send_token_probe hdr_token_encode)
  show ?thesis
    by (simp only: o1 o2 o3 o4 o5 o6 o7 o8 o9 o10 o11 o12 p q r m u simp_thms)
qed

theorem session_token_in_header_witness:
  "fst (dpsw_open (token_probe ucast) 0 5 9) = 0 \<and>
   fst (dpsw_get_api_version (token_probe ucast) 0 1 2) = 0 \<and>
   dpsw_close (token_probe ucast) 0 7 = 7 \<and>
   fst (dpsw_fdb_dump (token_probe ucast) 0 7 1 0 0 0) = 7 \<and>
   dpsw_vlan_add_if (token_probe ucast) 0 7 1
     \<lparr>dpsw_vlan_if_cfg.num_ifs = 2, dpsw_vlan_if_cfg.if_id = [1, 2]\<rparr> = Some 7 \<and>
   dpsw_if_set_primary_mac_addr (token_probe ucast) 0 7 3 [1, 2, 3, 4, 5, 6] = Some 7 \<and>
   map_option fst (dpsw_if_get_port_mac_addr (token_probe ucast) 0 7 3 [1, 2, 3, 4, 5, 6])
     = Some 7"
proof -
  have h1: "length [1, 2, 3, 4, 5, 6 :: u8] = 6" by simp
  have h2: "min (unat (2 :: u16)) DPSW_MAX_IF \<le> length [1, 2 :: u16]"
    by (simp add: DPSW_MAX_IF_def)
  from session_token_in_header
         [where g = ucast and f = 0 and t = 7 and dpsw_id = 5 and tok_out = 9
            and major_ver = 1 and minor_ver = 2 and vid = 1 and ifid = 3 and fdb = 1
            and iova_addr = 0 and iova_size = 0 and num_entries = 0, OF h1 h2]
  show ?thesis by simp
qed

text \<open>
  C1. The command identifier is the only discriminator of the payload, so every operation
  must encode its own. \<^verbatim>\<open>dpsw_if_get_primary_mac_addr\<close> does not: its header carries
  \<^verbatim>\<open>DPSW_CMDID_IF_SET_PRIMARY_MAC_ADDR\<close>, the identifier that
  \<^verbatim>\<open>dpsw_if_set_primary_mac_addr\<close> encodes, whereas the sibling
  \<^verbatim>\<open>dpsw_if_get_port_mac_addr\<close> encodes an identifier of its own.
\<close>

theorem get_primary_mac_addr_cmd_id:
  "hdr_cmd_id (header (dpsw_if_get_primary_mac_addr_cmd cmd_flags token ifid)) =
     DPSW_CMDID_IF_SET_PRIMARY_MAC_ADDR \<and>
   map_option (\<lambda>c. hdr_cmd_id (header c))
     (dpsw_if_set_primary_mac_addr_cmd cmd_flags token ifid [a, b, c, d, e, g]) =
     Some DPSW_CMDID_IF_SET_PRIMARY_MAC_ADDR \<and>
   hdr_cmd_id (header (dpsw_if_get_port_mac_addr_cmd cmd_flags token ifid)) =
     DPSW_CMDID_IF_GET_PORT_MAC_ADDR"
  by (simp add: dpsw_if_get_primary_mac_addr_cmd_def dpsw_if_set_primary_mac_addr_cmd_def
        dpsw_if_get_port_mac_addr_cmd_def hdr_cmd_id_encode
        mac_to_wire_rev [OF length_zero_mac_addr])

section \<open>The request of \<^verbatim>\<open>dpsw_get_irq_status\<close>\<close>

lemma upt4: "[0..<4] = [0, 1, 2, 3 :: nat]" by code_simp

lemma cpu_to_le32_map: "cpu_to_le32 x = map (\<lambda>k. ucast (drop_bit (8 * k) x)) [0..<4]"
  by (simp add: cpu_to_le32_def upt4)

lemma le32_roundtrip: "le32_to_cpu (cpu_to_le32 x) = x"
proof (rule bit_word_eqI)
  fix n assume "n < LENGTH(32)"
  then have n: "n < 32" by simp
  then have d: "n div 8 < 4" by simp
  have len: "length (cpu_to_le32 x) = 4" by (simp add: cpu_to_le32_def)
  have "bit (le32_to_cpu (cpu_to_le32 x)) n \<longleftrightarrow> bit (cpu_to_le32 x ! (n div 8)) (n mod 8)"
    using n d by (simp add: le32_to_cpu_def len bit_le_to_cpu)
  also have "\<dots> \<longleftrightarrow> bit x (8 * (n div 8) + n mod 8)"
    using d by (simp add: cpu_to_le32_map bit_simps del: upt_Suc)
  finally show "bit (le32_to_cpu (cpu_to_le32 x)) n \<longleftrightarrow> bit x n" by simp
qed

lemma cpu_to_le32_inj: "cpu_to_le32 x = cpu_to_le32 y \<Longrightarrow> x = y"
  by (metis le32_roundtrip)

text \<open>
  C9. The value that the caller's \<^verbatim>\<open>*status\<close> holds before the call is stored
  little-endian in the member \<^verbatim>\<open>status\<close> of the request, so requests built from
  different values differ. The operation hands exactly that request to the transport:
  the status it returns is the transport's answer to that buffer, whatever the transport.
  A transport that answers 0 only to a request carrying the bytes of \<open>s\<close> therefore tells
  the call with \<^verbatim>\<open>*status = s\<close> from every call with another value and the same other
  arguments.
\<close>

theorem get_irq_status_sends_incoming_status:
  "params (dpsw_get_irq_status_cmd cmd_flags token irq_index status) ''status'' =
     [ucast status, ucast (drop_bit 8 status), ucast (drop_bit 16 status),
      ucast (drop_bit 24 status)] \<and>
   (status \<noteq> status' \<longrightarrow>
      dpsw_get_irq_status_cmd cmd_flags token irq_index status \<noteq>
      dpsw_get_irq_status_cmd cmd_flags token irq_index status') \<and>
   fst (dpsw_get_irq_status mc_io cmd_flags token irq_index status) =
     fst (mc_io (dpsw_get_irq_status_cmd cmd_flags token irq_index status)) \<and>
   (mc_io (dpsw_get_irq_status_cmd cmd_flags token irq_index status) =
      mc_io' (dpsw_get_irq_status_cmd cmd_flags token irq_index status) \<longrightarrow>
    dpsw_get_irq_status mc_io cmd_flags token irq_index status =
    dpsw_get_irq_status mc_io' cmd_flags token irq_index status) \<and>
   fst (dpsw_get_irq_status
          (\<lambda>c. (if params c ''status'' = cpu_to_le32 s then 0 else 1, c))
          cmd_flags token irq_index status) = (if status = s then 0 else 1) \<and>
   (status \<noteq> status' \<longrightarrow>
      fst (dpsw_get_irq_status
             (\<lambda>c. (if params c ''status'' = cpu_to_le32 status then 0 else 1, c))
             cmd_flags token irq_index status) \<noteq>
      fst (dpsw_get_irq_status
             (\<lambda>c. (if params c ''status'' = cpu_to_le32 status then 0 else 1, c))
             cmd_flags token irq_index status'))"
proof -
  have member: "params (dpsw_get_irq_status_cmd cmd_flags token irq_index x) ''status'' =
                  cpu_to_le32 x" for x
    by (simp add: dpsw_get_irq_status_cmd_def)
  have inj: "cpu_to_le32 x = cpu_to_le32 y \<longleftrightarrow> x = y" for x y
    by (auto dest: cpu_to_le32_inj)
  have c1: "params (dpsw_get_irq_status_cmd cmd_flags token irq_index status) ''status'' =
     [ucast status, ucast (drop_bit 8 status), ucast (drop_bit 16 status),
      ucast (drop_bit 24 status)]"
    by (simp add: member cpu_to_le32_def)
  have c2: "status \<noteq> status' \<longrightarrow>
      dpsw_get_irq_status_cmd cmd_flags token irq_index status \<noteq>
      dpsw_get_irq_status_cmd cmd_flags token irq_index status'"
  proof (intro impI notI)
    assume ne: "status \<noteq> status'"
    assume "dpsw_get_irq_status_cmd cmd_flags token irq_index status =
            dpsw_get_irq_status_cmd cmd_flags token irq_index status'"
    then have "params (dpsw_get_irq_status_cmd cmd_flags token irq_index status) ''status'' =
               params (dpsw_get_irq_status_cmd cmd_flags token irq_index status') ''status''"
      by simp
    with ne show False by (simp add: member inj)
  qed
  have c3: "fst (dpsw_get_irq_status io cmd_flags token irq_index x) =
     fst (io (dpsw_get_irq_status_cmd cmd_flags token irq_index x))" for io x
    by (simp add: dpsw_get_irq_status_def mc_send_command_def split: prod.split)
  have c4: "mc_io (dpsw_get_irq_status_cmd cmd_flags token irq_index status) =
      mc_io' (dpsw_get_irq_status_cmd cmd_flags token irq_index status) \<longrightarrow>
    dpsw_get_irq_status mc_io cmd_flags token irq_index status =
    dpsw_get_irq_status mc_io' cmd_flags token irq_index status"
    by (simp add: dpsw_get_irq_status_def mc_send_command_def)
  have c5: "fst (dpsw_get_irq_status
          (\<lambda>c. (if params c ''status'' = cpu_to_le32 z then 0 else 1, c))
          cmd_flags token irq_index x) = (if x = z then 0 else 1)" for x z
    by (simp add: c3 member inj)
  have c6: "status \<noteq> status' \<longrightarrow>
      fst (dpsw_get_irq_status
             (\<lambda>c. (if params c ''status'' = cpu_to_le32 status then 0 else 1, c))
             cmd_flags token irq_index status) \<noteq>
      fst (dpsw_get_irq_status
             (\<lambda>c. (if params c ''status'' = cpu_to_le32 status then 0 else 1, c))
             cmd_flags token irq_index status')"
    by (simp add: c5)
  from c1 c2 c3 [of mc_io status] c4 c5 [of s status] c6 show ?thesis by blast
qed

theorem get_irq_status_sends_incoming_status_witness:
  "fst (dpsw_get_irq_status
          (\<lambda>c. (if params c ''status'' = cpu_to_le32 0x01020304 then 0 else 1, c))
          0 1 0 0x01020304) = 0 \<and>
   fst (dpsw_get_irq_status
          (\<lambda>c. (if params c ''status'' = cpu_to_le32 0x01020304 then 0 else 1, c))
          0 1 0 0) = 1 \<and>
   dpsw_get_irq_status_cmd 0 1 0 0x01020304 \<noteq> dpsw_get_irq_status_cmd 0 1 0 0 \<and>
   params (dpsw_get_irq_status_cmd 0 1 0 0x01020304) ''status'' = [4, 3, 2, 1]"
proof -
  have h: "(0x01020304 :: u32) \<noteq> 0" by simp
  from get_irq_status_sends_incoming_status
         [where cmd_flags = 0 and token = 1 and irq_index = 0 and status = "0x01020304"
            and status' = 0 and s = "0x01020304"
            and mc_io = "\<lambda>c. (0, c)" and mc_io' = "\<lambda>c. (0, c)"]
       get_irq_status_sends_incoming_status
         [where cmd_flags = 0 and token = 1 and irq_index = 0 and status = 0
            and status' = "0x01020304" and s = "0x01020304"
            and mc_io = "\<lambda>c. (0, c)" and mc_io' = "\<lambda>c. (0, c)"]
       h
  show ?thesis by simp
qed

section \<open>Status codes and output parameters\<close>

text \<open>
  C4. For each of the twelve operations with output parameters: when the transport
  returns a nonzero status the operation returns that status and the outputs as they
  were passed in; when it returns zero the operation returns zero and every output
  field is decoded from the response, none is left from the value passed in. The two
  address operations are taken on a 6-byte output array.
\<close>

theorem outputs_only_on_success:
  assumes dst: "length mac = 6"
  shows
   "(mc_send_command mc_io (dpsw_open_cmd f dpsw_id) = (err, rsp) \<longrightarrow>
       dpsw_open mc_io f dpsw_id tok_out =
         (if err \<noteq> 0 then (err, tok_out) else (0, hdr_token (header rsp)))) \<and>
    (mc_send_command mc_io (dpsw_get_irq_status_cmd f t irq status) = (err, rsp) \<longrightarrow>
       dpsw_get_irq_status mc_io f t irq status =
         (if err \<noteq> 0 then (err, status) else (0, le32_to_cpu (params rsp ''status'')))) \<and>
    (mc_send_command mc_io (dpsw_get_attributes_cmd f t) = (err, rsp) \<longrightarrow>
       dpsw_get_attributes mc_io L f t attr =
         (if err \<noteq> 0 then (err, attr)
          else (0, \<lparr>id_attr = le32_to_cpu (params rsp ''dpsw_id''),
                    dpsw_attr.options = le64_to_cpu (params rsp ''options''),
                    max_vlans = le16_to_cpu (params rsp ''max_vlans''),
                    max_meters_per_if = u8_member (params rsp ''max_meters_per_if''),
                    max_fdbs = u8_member (params rsp ''max_fdbs''),
                    max_fdb_entries = le16_to_cpu (params rsp ''max_fdb_entries''),
                    fdb_aging_time = le16_to_cpu (params rsp ''fdb_aging_time''),
                    max_fdb_mc_groups = le16_to_cpu (params rsp ''max_fdb_mc_groups''),
                    dpsw_attr.num_ifs = le16_to_cpu (params rsp ''num_ifs''),
                    mem_size = le16_to_cpu (params rsp ''mem_size''),
                    num_vlans = le16_to_cpu (params rsp ''num_vlans''),
                    num_fdbs = u8_member (params rsp ''num_fdbs''),
                    component_type =
                      ucast (dpsw_get_field L (u8_member (params rsp ''component_type''))
                               COMPONENT_TYPE)\<rparr>))) \<and>
    (mc_send_command mc_io (dpsw_if_get_attributes_cmd f t ifid) = (err, rsp) \<longrightarrow>
       dpsw_if_get_attributes mc_io L f t ifid if_attr =
         (if err \<noteq> 0 then (err, if_attr)
          else (0, \<lparr>num_tcs = u8_member (params rsp ''num_tcs''),
                    dpsw_if_attr.rate = le32_to_cpu (params rsp ''rate''),
                    dpsw_if_attr.options = le32_to_cpu (params rsp ''options''),
                    enabled = ucast (dpsw_get_field L (u8_member (params rsp ''conf'')) ENABLE),
                    accept_all_vlan =
                      ucast (dpsw_get_field L (u8_member (params rsp ''conf'')) ACCEPT_ALL_VLAN),
                    admit_untagged =
                      ucast (dpsw_get_field L (u8_member (params rsp ''conf'')) ADMIT_UNTAGGED),
                    qdid = le16_to_cpu (params rsp ''qdid'')\<rparr>))) \<and>
    (mc_send_command mc_io (dpsw_if_get_link_state_cmd f t ifid) = (err, rsp) \<longrightarrow>
       dpsw_if_get_link_state mc_io L f t ifid link_state =
         (if err \<noteq> 0 then (err, link_state)
          else (0, \<lparr>dpsw_link_state.rate = le32_to_cpu (params rsp ''rate''),
                    dpsw_link_state.options = le64_to_cpu (params rsp ''options''),
                    up = dpsw_get_field L (u8_member (params rsp ''up'')) UP\<rparr>))) \<and>
    (mc_send_command mc_io (dpsw_if_get_tci_cmd f t ifid) = (err, rsp) \<longrightarrow>
       dpsw_if_get_tci mc_io f t ifid tci =
         (if err \<noteq> 0 then (err, tci)
          else (0, \<lparr>pcp = u8_member (params rsp ''pcp''),
                    dei = u8_member (params rsp ''dei''),
                    dpsw_tci_cfg.vlan_id = le16_to_cpu (params rsp ''vlan_id'')\<rparr>))) \<and>
    (mc_send_command mc_io (dpsw_if_get_counter_cmd L f t ifid cty) = (err, rsp) \<longrightarrow>
       dpsw_if_get_counter mc_io L f t ifid cty counter =
         (if err \<noteq> 0 then (err, counter) else (0, le64_to_cpu (params rsp ''counter'')))) \<and>
    (mc_send_command mc_io (dpsw_fdb_dump_cmd f t fdb iova_addr iova_size) = (err, rsp) \<longrightarrow>
       dpsw_fdb_dump mc_io f t fdb iova_addr iova_size num_entries =
         (if err \<noteq> 0 then (err, num_entries)
          else (0, le16_to_cpu (params rsp ''num_entries'')))) \<and>
    (mc_send_command mc_io (dpsw_get_api_version_cmd f) = (err, rsp) \<longrightarrow>
       dpsw_get_api_version mc_io f major_ver minor_ver =
         (if err \<noteq> 0 then (err, major_ver, minor_ver)
          else (0, le16_to_cpu (params rsp ''version_major''),
                   le16_to_cpu (params rsp ''version_minor'')))) \<and>
    (mc_send_command mc_io (dpsw_if_get_port_mac_addr_cmd f t ifid) = (err, rsp) \<longrightarrow>
       dpsw_if_get_port_mac_addr mc_io f t ifid mac =
         Some (if err \<noteq> 0 then (err, mac)
               else (0, rev (array_member 6 (params rsp ''mac_addr''))))) \<and>
    (mc_send_command mc_io (dpsw_if_get_primary_mac_addr_cmd f t ifid) = (err, rsp) \<longrightarrow>
       dpsw_if_get_primary_mac_addr mc_io f t ifid mac =
         Some (if err \<noteq> 0 then (err, mac)
               else (0, rev (array_member 6 (params rsp ''mac_addr''))))) \<and>
    (mc_send_command mc_io (dpsw_acl_add_cmd f t acl_cfg) = (err, rsp) \<longrightarrow>
       dpsw_acl_add mc_io f t acl_id acl_cfg =
         (if err \<noteq> 0 then (err, acl_id) else (0, le16_to_cpu (params rsp ''acl_id''))))"
proof -
  have fw: "mac_from_wire mac (array_member 6 bs) = Some (rev (array_member 6 bs))" for bs
    by (rule mac_from_wire_rev [OF dst length_array_member])
  have c1: "mc_send_command mc_io (dpsw_open_cmd f dpsw_id) = (err, rsp) \<longrightarrow>
       dpsw_open mc_io f dpsw_id tok_out =
         (if err \<noteq> 0 then (err, tok_out) else (0, hdr_token (header rsp)))"
    by (simp add: dpsw_open_def mc_cmd_hdr_read_token_def)
  have c2: "mc_send_command mc_io (dpsw_get_irq_status_cmd f t irq status) = (err, rsp) \<longrightarrow>
       dpsw_get_irq_status mc_io f t irq status =
         (if err \<noteq> 0 then (err, status) else (0, le32_to_cpu (params rsp ''status'')))"
    by (simp add: dpsw_get_irq_status_def)
  have c3: "mc_send_command mc_io (dpsw_get_attributes_cmd f t) = (err, rsp) \<longrightarrow>
       dpsw_get_attributes mc_io L f t attr =
         (if err \<noteq> 0 then (err, attr)
          else (0, \<lparr>id_attr = le32_to_cpu (params rsp ''dpsw_id''),
                    dpsw_attr.options = le64_to_cpu (params rsp ''options''),
                    max_vlans = le16_to_cpu (params rsp ''max_vlans''),
                    max_meters_per_if = u8_member (params rsp ''max_meters_per_if''),
                    max_fdbs = u8_member (params rsp ''max_fdbs''),
                    max_fdb_entries = le16_to_cpu (params rsp ''max_fdb_entries''),
                    fdb_aging_time = le16_to_cpu (params rsp ''fdb_aging_time''),
                    max_fdb_mc_groups = le16_to_cpu (params rsp ''max_fdb_mc_groups''),
                    dpsw_attr.num_ifs = le16_to_cpu (params rsp ''num_ifs''),
                    mem_size = le16_to_cpu (params rsp ''mem_size''),
                    num_vlans = le16_to_cpu (params rsp ''num_vlans''),
                    num_fdbs = u8_member (params rsp ''num_fdbs''),
                    component_type =
                      ucast (dpsw_get_field L (u8_member (params rsp ''component_type''))
                               COMPONENT_TYPE)\<rparr>))"
    by (cases attr) (simp add: dpsw_get_attributes_def)
  have c4: "mc_send_command mc_io (dpsw_if_get_attributes_cmd f t ifid) = (err, rsp) \<longrightarrow>
       dpsw_if_get_attributes mc_io L f t ifid if_attr =
         (if err \<noteq> 0 then (err, if_attr)
          else (0, \<lparr>num_tcs = u8_member (params rsp ''num_tcs''),
                    dpsw_if_attr.rate = le32_to_cpu (params rsp ''rate''),
                    dpsw_if_attr.options = le32_to_cpu (params rsp ''options''),
                    enabled = ucast (dpsw_get_field L (u8_member (params rsp ''conf'')) ENABLE),
                    accept_all_vlan =
                      ucast (dpsw_get_field L (u8_member (params rsp ''conf'')) ACCEPT_ALL_VLAN),
                    admit_untagged =
                      ucast (dpsw_get_field L (u8_member (params rsp ''conf'')) ADMIT_UNTAGGED),
                    qdid = le16_to_cpu (params rsp ''qdid'')\<rparr>))"
    by (cases if_attr) (simp add: dpsw_if_get_attributes_def)
  have c5: "mc_send_command mc_io (dpsw_if_get_link_state_cmd f t ifid) = (err, rsp) \<longrightarrow>
       dpsw_if_get_link_state mc_io L f t ifid link_state =
         (if err \<noteq> 0 then (err, link_state)
          else (0, \<lparr>dpsw_link_state.rate = le32_to_cpu (params rsp ''rate''),
                    dpsw_link_state.options = le64_to_cpu (params rsp ''options''),
                    up = dpsw_get_field L (u8_member (params rsp ''up'')) UP\<rparr>))"
    by (cases link_state) (simp add: dpsw_if_get_link_state_def)
  have c6: "mc_send_command mc_io (dpsw_if_get_tci_cmd f t ifid) = (err, rsp) \<longrightarrow>
       dpsw_if_get_tci mc_io f t ifid tci =
         (if err \<noteq> 0 then (err, tci)
          else (0, \<lparr>pcp = u8_member (params rsp ''pcp''),
                    dei = u8_member (params rsp ''dei''),
                    dpsw_tci_cfg.vlan_id = le16_to_cpu (params rsp ''vlan_id'')\<rparr>))"
    by (cases tci) (simp add: dpsw_if_get_tci_def)
  have c7: "mc_send_command mc_io (dpsw_if_get_counter_cmd L f t ifid cty) = (err, rsp) \<longrightarrow>
       dpsw_if_get_counter mc_io L f t ifid cty counter =
         (if err \<noteq> 0 then (err, counter) else (0, le64_to_cpu (params rsp ''counter'')))"
    by (simp add: dpsw_if_get_counter_def)
  have c8: "mc_send_command mc_io (dpsw_fdb_dump_cmd f t fdb iova_addr iova_size) = (err, rsp) \<longrightarrow>
       dpsw_fdb_dump mc_io f t fdb iova_addr iova_size num_entries =
         (if err \<noteq> 0 then (err, num_entries)
          else (0, le16_to_cpu (params rsp ''num_entries'')))"
    by (simp add: dpsw_fdb_dump_def)
  have c9: "mc_send_command mc_io (dpsw_get_api_version_cmd f) = (err, rsp) \<longrightarrow>
       dpsw_get_api_version mc_io f major_ver minor_ver =
         (if err \<noteq> 0 then (err, major_ver, minor_ver)
          else (0, le16_to_cpu (params rsp ''version_major''),
                   le16_to_cpu (params rsp ''version_minor'')))"
    by (simp add: dpsw_get_api_version_def)
  have c10: "mc_send_command mc_io (dpsw_if_get_port_mac_addr_cmd f t ifid) = (err, rsp) \<longrightarrow>
       dpsw_if_get_port_mac_addr mc_io f t ifid mac =
         Some (if err \<noteq> 0 then (err, mac)
               else (0, rev (array_member 6 (params rsp ''mac_addr''))))"
    by (simp add: dpsw_if_get_port_mac_addr_def fw)
  have c11: "mc_send_command mc_io (dpsw_if_get_primary_mac_addr_cmd f t ifid) = (err, rsp) \<longrightarrow>
       dpsw_if_get_primary_mac_addr mc_io f t ifid mac =
         Some (if err \<noteq> 0 then (err, mac)
               else (0, rev (array_member 6 (params rsp ''mac_addr''))))"
    by (simp add: dpsw_if_get_primary_mac_addr_def fw)
  have c12: "mc_send_command mc_io (dpsw_acl_add_cmd f t acl_cfg) = (err, rsp) \<longrightarrow>
       dpsw_acl_add mc_io f t acl_id acl_cfg =
         (if err \<noteq> 0 then (err, acl_id) else (0, le16_to_cpu (params rsp ''acl_id'')))"
    by (simp add: dpsw_acl_add_def)
  from c1 c2 c3 c4 c5 c6 c7 c8 c9 c10 c11 c12 show ?thesis by blast
qed

theorem outputs_only_on_success_witness:
  "dpsw_open (\<lambda>c. (5, c)) 0 1 77 = (5, 77) \<and>
   dpsw_fdb_dump (\<lambda>c. (0, c\<lparr>params := (params c)(''num_entries'' := [3, 0])\<rparr>)) 0 1 2 0 0 77
     = (0, 3) \<and>
   dpsw_if_get_port_mac_addr
     (\<lambda>c. (0, c\<lparr>params := (params c)(''mac_addr'' := [6, 5, 4, 3, 2, 1])\<rparr>)) 0 1 2
     [0, 0, 0, 0, 0, 0] = Some (0, [1, 2, 3, 4, 5, 6])"
proof -
  have h: "length [0, 0, 0, 0, 0, 0 :: u8] = 6" by simp
  have a: "dpsw_open (\<lambda>c. (5, c)) 0 1 77 = (5, 77)"
    using outputs_only_on_success
            [OF h, where mc_io = "\<lambda>c. (5, c)" and f = 0 and dpsw_id = 1 and tok_out = 77
               and err = 5 and rsp = "dpsw_open_cmd 0 1"]
    by (simp add: mc_send_command_def)
  let ?io = "\<lambda>c. (0 :: c_int, c\<lparr>params := (params c)(''num_entries'' := [3, 0])\<rparr>)"
  have b: "dpsw_fdb_dump ?io 0 1 2 0 0 77 = (0, 3)"
    using outputs_only_on_success
            [OF h, where mc_io = ?io and f = 0 and t = 1 and fdb = 2 and iova_addr = 0
               and iova_size = 0 and num_entries = 77 and err = 0
               and rsp = "snd (?io (dpsw_fdb_dump_cmd 0 1 2 0 0))"]
    by (simp add: mc_send_command_def le16_to_cpu_def)
  let ?io' = "\<lambda>c. (0 :: c_int, c\<lparr>params := (params c)(''mac_addr'' := [6, 5, 4, 3, 2, 1])\<rparr>)"
  have c: "dpsw_if_get_port_mac_addr ?io' 0 1 2 [0, 0, 0, 0, 0, 0] = Some (0, [1, 2, 3, 4, 5, 6])"
    using outputs_only_on_success
            [OF h, where mc_io = ?io' and f = 0 and t = 1 and ifid = 2 and err = 0
               and rsp = "snd (?io' (dpsw_if_get_port_mac_addr_cmd 0 1 2))"]
    by (simp add: mc_send_command_def array_member_def)
  from a b c show ?thesis by blast
qed

section \<open>Packed bit-fields\<close>

lemma bit_DPSW_MASK:
  "bit (DPSW_MASK L fld :: 'a::len word) n \<longleftrightarrow>
     n < LENGTH('a) \<and> SHIFT L fld \<le> n \<and> n < SHIFT L fld + SIZE L fld"
  by (auto simp add: DPSW_MASK_def bit_push_bit_iff bit_mask_iff)

lemma bit_dpsw_set_field_outside:
  "\<not> (SHIFT L fld \<le> n \<and> n < SHIFT L fld + SIZE L fld) \<Longrightarrow>
   bit (dpsw_set_field L var fld val) n = bit var n"
  unfolding dpsw_set_field_def bit_or_iff bit_and_iff bit_DPSW_MASK by blast

lemma set_field_fits:
  assumes "take_bit (SIZE L fld) (ucast val :: 'a::len word) = ucast val"
  shows "dpsw_set_field L (var :: 'a word) fld (val :: 'b::len word) =
           var OR push_bit (SHIFT L fld) (ucast val)"
proof -
  have "push_bit (SHIFT L fld) (ucast val :: 'a word) AND DPSW_MASK L fld =
          push_bit (SHIFT L fld) (take_bit (SIZE L fld) (ucast val :: 'a word))"
    unfolding DPSW_MASK_def take_bit_eq_mask by (rule push_bit_and [symmetric])
  then show ?thesis
    unfolding dpsw_set_field_def assms by simp
qed

lemma set_tci_conf_value:
  assumes s: "SIZE L VLAN_ID = 12" "SIZE L DEI = 1" "SIZE L PCP = 3"
  shows "dpsw_if_set_tci_conf L \<lparr>pcp = 7, dei = 1, dpsw_tci_cfg.vlan_id = 0xABC\<rparr> =
          push_bit (SHIFT L PCP) 7 OR push_bit (SHIFT L DEI) 1 OR push_bit (SHIFT L VLAN_ID) 0xABC"
proof -
  have v: "take_bit (SIZE L VLAN_ID) (ucast (0xABC :: u16) :: u16) = ucast (0xABC :: u16)"
    unfolding s by simp
  have d: "take_bit (SIZE L DEI) (ucast (1 :: u8) :: u16) = ucast (1 :: u8)"
    unfolding s by simp
  have p: "take_bit (SIZE L PCP) (ucast (7 :: u8) :: u16) = ucast (7 :: u8)"
    unfolding s by simp
  have u1: "(ucast (0xABC :: u16) :: u16) = 0xABC" by simp
  have u2: "(ucast (1 :: u8) :: u16) = 1" by simp
  have u3: "(ucast (7 :: u8) :: u16) = 7" by simp
  have "dpsw_if_set_tci_conf L \<lparr>pcp = 7, dei = 1, dpsw_tci_cfg.vlan_id = 0xABC\<rparr> =
        ((0 OR push_bit (SHIFT L VLAN_ID) (ucast (0xABC :: u16))) OR
           push_bit (SHIFT L DEI) (ucast (1 :: u8))) OR push_bit (SHIFT L PCP) (ucast (7 :: u8))"
    unfolding dpsw_if_set_tci_conf_def dpsw_tci_cfg.select_convs
      set_field_fits [OF v] set_field_fits [OF d] set_field_fits [OF p] ..
  also have "\<dots> = push_bit (SHIFT L PCP) 7 OR push_bit (SHIFT L DEI) 1 OR
                     push_bit (SHIFT L VLAN_ID) 0xABC"
    unfolding u1 u2 u3 or.left_neutral
    by (simp only: or.commute or.left_commute)
  finally show ?thesis .
qed

lemma set_tci_conf_member:
  "params (dpsw_if_set_tci_cmd L cmd_flags token ifid cfg) ''conf'' =
     cpu_to_le16 (dpsw_if_set_tci_conf L cfg)"
  by (simp add: dpsw_if_set_tci_cmd_def)

text \<open>
  C6. With the declared widths (VLAN id 12 bits, DEI 1 bit, PCP 3 bits) and any bit
  offsets, \<^verbatim>\<open>dpsw_if_set_tci\<close> called with PCP 7, DEI 1 and VLAN id 0xABC stores in
  its member \<^verbatim>\<open>conf\<close> the little-endian 16-bit value that is the OR of the three
  values shifted to their offsets. Writing any field into any slot leaves every bit
  outside the field's offset and width as it was.
\<close>

theorem tci_bit_field_packing:
  "(SIZE L VLAN_ID = 12 \<longrightarrow> SIZE L DEI = 1 \<longrightarrow> SIZE L PCP = 3 \<longrightarrow>
      params (dpsw_if_set_tci_cmd L cmd_flags token ifid
                \<lparr>pcp = 7, dei = 1, dpsw_tci_cfg.vlan_id = 0xABC\<rparr>) ''conf'' =
        cpu_to_le16 (push_bit (SHIFT L PCP) 7 OR push_bit (SHIFT L DEI) 1 OR
                     push_bit (SHIFT L VLAN_ID) 0xABC)) \<and>
   (\<not> (SHIFT L fld \<le> n \<and> n < SHIFT L fld + SIZE L fld) \<longrightarrow>
      bit (dpsw_set_field L var fld val) n = bit var n)"
proof (intro conjI impI)
  assume s: "SIZE L VLAN_ID = 12" "SIZE L DEI = 1" "SIZE L PCP = 3"
  show "params (dpsw_if_set_tci_cmd L cmd_flags token ifid
                \<lparr>pcp = 7, dei = 1, dpsw_tci_cfg.vlan_id = 0xABC\<rparr>) ''conf'' =
        cpu_to_le16 (push_bit (SHIFT L PCP) 7 OR push_bit (SHIFT L DEI) 1 OR
                     push_bit (SHIFT L VLAN_ID) 0xABC)"
    unfolding set_tci_conf_member set_tci_conf_value [OF s] ..
next
  assume "\<not> (SHIFT L fld \<le> n \<and> n < SHIFT L fld + SIZE L fld)"
  then show "bit (dpsw_set_field L var fld val) n = bit var n"
    by (rule bit_dpsw_set_field_outside)
qed

theorem tci_bit_field_packing_witness:
  "params (dpsw_if_set_tci_cmd
             \<lparr>SHIFT = (\<lambda>_. 0)(DEI := 12, PCP := 13), SIZE = (\<lambda>_. 4)(VLAN_ID := 12, DEI := 1, PCP := 3)\<rparr>
             0 1 2 \<lparr>pcp = 7, dei = 1, dpsw_tci_cfg.vlan_id = 0xABC\<rparr>) ''conf'' = [0xBC, 0xFA] \<and>
   bit (dpsw_set_field
          \<lparr>SHIFT = (\<lambda>_. 0)(DEI := 12, PCP := 13), SIZE = (\<lambda>_. 4)(VLAN_ID := 12, DEI := 1, PCP := 3)\<rparr>
          (0x0ABC :: u16) PCP (0xFF :: u8)) 11 = bit (0x0ABC :: u16) 11"
proof -
  let ?L = "\<lparr>SHIFT = (\<lambda>_. 0)(DEI := 12, PCP := 13),
             SIZE = (\<lambda>_. 4)(VLAN_ID := 12, DEI := 1, PCP := 3)\<rparr>"
  have h: "SIZE ?L VLAN_ID = 12" "SIZE ?L DEI = 1" "SIZE ?L PCP = 3" by simp_all
  have o: "\<not> (SHIFT ?L PCP \<le> 11 \<and> 11 < SHIFT ?L PCP + SIZE ?L PCP)" by simp
  have e: "cpu_to_le16 (push_bit (SHIFT ?L PCP) 7 OR push_bit (SHIFT ?L DEI) 1 OR
                     push_bit (SHIFT ?L VLAN_ID) 0xABC) = [0xBC, 0xFA]"
    by (simp add: cpu_to_le16_def)
  from tci_bit_field_packing
         [where L = ?L and cmd_flags = 0 and token = 1 and ifid = 2 and fld = PCP and n = 11
            and var = "0x0ABC :: u16" and val = "0xFF :: u8"]
       h o
  show ?thesis unfolding e by blast
qed

section \<open>Flattening an ACL key\<close>

lemma acl_layout_inside:
  "acl_layout_ok off n \<Longrightarrow> (m, w) \<in> set dpsw_prep_acl_entry_members \<Longrightarrow> off m + w \<le> n"
  by (auto simp add: acl_layout_ok_def list_all_iff)

lemma acl_layout_disjoint:
  "acl_layout_ok off n \<Longrightarrow> (m, w) \<in> set dpsw_prep_acl_entry_members \<Longrightarrow>
   (m', w') \<in> set dpsw_prep_acl_entry_members \<Longrightarrow> m \<noteq> m' \<Longrightarrow>
   off m + w \<le> off m' \<or> off m' + w' \<le> off m"
  by (fastforce simp add: acl_layout_ok_def list_all_iff)

lemma store_bytes_same:
  assumes "at + length bs \<le> length buf" and "\<forall>k<length bs. buf ! (at + k) = bs ! k"
  shows "store_bytes at bs buf = Some buf"
proof -
  have t: "take (length bs) (drop at buf) = bs"
    using assms by (intro nth_equalityI) auto
  have "take at buf @ bs @ drop (at + length bs) buf =
          take at buf @ (take (length bs) (drop at buf) @ drop (length bs) (drop at buf))"
    unfolding t by (simp add: add.commute)
  also have "\<dots> = buf"
    unfolding append_take_drop_id ..
  finally show ?thesis using assms(1) by (simp add: store_bytes_def)
qed

lemma copy_byte_Some:
  "si < length src \<Longrightarrow> di < length dst \<Longrightarrow>
   copy_byte dst di src si = Some (dst[di := src ! si])"
  by (simp add: copy_byte_def array_get_def array_set_def)

lemma length_dest_mac_image: "length (dest_mac_image oa ob dm mm i n) = n"
  by (simp add: dest_mac_image_def)

lemma nth_dest_mac_image:
  "j < n \<Longrightarrow> dest_mac_image oa ob dm mm i n ! j =
     (if oa \<le> j \<and> j < oa + i then dm ! (5 - (j - oa))
      else if ob \<le> j \<and> j < ob + i then mm ! (5 - (j - ob))
      else 0)"
  by (simp add: dest_mac_image_def)

lemma dest_mac_image_0: "dest_mac_image oa ob dm mm 0 n = replicate n 0"
  by (auto simp add: dest_mac_image_def list_eq_iff_nth_eq)

lemma dest_mac_key_simps:
  "l2_dest_mac (match (dest_mac_key dm mm)) = dm"
  "l2_dest_mac (mask_key (dest_mac_key dm mm)) = mm"
  "l2_source_mac (match (dest_mac_key dm mm)) = [0, 0, 0, 0, 0, 0]"
  "l2_source_mac (mask_key (dest_mac_key dm mm)) = [0, 0, 0, 0, 0, 0]"
  by (simp_all add: dest_mac_key_def zero_acl_fields_def)

lemma nth_zero6: "i < 6 \<Longrightarrow> [0, 0, 0, 0, 0, 0 :: u8] ! i = 0"
  by (simp add: nth_Cons')

lemma acl_mac_step_image:
  assumes i: "i < 6" and dm: "length dm = 6" and mm: "length mm = 6"
    and ina: "off match_l2_dest_mac + 6 \<le> n" and inb: "off mask_l2_dest_mac + 6 \<le> n"
    and ins1: "off match_l2_source_mac + 6 \<le> n"
    and ins2: "off mask_l2_source_mac + 6 \<le> n"
    and dab: "off match_l2_dest_mac + 6 \<le> off mask_l2_dest_mac \<or>
              off mask_l2_dest_mac + 6 \<le> off match_l2_dest_mac"
    and ds1a: "off match_l2_source_mac + 6 \<le> off match_l2_dest_mac \<or>
               off match_l2_dest_mac + 6 \<le> off match_l2_source_mac"
    and ds1b: "off match_l2_source_mac + 6 \<le> off mask_l2_dest_mac \<or>
               off mask_l2_dest_mac + 6 \<le> off match_l2_source_mac"
    and ds2a: "off mask_l2_source_mac + 6 \<le> off match_l2_dest_mac \<or>
               off match_l2_dest_mac + 6 \<le> off mask_l2_source_mac"
    and ds2b: "off mask_l2_source_mac + 6 \<le> off mask_l2_dest_mac \<or>
               off mask_l2_dest_mac + 6 \<le> off mask_l2_source_mac"
  shows "acl_mac_step off (dest_mac_key dm mm) i
           (dest_mac_image (off match_l2_dest_mac) (off mask_l2_dest_mac) dm mm i n) =
         Some (dest_mac_image (off match_l2_dest_mac) (off mask_l2_dest_mac) dm mm (Suc i) n)"
proof -
  let ?oa = "off match_l2_dest_mac" and ?ob = "off mask_l2_dest_mac"
  let ?os1 = "off match_l2_source_mac" and ?os2 = "off mask_l2_source_mac"
  let ?img = "dest_mac_image ?oa ?ob dm mm"
  let ?b1 = "(?img i n)[?oa + i := dm ! (5 - i)]"
  let ?b3 = "?b1[?ob + i := mm ! (5 - i)]"
  have z: "[0, 0, 0, 0, 0, 0 :: u8] ! (5 - i) = 0" by (rule nth_zero6) simp
  have s1: "copy_byte (?img i n) (?oa + i) dm (5 - i) = Some ?b1"
    using i dm ina by (intro copy_byte_Some) (simp_all add: length_dest_mac_image)
  have b1z: "?b1 ! (?os1 + i) = 0"
    using i ins1 ds1a ds1b
    by (auto simp add: nth_list_update nth_dest_mac_image length_dest_mac_image)
  have s2: "copy_byte ?b1 (?os1 + i) [0, 0, 0, 0, 0, 0] (5 - i) = Some ?b1"
  proof -
    have "copy_byte ?b1 (?os1 + i) [0, 0, 0, 0, 0, 0] (5 - i) =
            Some (?b1[?os1 + i := [0, 0, 0, 0, 0, 0] ! (5 - i)])"
      using i ins1 by (intro copy_byte_Some) (simp_all add: length_dest_mac_image)
    also have "?b1[?os1 + i := [0, 0, 0, 0, 0, 0] ! (5 - i)] = ?b1"
      unfolding z using b1z by (metis list_update_id)
    finally show ?thesis .
  qed
  have s3: "copy_byte ?b1 (?ob + i) mm (5 - i) = Some ?b3"
    using i mm inb by (intro copy_byte_Some) (simp_all add: length_dest_mac_image)
  have b3z: "?b3 ! (?os2 + i) = 0"
    using i ins2 ds2a ds2b
    by (auto simp add: nth_list_update nth_dest_mac_image length_dest_mac_image)
  have s4: "copy_byte ?b3 (?os2 + i) [0, 0, 0, 0, 0, 0] (5 - i) = Some ?b3"
  proof -
    have "copy_byte ?b3 (?os2 + i) [0, 0, 0, 0, 0, 0] (5 - i) =
            Some (?b3[?os2 + i := [0, 0, 0, 0, 0, 0] ! (5 - i)])"
      using i ins2 by (intro copy_byte_Some) (simp_all add: length_dest_mac_image)
    also have "?b3[?os2 + i := [0, 0, 0, 0, 0, 0] ! (5 - i)] = ?b3"
      unfolding z using b3z by (metis list_update_id)
    finally show ?thesis .
  qed
  have eq: "?b3 = ?img (Suc i) n"
  proof (rule nth_equalityI)
    show "length ?b3 = length (?img (Suc i) n)" by (simp add: length_dest_mac_image)
  next
    fix j assume "j < length ?b3"
    then have j: "j < n" by (simp add: length_dest_mac_image)
    have len: "length (?img i n) = n" by (rule length_dest_mac_image)
    show "?b3 ! j = ?img (Suc i) n ! j"
    proof (cases "j = ?ob + i")
      case True
      have "\<not> (?oa \<le> j \<and> j < ?oa + Suc i)" using True i dab by auto
      moreover have "?ob \<le> j \<and> j < ?ob + Suc i" using True by simp
      moreover have "5 - (j - ?ob) = 5 - i" using True by simp
      moreover have "?b3 ! j = mm ! (5 - i)" using True j by (simp add: len)
      ultimately show ?thesis by (auto simp add: nth_dest_mac_image [OF j])
    next
      case nb: False
      show ?thesis
      proof (cases "j = ?oa + i")
        case True
        have "?oa \<le> j \<and> j < ?oa + Suc i" using True by simp
        moreover have "5 - (j - ?oa) = 5 - i" using True by simp
        moreover have "?b3 ! j = dm ! (5 - i)" using True nb j by (simp add: len)
        ultimately show ?thesis by (auto simp add: nth_dest_mac_image [OF j])
      next
        case na: False
        have "?b3 ! j = ?img i n ! j" using na nb by simp
        moreover have "(?oa \<le> j \<and> j < ?oa + Suc i) = (?oa \<le> j \<and> j < ?oa + i)"
          using na by auto
        moreover have "(?ob \<le> j \<and> j < ?ob + Suc i) = (?ob \<le> j \<and> j < ?ob + i)"
          using nb by auto
        ultimately show ?thesis by (simp only: nth_dest_mac_image [OF j])
      qed
    qed
  qed
  show ?thesis
    unfolding acl_mac_step_def dest_mac_key_simps
    by (simp add: s1 s2 s3 [unfolded eq] s4 [unfolded eq])
qed

lemma mac_members:
  "(match_l2_dest_mac, 6) \<in> set dpsw_prep_acl_entry_members"
  "(match_l2_source_mac, 6) \<in> set dpsw_prep_acl_entry_members"
  "(mask_l2_dest_mac, 6) \<in> set dpsw_prep_acl_entry_members"
  "(mask_l2_source_mac, 6) \<in> set dpsw_prep_acl_entry_members"
  by (simp_all add: dpsw_prep_acl_entry_members_def)

lemma acl_mac_loop_image:
  assumes ok: "acl_layout_ok off n" and dm: "length dm = 6" and mm: "length mm = 6"
    and i: "i \<le> 6"
  shows "acl_mac_loop off (dest_mac_key dm mm) i
           (dest_mac_image (off match_l2_dest_mac) (off mask_l2_dest_mac) dm mm i n) =
         Some (dest_mac_image (off match_l2_dest_mac) (off mask_l2_dest_mac) dm mm 6 n)"
  using i
proof (induction "6 - i" arbitrary: i)
  case 0
  then have "i = 6" by simp
  then show ?case by (subst acl_mac_loop.simps) simp
next
  case (Suc k)
  then have lt: "i < 6" by simp
  have step: "acl_mac_step off (dest_mac_key dm mm) i
           (dest_mac_image (off match_l2_dest_mac) (off mask_l2_dest_mac) dm mm i n) =
         Some (dest_mac_image (off match_l2_dest_mac) (off mask_l2_dest_mac) dm mm (Suc i) n)"
    by (rule acl_mac_step_image [OF lt dm mm
          acl_layout_inside [OF ok mac_members(1)] acl_layout_inside [OF ok mac_members(3)]
          acl_layout_inside [OF ok mac_members(2)] acl_layout_inside [OF ok mac_members(4)]
          acl_layout_disjoint [OF ok mac_members(1) mac_members(3)]
          acl_layout_disjoint [OF ok mac_members(2) mac_members(1)]
          acl_layout_disjoint [OF ok mac_members(2) mac_members(3)]
          acl_layout_disjoint [OF ok mac_members(4) mac_members(1)]
          acl_layout_disjoint [OF ok mac_members(4) mac_members(3)]]) simp_all
  have "k = 6 - Suc i" "Suc i \<le> 6" using Suc.hyps(2) lt by simp_all
  from Suc.hyps(1) [OF this] lt step show ?case
    by (subst acl_mac_loop.simps) simp
qed

lemma fold_store_member_same:
  assumes "\<forall>(m, bs) \<in> set stores.
             off m + length bs \<le> length buf \<and> (\<forall>k<length bs. buf ! (off m + k) = bs ! k)"
  shows "fold (store_member off) stores (Some buf) = Some buf"
  using assms
proof (induction stores)
  case Nil
  show ?case by simp
next
  case (Cons s stores)
  obtain m bs where s: "s = (m, bs)" by (cases s)
  from Cons.prems s have "store_bytes (off m) bs buf = Some buf"
    by (intro store_bytes_same) auto
  then have "store_member off s (Some buf) = Some buf"
    by (simp add: store_member_def s)
  with Cons show ?case by simp
qed

lemma replicate_small:
  "replicate 1 x = [x]" "replicate 2 x = [x, x]" "replicate 4 x = [x, x, x, x]"
  by (simp_all add: numeral_eq_Suc)

lemma scalar_stores_dest_mac_key:
  "acl_scalar_stores (dest_mac_key dm mm) =
     map (\<lambda>(m, w). (m, replicate w 0)) (drop 4 dpsw_prep_acl_entry_members)"
  by (simp add: acl_scalar_stores_def dest_mac_key_def zero_acl_fields_def
        dpsw_prep_acl_entry_members_def cpu_to_le16_def cpu_to_le32_def replicate_small)

lemma scalar_members_not_dest_mac:
  "\<forall>(m, w) \<in> set (drop 4 dpsw_prep_acl_entry_members).
     m \<noteq> match_l2_dest_mac \<and> m \<noteq> mask_l2_dest_mac"
  by (simp add: dpsw_prep_acl_entry_members_def)

lemma example_acl_offsets_ok: "acl_layout_ok example_acl_offsets 256"
  by (simp add: acl_layout_ok_def dpsw_prep_acl_entry_members_def example_acl_offsets_def)

lemma prepare_dest_mac_key_image:
  assumes ok: "acl_layout_ok off n" and dm: "length dm = 6" and mm: "length mm = 6"
  shows "dpsw_acl_prepare_entry_cfg off (dest_mac_key dm mm) (replicate n 0) =
           Some (dest_mac_image (off match_l2_dest_mac) (off mask_l2_dest_mac) dm mm 6 n)"
proof -
  let ?oa = "off match_l2_dest_mac" and ?ob = "off mask_l2_dest_mac"
  let ?img = "dest_mac_image ?oa ?ob dm mm 6 n"
  have loop: "acl_mac_loop off (dest_mac_key dm mm) 0 (replicate n 0) = Some ?img"
    using acl_mac_loop_image [OF ok dm mm, of 0] by (simp add: dest_mac_image_0)
  have "\<forall>(m, bs) \<in> set (map (\<lambda>(m, w). (m, replicate w 0)) (drop 4 dpsw_prep_acl_entry_members)).
          off m + length bs \<le> length ?img \<and> (\<forall>k<length bs. ?img ! (off m + k) = bs ! k)"
  proof (clarsimp simp add: length_dest_mac_image)
    fix m w k
    assume mw: "(m, w) \<in> set (drop 4 dpsw_prep_acl_entry_members)"
    then have mem: "(m, w) \<in> set dpsw_prep_acl_entry_members" by (rule in_set_dropD)
    from mw scalar_members_not_dest_mac have ne: "m \<noteq> match_l2_dest_mac" "m \<noteq> mask_l2_dest_mac"
      by auto
    have inside: "off m + w \<le> n" by (rule acl_layout_inside [OF ok mem])
    have da: "off m + w \<le> ?oa \<or> ?oa + 6 \<le> off m"
      by (rule acl_layout_disjoint [OF ok mem mac_members(1) ne(1)])
    have db: "off m + w \<le> ?ob \<or> ?ob + 6 \<le> off m"
      by (rule acl_layout_disjoint [OF ok mem mac_members(3) ne(2)])
    show "off m + w \<le> n \<and> (\<forall>k<w. ?img ! (off m + k) = 0)"
      using inside da db by (auto simp add: nth_dest_mac_image)
  qed
  then have "fold (store_member off) (acl_scalar_stores (dest_mac_key dm mm)) (Some ?img) = Some ?img"
    unfolding scalar_stores_dest_mac_key by (rule fold_store_member_same)
  then show ?thesis
    by (simp add: dpsw_acl_prepare_entry_cfg_def loop)
qed

text \<open>
  C7. For every layout of the struct inside 256 bytes, a key whose only nonzero fields
  are the match and the mask of \<^verbatim>\<open>l2_dest_mac\<close>, flattened into 256 zero bytes, gives a
  256-byte buffer in which the match region and the mask region of the destination
  address hold the two addresses back to front and every other byte is zero.
\<close>

theorem acl_prepare_dest_mac_only:
  assumes ok: "acl_layout_ok off 256"
    and dm: "length match_mac = 6" and mm: "length mask_mac = 6"
  shows "\<exists>buf. dpsw_acl_prepare_entry_cfg off (dest_mac_key match_mac mask_mac) (replicate 256 0)
                 = Some buf \<and>
               length buf = 256 \<and>
               (\<forall>i<6. buf ! (off match_l2_dest_mac + i) = match_mac ! (5 - i)) \<and>
               (\<forall>i<6. buf ! (off mask_l2_dest_mac + i) = mask_mac ! (5 - i)) \<and>
               take 6 (drop (off match_l2_dest_mac) buf) = rev match_mac \<and>
               take 6 (drop (off mask_l2_dest_mac) buf) = rev mask_mac \<and>
               (\<forall>j<256. \<not> (off match_l2_dest_mac \<le> j \<and> j < off match_l2_dest_mac + 6) \<longrightarrow>
                        \<not> (off mask_l2_dest_mac \<le> j \<and> j < off mask_l2_dest_mac + 6) \<longrightarrow>
                        buf ! j = 0)"
proof -
  let ?oa = "off match_l2_dest_mac" and ?ob = "off mask_l2_dest_mac"
  let ?img = "dest_mac_image ?oa ?ob match_mac mask_mac 6 256"
  have ina: "?oa + 6 \<le> 256" by (rule acl_layout_inside [OF ok mac_members(1)])
  have inb: "?ob + 6 \<le> 256" by (rule acl_layout_inside [OF ok mac_members(3)])
  have dab: "?oa + 6 \<le> ?ob \<or> ?ob + 6 \<le> ?oa"
    by (rule acl_layout_disjoint [OF ok mac_members(1) mac_members(3)]) simp
  have r: "dpsw_acl_prepare_entry_cfg off (dest_mac_key match_mac mask_mac) (replicate 256 0)
             = Some ?img"
    by (rule prepare_dest_mac_key_image [OF ok dm mm])
  have l: "length ?img = 256" by (rule length_dest_mac_image)
  have a: "?img ! (?oa + i) = match_mac ! (5 - i)" if "i < 6" for i
    using that ina by (simp add: nth_dest_mac_image)
  have b: "?img ! (?ob + i) = mask_mac ! (5 - i)" if "i < 6" for i
    using that inb dab by (auto simp add: nth_dest_mac_image)
  have ta: "take 6 (drop ?oa ?img) = rev match_mac"
    using ina dm by (intro nth_equalityI) (auto simp add: l a rev_nth6)
  have tb: "take 6 (drop ?ob ?img) = rev mask_mac"
    using inb mm by (intro nth_equalityI) (auto simp add: l b rev_nth6)
  have z: "\<forall>j<256. \<not> (?oa \<le> j \<and> j < ?oa + 6) \<longrightarrow> \<not> (?ob \<le> j \<and> j < ?ob + 6) \<longrightarrow> ?img ! j = 0"
    by (simp add: nth_dest_mac_image)
  from r l a b ta tb z show ?thesis by blast
qed

theorem acl_prepare_dest_mac_only_witness:
  "\<exists>buf. dpsw_acl_prepare_entry_cfg example_acl_offsets
            (dest_mac_key [1, 2, 3, 4, 5, 6] [255, 255, 255, 0, 0, 0]) (replicate 256 0) = Some buf \<and>
         length buf = 256 \<and>
         take 6 (drop 0 buf) = [6, 5, 4, 3, 2, 1] \<and>
         take 6 (drop 32 buf) = [0, 0, 0, 255, 255, 255] \<and>
         buf ! 8 = 0 \<and> buf ! 255 = 0"
proof -
  have h1: "length [1, 2, 3, 4, 5, 6 :: u8] = 6" by simp
  have h2: "length [255, 255, 255, 0, 0, 0 :: u8] = 6" by simp
  have o: "example_acl_offsets match_l2_dest_mac = 0" "example_acl_offsets mask_l2_dest_mac = 32"
    by (simp_all add: example_acl_offsets_def)
  from acl_prepare_dest_mac_only [OF example_acl_offsets_ok h1 h2]
  obtain buf where
    b: "dpsw_acl_prepare_entry_cfg example_acl_offsets
            (dest_mac_key [1, 2, 3, 4, 5, 6] [255, 255, 255, 0, 0, 0]) (replicate 256 0) = Some buf"
       "length buf = 256"
       "take 6 (drop (example_acl_offsets match_l2_dest_mac) buf) = rev [1, 2, 3, 4, 5, 6]"
       "take 6 (drop (example_acl_offsets mask_l2_dest_mac) buf) = rev [255, 255, 255, 0, 0, 0]"
    and z: "\<forall>j<256. \<not> (example_acl_offsets match_l2_dest_mac \<le> j \<and>
                         j < example_acl_offsets match_l2_dest_mac + 6) \<longrightarrow>
                     \<not> (example_acl_offsets mask_l2_dest_mac \<le> j \<and>
                         j < example_acl_offsets mask_l2_dest_mac + 6) \<longrightarrow> buf ! j = 0"
    by blast
  from z have "buf ! 8 = 0" "buf ! 255 = 0" by (simp_all add: o)
  with b show ?thesis by (auto simp add: o)
qed

end
